(* ===== verification/Prelude.thy ===== *)
theory Prelude
  imports Main "HOL-Library.Word"
begin

text \<open>
  Shared vocabulary of the development: the machine types of the 3DS (ARM11, 32-bit
  little-endian) as word types, the collections of unfolding rules the component theories
  register their definitions in, and the generic lemmas on words and lists that more than
  one component uses: narrowing casts (\<open>int64_t\<close> arithmetic stored into a \<open>u32\<close>),
  page masks, and clamping by \<open>if a > b then b else a\<close>.
\<close>

unbundle bit_operations_syntax

type_synonym u8 = "8 word"
type_synonym u32 = "32 word"
type_synonym s64 = "64 word" \<comment> \<open>the bit pattern of an \<open>int64_t\<close>\<close>

named_theorems ctr_defs "definitions of the 3DS platform driver model, unfolded together"
named_theorems path_defs "definitions of the libretro path helpers"

subsection \<open>Narrowing casts\<close>

text \<open>
  C converts an \<open>int64_t\<close> result to \<open>u32\<close> by reducing it modulo \<open>2^32\<close>; on words this
  is \<open>ucast\<close> from 64 to 32 bits, which commutes with the ring operations and with the
  bitwise ones.
\<close>

lemma take_bit_diff_narrow:
  "m \<le> n \<Longrightarrow> take_bit m (take_bit n (x::int) - take_bit n y) = take_bit m (x - y)"
  by (metis take_bit_diff take_bit_take_bit min.absorb1)

lemma take_bit_add_narrow:
  "m \<le> n \<Longrightarrow> take_bit m (take_bit n (x::int) + take_bit n y) = take_bit m (x + y)"
  by (metis take_bit_add take_bit_take_bit min.absorb1)

lemma ucast_down_diff:
  "LENGTH('b) \<le> LENGTH('a) \<Longrightarrow>
     (ucast (x - y :: 'a::len word) :: 'b::len word) = ucast x - ucast y"
  by transfer (simp add: take_bit_diff_narrow)

lemma ucast_down_add:
  "LENGTH('b) \<le> LENGTH('a) \<Longrightarrow>
     (ucast (x + y :: 'a::len word) :: 'b::len word) = ucast x + ucast y"
  by transfer (simp add: take_bit_add_narrow)

lemma ucast_and_distrib:
  "(ucast (x AND y :: 'a::len word) :: 'b::len word) = ucast x AND ucast y"
  by (rule bit_word_eqI) (auto simp: bit_simps)

lemma ucast_32_64_32 [simp]: "(ucast (ucast (x :: u32) :: s64) :: u32) = x"
  by (rule bit_word_eqI) (auto simp: bit_simps)

lemma unat_u32_less [simp]: "unat (x :: u32) < 4294967296"
  using unsigned_less [of x] by simp

lemma unat_ucast_u32_s64 [simp]: "unat (ucast (x :: u32) :: s64) = unat x"
proof -
  have "unat x < 18446744073709551616"
    using unat_u32_less [of x] by linarith
  then show ?thesis
    by (simp add: unsigned_ucast_eq take_bit_nat_eq_self_iff)
qed

subsection \<open>Lists\<close>

lemma in_set_tlD: "x \<in> set (tl xs) \<Longrightarrow> x \<in> set xs"
  by (cases xs) simp_all

lemma sorted_le_last: "sorted xs \<Longrightarrow> x \<in> set xs \<Longrightarrow> x \<le> last xs"
  by (induction xs) (auto simp: last_in_set)

subsection \<open>Clamping and masks\<close>

lemma clamp_le_bound: "(if (a::'a::linorder) > b then b else a) \<le> b"
  by (simp add: not_less)

lemma clamp_le_self: "(if (a::'a::linorder) > b then b else a) \<le> a"
  by (simp add: less_imp_le)

lemma and_page_mask_aligned:
  "((x :: u32) AND 0xFFFFF000) AND 0xFFF = 0"
  by (simp add: and.assoc)

lemma unat_and_le_left: "unat ((x :: 'a::len word) AND y) \<le> unat x"
  by (simp add: word_and_le2 word_le_nat_alt [symmetric])

lemma unat_and_le_right: "unat ((x :: 'a::len word) AND y) \<le> unat y"
  by (simp add: word_and_le1 word_le_nat_alt [symmetric])

lemma unat_and_page_mask: "unat (x AND 0xFFFFF000 :: u32) = unat x div 4096 * 4096"
proof -
  have c: "(0xFFFFF000 :: u32) = NOT (mask 12)" by (simp add: mask_eq_exp_minus_1)
  have hi: "(x AND NOT (mask 12) :: u32) = drop_bit 12 x * 4096"
    unfolding push_bit_eq_mult [symmetric, where n = 12, simplified]
    by (rule bit_word_eqI) (auto simp: bit_simps)
  have d: "unat (drop_bit 12 x) = unat x div 4096"
    by (simp only: unat_drop_bit_eq) (simp add: drop_bit_eq_div)
  have "unat x div 4096 < 1048576" by (rule less_mult_imp_div_less) simp
  then have "unat x div 4096 * 4096 < 2 ^ LENGTH(32)" by simp
  then have "unat (drop_bit 12 x * 4096) = unat (drop_bit 12 x) * unat (4096 :: u32)"
    using d by (simp add: unat_mult_lem [THEN iffD1])
  then show ?thesis using c hi d by simp
qed

subsection \<open>Powers of two and signed values\<close>

lemma unat_pow2_u32: "k < 32 \<Longrightarrow> unat (2 ^ k :: u32) = 2 ^ k"
proof -
  assume k: "k < 32"
  have lt: "(2::nat) ^ k < 2 ^ 32" using k by (intro power_strict_increasing) auto
  have "unat (word_of_nat (2 ^ k) :: u32) = 2 ^ k mod 2 ^ 32"
    by (simp only: unat_of_nat) simp
  also have "\<dots> = 2 ^ k" using lt by simp
  also have "(word_of_nat (2 ^ k) :: u32) = 2 ^ k"
    by (metis of_nat_numeral of_nat_power)
  finally show ?thesis .
qed

lemma word_of_nat_unat_u32 [simp]: "word_of_nat (unat (w :: u32)) = w"
  by (simp add: of_nat_unat)

lemma sint_nonneg_unat_u32: "0 \<le> sint (x :: u32) \<Longrightarrow> unat x < 2 ^ 31"
proof -
  assume h: "0 \<le> sint x"
  have b: "\<not> bit x 31" using h bit_last_iff [of x] by simp
  have "take_bit 31 x = x"
  proof (rule bit_word_eqI)
    fix n assume "n < LENGTH(32)"
    then show "bit (take_bit 31 x) n = bit x n" using b by (cases "n = 31") (auto simp: bit_take_bit_iff)
  qed
  then have "unat x = take_bit 31 (unat x)" by (metis unsigned_take_bit_eq)
  also have "\<dots> < 2 ^ 31" by (rule take_bit_nat_less_exp)
  finally show ?thesis .
qed


text \<open>A block that fits below an end address: the sum does not wrap.\<close>

lemma unat_add_fits:
  assumes "unat (n :: 'a::len word) \<le> unat (e :: 'a word) - unat t"
  shows "unat (t + n) = unat t + unat n"
proof (cases "n = 0")
  case False
  then have "unat t + unat n \<le> unat e" using assms by (simp add: unat_gt_0 [symmetric])
  then have "unat t + unat n < 2 ^ LENGTH('a)" using unsigned_less [of e, where ?'a = nat] by linarith
  then show ?thesis by (rule unat_add_lem [THEN iffD1])
qed simp

end
