(* ===== verification/CtrHeap.thy ===== *)
theory CtrHeap
  imports Prelude
begin

text \<open>
  Heap reservation and process exit of the 3DS port
  (\<open>src/frontend/drivers/platform_ctr.c\<close>, \<open>__system_allocateHeaps\<close> and
  \<open>__libctru_exit\<close>). The C globals \<open>__heap_size\<close>, \<open>__linear_heap_size\<close>,
  \<open>__heapBase\<close>, \<open>__linear_heap\<close>, \<open>fake_heap_start\<close> and \<open>fake_heap_end\<close> form the
  record \<open>heap_globals\<close>; what the code reads from the system and the loader
  (\<open>svcGetSystemInfo\<close>, \<open>__service_ptr\<close>, \<open>*CTR_APPMEMALLOC_PTR\<close>, the \<open>_hbl\<close> sizes,
  the address the kernel returns for the linear heap, \<open>__system_retAddr\<close>) is the
  record \<open>ctr_sysinfo\<close>. The kernel calls are recorded, in order, as a list of
  \<open>svc_call\<close> values; \<open>kernel_regions\<close> reads such a list as the effect of
  \<open>svcControlMemory\<close> on the list of mapped regions (the kernel itself is outside the
  repository and is modelled from the spec's reserve/release primitives). \<open>heap_size_spec\<close> states in
  natural numbers what the clamping of \<open>__heap_size\<close> means, and the 32-bit code is shown
  to refine it when the reserve fits.
\<close>

unbundle bit_operations_syntax

datatype memop = MEMOP_FREE | MEMOP_ALLOC | MEMOP_ALLOC_LINEAR

definition MEMPERM_READ :: u32 where "MEMPERM_READ = 1"
definition MEMPERM_WRITE :: u32 where "MEMPERM_WRITE = 2"

text \<open>\<open>SvcControlMemory addr0 addr1 size op perm\<close> is \<open>svcControlMemory(&out, addr0,
  addr1, size, op, perm)\<close>.\<close>

datatype svc_call =
    SvcGetSystemInfo
  | SvcControlMemory u32 u32 u32 memop u32
  | DestroyHandleList
  | CallSystemRetAddr
  | SvcExitProcess

record heap_globals =
  linear_heap :: u32
  heapBase :: u32
  heap_size :: u32
  linear_heap_size :: u32
  fake_heap_start :: u32
  fake_heap_end :: u32

record ctr_sysinfo =
  mem_used :: s64
  service_ptr :: u32
  appmemalloc :: u32
  linear_heap_size_hbl :: u32
  heap_size_hbl :: u32
  linear_alloc_addr :: u32
  system_retAddr :: bool

subsection \<open>\<open>__system_allocateHeaps\<close>\<close>

text \<open>
  \<open>app_memory\<close>: under the homebrew launcher (\<open>__service_ptr\<close> non-zero) the sum
  \<open>mem_used + __linear_heap_size_hbl + __heap_size_hbl\<close> is computed in \<open>int64_t\<close>
  and stored into a \<open>u32\<close>, then raised to at least 64 MiB; otherwise it is read from
  the kernel's shared page.
\<close>

definition app_memory :: "ctr_sysinfo \<Rightarrow> u32" where
  "app_memory si =
     (if service_ptr si \<noteq> 0 then
        (let m = (ucast (mem_used si + ucast (linear_heap_size_hbl si)
                         + ucast (heap_size_hbl si)) :: u32)
         in if m < 0x04000000 then 0x04000000 else m)
      else appmemalloc si)"

text \<open>
  \<open>mem_available\<close>: \<open>(app_memory - mem_used - __linear_heap_size - 0x10000) & 0xFFFFF000\<close>
  is evaluated in \<open>int64_t\<close> (\<open>mem_used\<close> is \<open>int64_t\<close>; the mask is an
  \<open>unsigned int\<close> constant, zero-extended) and the result stored into a \<open>u32\<close>.
\<close>

definition mem_available :: "ctr_sysinfo \<Rightarrow> heap_globals \<Rightarrow> u32" where
  "mem_available si g =
     ucast ((ucast (app_memory si) - mem_used si - ucast (linear_heap_size g) - 0x10000)
            AND (0xFFFFF000 :: s64))"

definition system_allocateHeaps :: "ctr_sysinfo \<Rightarrow> heap_globals \<Rightarrow> heap_globals \<times> svc_call list" where
  "system_allocateHeaps si g =
     (let avail = mem_available si g;
          hs1 = (if heap_size g > avail then avail else heap_size g);
          hs2 = (if hs1 > 0x6000000 then 0x6000000 else hs1);
          base = (0x08000000 :: u32);
          perm = MEMPERM_READ OR MEMPERM_WRITE
      in (g\<lparr>heap_size := hs2, heapBase := base, linear_heap := linear_alloc_addr si,
            fake_heap_start := base, fake_heap_end := base + hs2\<rparr>,
          [SvcGetSystemInfo,
           SvcControlMemory base 0 hs2 MEMOP_ALLOC perm,
           SvcControlMemory 0 0 (linear_heap_size g) MEMOP_ALLOC_LINEAR perm]))"

subsection \<open>\<open>__libctru_exit\<close>\<close>

text \<open>
  The linear heap is unmapped first, then the application heap, then the handles are
  closed; the loader's return callback is called when there is one, and
  \<open>svcExitProcess\<close> is reached when it is absent or returns.
\<close>

definition libctru_exit :: "ctr_sysinfo \<Rightarrow> heap_globals \<Rightarrow> svc_call list" where
  "libctru_exit si g =
     [SvcControlMemory (linear_heap g) 0 (linear_heap_size g) MEMOP_FREE 0,
      SvcControlMemory (heapBase g) 0 (heap_size g) MEMOP_FREE 0,
      DestroyHandleList]
     @ (if system_retAddr si then [CallSystemRetAddr] else [])
     @ [SvcExitProcess]"

subsection \<open>The kernel's mapped regions\<close>

text \<open>
  Each region is an address and a size. \<open>MEMOP_ALLOC\<close> maps the region at the given
  address; \<open>MEMOP_ALLOC_LINEAR\<close> maps one at the address the kernel chooses (\<open>la\<close>);
  \<open>MEMOP_FREE\<close> unmaps the region with that address and size.
\<close>

fun kernel_regions :: "u32 \<Rightarrow> (u32 \<times> u32) list \<Rightarrow> svc_call list \<Rightarrow> (u32 \<times> u32) list" where
  "kernel_regions la R [] = R"
| "kernel_regions la R (SvcControlMemory a _ sz MEMOP_ALLOC _ # cs) = kernel_regions la ((a, sz) # R) cs"
| "kernel_regions la R (SvcControlMemory _ _ sz MEMOP_ALLOC_LINEAR _ # cs) = kernel_regions la ((la, sz) # R) cs"
| "kernel_regions la R (SvcControlMemory a _ sz MEMOP_FREE _ # cs) = kernel_regions la (remove1 (a, sz) R) cs"
| "kernel_regions la R (_ # cs) = kernel_regions la R cs"

subsection \<open>Specification in natural numbers\<close>

text \<open>What the clamping means: the pages left in the application memory once the memory
  in use, the linear heap and a 64 KiB reserve are taken away (none when they do not
  fit), and the requested heap cut down to them and to 96 MiB.\<close>

definition avail_spec :: "ctr_sysinfo \<Rightarrow> heap_globals \<Rightarrow> nat" where
  "avail_spec si g =
     (unat (app_memory si) - unat (mem_used si) - unat (linear_heap_size g) - 0x10000) div 4096 * 4096"

definition heap_size_spec :: "ctr_sysinfo \<Rightarrow> heap_globals \<Rightarrow> nat" where
  "heap_size_spec si g = min (unat (heap_size g)) (min (avail_spec si g) 0x6000000)"

subsection \<open>Example configurations\<close>

text \<open>A console launched without the homebrew launcher: 96 MiB of application memory,
  8 MiB already in use, a 16 MiB linear heap and a 64 MiB application heap requested.\<close>

definition ctr_example_sysinfo :: ctr_sysinfo where
  "ctr_example_sysinfo = \<lparr>mem_used = 0x800000, service_ptr = 0, appmemalloc = 0x6000000,
     linear_heap_size_hbl = 0, heap_size_hbl = 0, linear_alloc_addr = 0x14000000,
     system_retAddr = False\<rparr>"

definition ctr_example_globals :: heap_globals where
  "ctr_example_globals = \<lparr>linear_heap = 0, heapBase = 0, heap_size = 0x4000000,
     linear_heap_size = 0x1000000, fake_heap_start = 0, fake_heap_end = 0\<rparr>"

text \<open>A configuration in which the memory already used and the linear heap exceed the
  application memory, so that the subtraction in \<open>mem_available\<close> wraps around; a
  128 MiB heap is requested.\<close>

definition ctr_overcommit_sysinfo :: ctr_sysinfo where
  "ctr_overcommit_sysinfo = \<lparr>mem_used = 0x04000000, service_ptr = 0, appmemalloc = 0x04000000,
     linear_heap_size_hbl = 0, heap_size_hbl = 0, linear_alloc_addr = 0x14000000,
     system_retAddr = False\<rparr>"

definition ctr_overcommit_globals :: heap_globals where
  "ctr_overcommit_globals = \<lparr>linear_heap = 0, heapBase = 0, heap_size = 0x8000000,
     linear_heap_size = 0x1000000, fake_heap_start = 0, fake_heap_end = 0\<rparr>"

lemmas heap_defs [ctr_defs] = system_allocateHeaps_def libctru_exit_def
lemmas heap_example_defs = ctr_example_sysinfo_def ctr_example_globals_def
  ctr_overcommit_sysinfo_def ctr_overcommit_globals_def

subsection \<open>Lemmas\<close>

lemma kernel_regions_append:
  "kernel_regions la R (xs @ ys) = kernel_regions la (kernel_regions la R xs) ys"
  by (induction la R xs rule: kernel_regions.induct) simp_all

lemma heap_size_allocate:
  "heap_size (fst (system_allocateHeaps si g)) =
     (let hs1 = (if heap_size g > mem_available si g then mem_available si g else heap_size g)
      in if hs1 > 0x6000000 then 0x6000000 else hs1)"
  by (simp add: system_allocateHeaps_def Let_def)

lemma heap_size_allocate_le_avail:
  "heap_size (fst (system_allocateHeaps si g)) \<le> mem_available si g"
  by (auto simp: heap_size_allocate Let_def)

lemma heap_size_allocate_le_cap:
  "heap_size (fst (system_allocateHeaps si g)) \<le> 0x6000000"
  by (auto simp: heap_size_allocate Let_def)

lemma heap_size_allocate_le_old:
  "heap_size (fst (system_allocateHeaps si g)) \<le> heap_size g"
  by (auto simp: heap_size_allocate Let_def)

text \<open>The \<open>int64_t\<close> evaluation of \<open>mem_available\<close> agrees with the same expression
  evaluated in 32-bit unsigned arithmetic.\<close>

theorem mem_available_u32:
  "mem_available si g =
     (app_memory si - ucast (mem_used si) - linear_heap_size g - 0x10000) AND 0xFFFFF000"
  by (simp add: mem_available_def ucast_and_distrib ucast_down_diff)

lemma mem_available_aligned: "mem_available si g AND 0xFFF = 0"
  by (simp add: mem_available_u32 and_page_mask_aligned)

lemma unat_sub_chain:
  assumes "unat b + unat c + unat d \<le> unat (a::'a::len word)"
  shows "unat (a - b - c - d) = unat a - unat b - unat c - unat d"
proof -
  have "unat (a - b) = unat a - unat b"
    using assms by (simp add: unat_sub word_le_nat_alt)
  then have "unat (a - b - c) = unat a - unat b - unat c"
    using assms by (simp add: unat_sub word_le_nat_alt)
  then show ?thesis
    using assms by (simp add: unat_sub word_le_nat_alt)
qed

lemma unat_ucast_mem_used:
  "unat (mem_used si) < 4294967296 \<Longrightarrow> unat (ucast (mem_used si) :: u32) = unat (mem_used si)"
  by (simp add: unsigned_ucast_eq take_bit_eq_mod)

text \<open>A 32-bit subtraction that goes below zero wraps around to \<open>2^32\<close> minus the deficit.\<close>

lemma unat_sub_wrap:
  fixes a :: u32
  assumes "unat a < k" and "k - unat a < 2 ^ 32"
  shows "unat (a - word_of_nat k) = 2 ^ 32 - (k - unat a)"
proof -
  define D where "D = k - unat a"
  have D0: "0 < D" and D1: "D < 2 ^ 32" using assms by (simp_all add: D_def)
  have "word_of_nat D = word_of_nat k - (a :: u32)"
    using assms(1) by (simp add: D_def of_nat_diff)
  then have "a - word_of_nat k = - (word_of_nat D :: u32)" by (simp add: algebra_simps)
  moreover have "(word_of_nat (2 ^ 32 - D) :: u32) = - word_of_nat D"
    using D1 by (simp add: of_nat_diff)
  moreover have "unat (word_of_nat (2 ^ 32 - D) :: u32) = 2 ^ 32 - D"
    using D0 by (simp add: unat_of_nat)
  ultimately show ?thesis unfolding D_def [symmetric] by metis
qed

lemma page_floor_ge: "(c::nat) mod 4096 = 0 \<Longrightarrow> c \<le> x \<Longrightarrow> c \<le> x div 4096 * 4096"
proof -
  assume "c mod 4096 = 0" and "c \<le> x"
  then have "4096 dvd c" by (simp add: dvd_eq_mod_eq_0)
  then have "c = c div 4096 * 4096" by (rule dvd_div_mult_self [symmetric])
  also have "\<dots> \<le> x div 4096 * 4096" using \<open>c \<le> x\<close> by (intro mult_le_mono1 div_le_mono)
  finally show ?thesis .
qed

lemma mem_available_fit:
  assumes fit: "unat (mem_used si) + unat (linear_heap_size g) + 0x10000 \<le> unat (app_memory si)"
  shows "unat (mem_available si g) = avail_spec si g"
proof -
  have mu: "unat (ucast (mem_used si) :: u32) = unat (mem_used si)"
    using fit unat_u32_less [of "app_memory si"] by (intro unat_ucast_mem_used) linarith
  have "unat (app_memory si - ucast (mem_used si) - linear_heap_size g - 0x10000)
          = unat (app_memory si) - unat (mem_used si) - unat (linear_heap_size g) - 0x10000"
    using fit mu unat_sub_chain [where a = "app_memory si" and b = "ucast (mem_used si)"
        and c = "linear_heap_size g" and d = "0x10000"]
    by simp
  then show ?thesis by (simp add: mem_available_u32 unat_and_page_mask avail_spec_def)
qed

subsection \<open>Properties\<close>

text \<open>C3: when the memory already in use, the linear heap and the 64 KiB reserve fit in
  the application memory, the application heap reserved by \<open>__system_allocateHeaps\<close>
  fits in what remains: all three together never exceed the application memory.\<close>

theorem heaps_fit_app_memory:
  assumes fit: "unat (mem_used si) + unat (linear_heap_size g) + 0x10000 \<le> unat (app_memory si)"
  shows "unat (mem_used si) + unat (linear_heap_size g) + 0x10000
           + unat (heap_size (fst (system_allocateHeaps si g))) \<le> unat (app_memory si)"
proof -
  have "unat (mem_available si g)
      \<le> unat (app_memory si) - unat (mem_used si) - unat (linear_heap_size g) - 0x10000"
    using mem_available_fit [OF fit] by (simp add: avail_spec_def)
  moreover have "unat (heap_size (fst (system_allocateHeaps si g))) \<le> unat (mem_available si g)"
    using heap_size_allocate_le_avail word_le_nat_alt by blast
  ultimately show ?thesis
    using fit by linarith
qed

theorem heaps_fit_app_memory_witness:
  "unat (mem_used ctr_example_sysinfo) + unat (linear_heap_size ctr_example_globals) + 0x10000
     \<le> unat (app_memory ctr_example_sysinfo) \<and>
   unat (mem_used ctr_example_sysinfo) + unat (linear_heap_size ctr_example_globals) + 0x10000
     + unat (heap_size (fst (system_allocateHeaps ctr_example_sysinfo ctr_example_globals)))
     \<le> unat (app_memory ctr_example_sysinfo)"
proof -
  have h: "unat (mem_used ctr_example_sysinfo) + unat (linear_heap_size ctr_example_globals) + 0x10000
     \<le> unat (app_memory ctr_example_sysinfo)"
    by (simp add: heap_example_defs app_memory_def)
  show ?thesis
    using h heaps_fit_app_memory [OF h] by simp
qed

text \<open>The newlib heap handed to \<open>sbrk\<close> starts at \<open>0x08000000\<close>, is exactly
  \<open>__heap_size\<close> bytes long, and its end does not wrap around: it lies below
  \<open>0x0E000000\<close>, inside the application heap region.\<close>

theorem newlib_heap_in_app_region:
  "fake_heap_start (fst (system_allocateHeaps si g)) = 0x08000000 \<and>
   unat (fake_heap_end (fst (system_allocateHeaps si g))) =
     unat (fake_heap_start (fst (system_allocateHeaps si g)))
     + unat (heap_size (fst (system_allocateHeaps si g))) \<and>
   unat (fake_heap_end (fst (system_allocateHeaps si g))) \<le> 0x0E000000"
proof -
  define h where "h = heap_size (fst (system_allocateHeaps si g))"
  have h6: "unat h \<le> 0x6000000"
    using heap_size_allocate_le_cap [of si g] by (simp add: h_def word_le_nat_alt)
  have e: "fake_heap_end (fst (system_allocateHeaps si g)) = 0x08000000 + h"
    by (simp add: system_allocateHeaps_def Let_def h_def)
  have "unat (0x08000000 + h) = 0x08000000 + unat h"
    using h6 by (simp add: unat_word_ariths)
  then show ?thesis
    using h6 e by (simp add: system_allocateHeaps_def Let_def h_def)
qed

text \<open>The heap size is clamped to both the available memory and 96 MiB, and never grows.\<close>

theorem heap_size_clamped:
  "heap_size (fst (system_allocateHeaps si g)) \<le> mem_available si g \<and>
   heap_size (fst (system_allocateHeaps si g)) \<le> 0x6000000 \<and>
   heap_size (fst (system_allocateHeaps si g)) \<le> heap_size g"
  using heap_size_allocate_le_avail heap_size_allocate_le_cap heap_size_allocate_le_old
  by blast

text \<open>A page-aligned requested heap size stays page-aligned after clamping, as
  \<open>svcControlMemory\<close> requires: \<open>mem_available\<close> is masked to 4 KiB pages and the
  96 MiB cap is a multiple of 4 KiB.\<close>

theorem heap_size_page_aligned:
  "heap_size g AND 0xFFF = 0 \<Longrightarrow> heap_size (fst (system_allocateHeaps si g)) AND 0xFFF = 0"
  by (simp add: heap_size_allocate Let_def mem_available_aligned)

text \<open>\<open>__libctru_exit\<close> unmaps exactly the two regions \<open>__system_allocateHeaps\<close>
  mapped: read as kernel effects, allocation followed by exit leaves the kernel's mapped
  regions as they were.\<close>

theorem allocate_exit_regions:
  "kernel_regions (linear_alloc_addr si) R
     (snd (system_allocateHeaps si g) @ libctru_exit si (fst (system_allocateHeaps si g))) = R"
  by (simp add: system_allocateHeaps_def libctru_exit_def Let_def kernel_regions_append)

text \<open>C19: whenever the memory in use, the linear heap and the 64 KiB reserve exceed the
  application memory (by less than the address space minus 96 MiB), the subtraction in
  \<open>mem_available\<close> wraps around to at least 96 MiB, so the clamp to the available memory
  has no effect: the heap is the requested size cut only to 96 MiB, where the
  specification leaves no memory for it at all.\<close>

theorem heap_overcommit_on_wrap:
  assumes over: "unat (app_memory si) < unat (mem_used si) + unat (linear_heap_size g) + 0x10000"
    and bound: "unat (mem_used si) + unat (linear_heap_size g) + 0x10000 - unat (app_memory si) \<le> 0xFA000000"
  shows "heap_size_spec si g = 0 \<and>
         heap_size (fst (system_allocateHeaps si g)) = min (heap_size g) 0x6000000"
proof
  show "heap_size_spec si g = 0"
    using over by (simp add: heap_size_spec_def avail_spec_def)
next
  define k where "k = unat (mem_used si) + unat (linear_heap_size g) + 0x10000"
  have eq: "app_memory si - ucast (mem_used si) - linear_heap_size g - 0x10000 = app_memory si - word_of_nat k"
    by (simp add: k_def of_nat_unat)
  have w: "unat (app_memory si - word_of_nat k) = 2 ^ 32 - (k - unat (app_memory si))"
    using over bound by (intro unat_sub_wrap) (simp_all add: k_def)
  have "unat (mem_available si g) = (2 ^ 32 - (k - unat (app_memory si))) div 4096 * 4096"
    by (simp only: mem_available_u32 eq unat_and_page_mask w)
  moreover have "(0x6000000::nat) \<le> 2 ^ 32 - (k - unat (app_memory si))"
    using bound by (simp add: k_def)
  ultimately have "unat (0x6000000 :: u32) \<le> unat (mem_available si g)"
    using page_floor_ge [of "0x6000000"] by simp
  then have "0x6000000 \<le> mem_available si g" by (simp only: word_le_nat_alt)
  then show "heap_size (fst (system_allocateHeaps si g)) = min (heap_size g) 0x6000000"
    by (auto simp: heap_size_allocate Let_def min_def)
qed

theorem heap_overcommit_on_wrap_witness:
  "heap_size_spec ctr_overcommit_sysinfo ctr_overcommit_globals = 0 \<and>
   heap_size (fst (system_allocateHeaps ctr_overcommit_sysinfo ctr_overcommit_globals)) = 0x6000000"
proof -
  have o: "unat (app_memory ctr_overcommit_sysinfo) < unat (mem_used ctr_overcommit_sysinfo)
             + unat (linear_heap_size ctr_overcommit_globals) + 0x10000"
    by (simp add: heap_example_defs app_memory_def)
  have b: "unat (mem_used ctr_overcommit_sysinfo) + unat (linear_heap_size ctr_overcommit_globals)
             + 0x10000 - unat (app_memory ctr_overcommit_sysinfo) \<le> 0xFA000000"
    by (simp add: heap_example_defs app_memory_def)
  show ?thesis
    using heap_overcommit_on_wrap [OF o b] by (simp add: ctr_overcommit_globals_def min_def)
qed

text \<open>C8: when the memory in use, the linear heap and the reserve fit in the
  application memory, \<open>__system_allocateHeaps\<close> implements its specification: the heap
  size it sets, read as a natural number, is the requested size cut down to the free
  pages and to 96 MiB, as \<open>heap_size_spec\<close> computes it without machine arithmetic.\<close>

theorem allocate_refines_spec:
  assumes fit: "unat (mem_used si) + unat (linear_heap_size g) + 0x10000 \<le> unat (app_memory si)"
  shows "unat (heap_size (fst (system_allocateHeaps si g))) = heap_size_spec si g"
proof -
  have a: "unat (mem_available si g) = avail_spec si g" using fit by (rule mem_available_fit)
  show ?thesis
    using a by (auto simp: heap_size_allocate heap_size_spec_def Let_def word_less_nat_alt min_def)
qed

theorem allocate_refines_spec_witness:
  "unat (mem_used ctr_example_sysinfo) + unat (linear_heap_size ctr_example_globals) + 0x10000
     \<le> unat (app_memory ctr_example_sysinfo) \<and>
   unat (heap_size (fst (system_allocateHeaps ctr_example_sysinfo ctr_example_globals)))
     = heap_size_spec ctr_example_sysinfo ctr_example_globals"
proof -
  have h: "unat (mem_used ctr_example_sysinfo) + unat (linear_heap_size ctr_example_globals) + 0x10000
     \<le> unat (app_memory ctr_example_sysinfo)"
    by (simp add: heap_example_defs app_memory_def)
  show ?thesis using h allocate_refines_spec [OF h] by simp
qed

end
