(* ===== verification/CtrMemDebug.thy ===== *)
theory CtrMemDebug
  imports CtrHeap
begin

text \<open>
  The memory probes of the debugging block of \<open>src/frontend/drivers/platform_ctr.c\<close>
  (lines 351 to 412). The block is compiled out by \<open>#if 0\<close>, so it is not part of the
  build: it is modelled as written, as the code one would switch on to measure the heap.
  \<open>ctr_crawl_memory\<close> and \<open>ctr_get_memory_info\<close> probe newlib's allocator through the
  \<open>malloc\<close> and \<open>free\<close> wrappers of the same block; the \<open>malloc\<close> wrapper counts calls
  and records the range of returned blocks. \<open>_sbrk_r\<close>, the rest of the block, is in
  theory \<open>CtrSbrk\<close>.

  The allocator \<open>_malloc_r\<close>/\<open>_free_r\<close> belongs to newlib, not to this repository. The
  probes are first modelled over the number of free bytes alone (\<open>ctr_crawl_memory\<close>,
  \<open>max_block_loop\<close>): a request succeeds exactly when it fits. They are then modelled
  as the code runs them, threading the allocator and the wrapper's statistics through
  every \<open>malloc\<close> and \<open>free\<close> (\<open>ctr_crawl_memory_heap\<close>, \<open>max_block_loop_heap\<close>), and
  the two are shown to agree, with the allocator left as it was found.
\<close>

unbundle bit_operations_syntax

subsection \<open>\<open>ctr_crawl_memory\<close>\<close>

text \<open>
  The parameter \<open>size\<close> is \<open>sz\<close> (\<open>size\<close> is a HOL constant). One call
  with \<open>free\<close> bytes left: \<open>malloc(size)\<close>; on success \<open>size\<close> is added to
  \<open>*total_size\<close> and the block is held until the recursive call returns; on failure
  \<open>size\<close> is halved. The recursion continues while \<open>size > 4\<close>. The result is the final
  \<open>*total_size\<close>; the blocks are all freed on the way back, so the allocator ends as it
  began. It terminates because each call either takes memory or halves the size.
\<close>

function ctr_crawl_memory :: "nat \<Rightarrow> u32 \<Rightarrow> u32 \<Rightarrow> u32" where
  "ctr_crawl_memory free total_size sz =
     (let ok = unat sz \<le> free;
          total_sz' = (if ok then total_size + sz else total_size);
          sz' = (if ok then sz else drop_bit 1 sz);
          free' = (if ok then free - unat sz else free)
      in if sz' > 4 then ctr_crawl_memory free' total_sz' sz' else total_sz')"
  by pat_completeness auto
termination
proof (relation "measures [\<lambda>(free, _, _). free, \<lambda>(_, _, sz). unat sz]", goal_cases)
  case 1
  then show ?case by simp
next
  case (2 free total_size sz ok total_sz' sz' free')
  then show ?case
    by (cases ok)
       (auto simp: unat_gt_0 [symmetric] word_less_nat_alt drop_bit_eq_div unat_div)
qed

declare ctr_crawl_memory.simps [simp del]

subsection \<open>\<open>ctr_get_memory_info\<close>\<close>

text \<open>The \<open>for\<close> loop from \<open>i = 27\<close> down to 3: try \<open>malloc(*max_block + (1 << i))\<close>
  and keep the bit when it succeeds (the block is freed at once).\<close>

fun max_block_loop :: "nat \<Rightarrow> u32 \<Rightarrow> nat \<Rightarrow> u32" where
  "max_block_loop free max_block i =
     (if i > 2 then
        max_block_loop free
          (if unat (max_block + push_bit i 1) \<le> free then max_block + push_bit i 1 else max_block)
          (i - 1)
      else max_block)"

declare max_block_loop.simps [simp del]

definition ctr_get_memory_info :: "nat \<Rightarrow> u32 \<times> u32" where
  "ctr_get_memory_info free =
     (ctr_crawl_memory free 0 (push_bit 27 1), max_block_loop free 0 27)"

subsection \<open>The \<open>malloc\<close> wrapper\<close>

record malloc_stats =
  malloc_calls :: u32
  min_malloc_addr :: u32
  max_malloc_addr :: u32

definition malloc_stats_init :: malloc_stats where
  "malloc_stats_init = \<lparr>malloc_calls = 0, min_malloc_addr = 0xFFFFFFFF, max_malloc_addr = 0\<rparr>"

text \<open>\<open>ret\<close> is the result of \<open>_malloc_r\<close>, \<open>None\<close> for \<open>NULL\<close>.\<close>

definition malloc_wrap :: "u32 option \<Rightarrow> u32 \<Rightarrow> malloc_stats \<Rightarrow> u32 option \<times> malloc_stats" where
  "malloc_wrap ret nbytes st =
     (let st1 = (case ret of
                   None \<Rightarrow> st
                 | Some a \<Rightarrow>
                     st\<lparr>max_malloc_addr := (if max_malloc_addr st < a + nbytes then a + nbytes
                                           else max_malloc_addr st),
                        min_malloc_addr := (if min_malloc_addr st > a then a
                                           else min_malloc_addr st)\<rparr>)
      in (ret, st1\<lparr>malloc_calls := malloc_calls st1 + 1\<rparr>))"


subsection \<open>The allocator and the \<open>free\<close> wrapper\<close>

text \<open>
  newlib's allocator over one region: \<open>alloc_top\<close> is the first free address and
  \<open>alloc_end\<close> the end of the region. A block is taken from the top. The probes free
  their blocks in the reverse order of allocation, so \<open>_free_r\<close> of a block gives the
  region back from that block's address; \<open>free(NULL)\<close> does nothing.
\<close>

record alloc_state =
  alloc_top :: u32
  alloc_end :: u32

definition alloc_free :: "alloc_state \<Rightarrow> nat" where
  "alloc_free h = unat (alloc_end h) - unat (alloc_top h)"

definition malloc_r :: "u32 \<Rightarrow> alloc_state \<Rightarrow> u32 option \<times> alloc_state" where
  "malloc_r n h =
     (if unat n \<le> alloc_free h then (Some (alloc_top h), h\<lparr>alloc_top := alloc_top h + n\<rparr>)
      else (None, h))"

definition free_r :: "u32 option \<Rightarrow> alloc_state \<Rightarrow> alloc_state" where
  "free_r p h = (case p of None \<Rightarrow> h | Some a \<Rightarrow> h\<lparr>alloc_top := a\<rparr>)"

text \<open>The state the wrappers act on: the allocator and the globals of the \<open>malloc\<close>
  wrapper. \<open>ctr_malloc\<close> is the wrapper \<open>malloc\<close> over \<open>_malloc_r\<close>, \<open>ctr_free\<close> the
  wrapper \<open>free\<close> over \<open>_free_r\<close>.\<close>

type_synonym debug_heap = "alloc_state \<times> malloc_stats"

definition ctr_malloc :: "u32 \<Rightarrow> debug_heap \<Rightarrow> u32 option \<times> debug_heap" where
  "ctr_malloc nbytes s =
     (case malloc_r nbytes (fst s) of
        (ret, h) \<Rightarrow> (case malloc_wrap ret nbytes (snd s) of (ret', st) \<Rightarrow> (ret', (h, st))))"

definition ctr_free :: "u32 option \<Rightarrow> debug_heap \<Rightarrow> debug_heap" where
  "ctr_free aptr s = (free_r aptr (fst s), snd s)"

subsection \<open>The probes over the allocator\<close>

text \<open>\<open>ctr_crawl_memory\<close> as written: \<open>malloc\<close>, count or halve, recurse while
  \<open>size > 4\<close>, and \<open>free(tmp)\<close> on the way back (\<open>tmp\<close> is \<open>NULL\<close> when
  \<open>malloc\<close> failed).\<close>

function ctr_crawl_memory_heap :: "debug_heap \<Rightarrow> u32 \<Rightarrow> u32 \<Rightarrow> u32 \<times> debug_heap" where
  "ctr_crawl_memory_heap s total_size sz =
     (let r = ctr_malloc sz s;
          tmp = fst r;
          total_sz' = (if tmp \<noteq> None then total_size + sz else total_size);
          sz' = (if tmp \<noteq> None then sz else drop_bit 1 sz);
          inner = (if sz' > 4 then ctr_crawl_memory_heap (snd r) total_sz' sz' else (total_sz', snd r))
      in (fst inner, ctr_free tmp (snd inner)))"
  by pat_completeness auto
termination
proof (relation "measures [\<lambda>(s, _, _). alloc_free (fst s), \<lambda>(_, _, sz). unat sz]", goal_cases)
  case 1
  then show ?case by simp
next
  case (2 s total_size sz r tmp total_sz' sz')
  show ?case
  proof (cases "unat sz \<le> alloc_free (fst s)")
    case True
    have ok: "fst (ctr_malloc sz s) \<noteq> None" using True
      by (simp add: ctr_malloc_def malloc_r_def malloc_wrap_def Let_def split: prod.splits)
    have "0 < unat sz" using 2 ok by (auto simp: word_less_nat_alt)
    then show ?thesis using 2 True
      by (auto simp: ctr_malloc_def malloc_r_def malloc_wrap_def alloc_free_def Let_def
                     unat_add_fits split: prod.splits)
  next
    case False
    then show ?thesis using 2
      by (auto simp: ctr_malloc_def malloc_r_def malloc_wrap_def Let_def word_less_nat_alt
                     drop_bit_eq_div unat_div split: prod.splits)
  qed
qed


text \<open>The loop of \<open>ctr_get_memory_info\<close> as written: a block that was obtained is
  freed at once.\<close>

fun max_block_loop_heap :: "debug_heap \<Rightarrow> u32 \<Rightarrow> nat \<Rightarrow> u32 \<times> debug_heap" where
  "max_block_loop_heap s max_block i =
     (if i > 2 then
        (let r = ctr_malloc (max_block + push_bit i 1) s
         in if fst r \<noteq> None
            then max_block_loop_heap (ctr_free (fst r) (snd r)) (max_block + push_bit i 1) (i - 1)
            else max_block_loop_heap (snd r) max_block (i - 1))
      else (max_block, s))"

declare max_block_loop_heap.simps [simp del]

definition ctr_get_memory_info_heap :: "debug_heap \<Rightarrow> (u32 \<times> u32) \<times> debug_heap" where
  "ctr_get_memory_info_heap s =
     (let r1 = ctr_crawl_memory_heap s 0 (push_bit 27 1);
          r2 = max_block_loop_heap (snd r1) 0 27
      in ((fst r1, fst r2), snd r2))"

declare ctr_crawl_memory_heap.simps [simp del]

subsection \<open>Runs of the \<open>malloc\<close> wrapper\<close>

text \<open>A run of the \<open>malloc\<close> wrapper over the results of \<open>_malloc_r\<close> and the sizes.\<close>

fun malloc_run :: "(u32 option \<times> u32) list \<Rightarrow> malloc_stats \<Rightarrow> malloc_stats" where
  "malloc_run [] st = st"
| "malloc_run ((ret, n) # calls) st = malloc_run calls (snd (malloc_wrap ret n st))"


subsection \<open>Example allocator\<close>

text \<open>A region of 256 free bytes at the start of the application heap.\<close>

definition small_alloc_heap :: alloc_state where
  "small_alloc_heap = \<lparr>alloc_top = 0x08000000, alloc_end = 0x08000100\<rparr>"

subsection \<open>Lemmas\<close>

lemma crawl_found:
  "unat sz = 2 ^ k \<Longrightarrow> 3 \<le> k \<Longrightarrow>
   ctr_crawl_memory free tot sz = tot + word_of_nat (free div 8 * 8)"
proof (induction free tot sz arbitrary: k rule: ctr_crawl_memory.induct)
  case (1 free tot sz)
  have "(2::nat) ^ 3 dvd 2 ^ k" using 1(3) by (rule le_imp_power_dvd)
  then obtain c where c: "unat sz = 8 * c" using 1(2) by (auto elim!: dvdE)
  have "(2::nat) ^ 3 \<le> 2 ^ k" using 1(3) by (rule power_increasing) simp
  then have ge8: "8 \<le> unat sz" using 1(2) by simp
  show ?case
  proof (cases "unat sz \<le> free")
    case True
    have gt: "4 < sz" using ge8 by (simp add: word_less_nat_alt)
    have "ctr_crawl_memory free tot sz = ctr_crawl_memory (free - unat sz) (tot + sz) sz"
      using True gt by (subst ctr_crawl_memory.simps) (simp add: Let_def)
    also have "\<dots> = tot + sz + word_of_nat ((free - unat sz) div 8 * 8)"
      using 1(1) [of True "tot + sz" sz "free - unat sz"] True gt 1(2,3) by simp
    also have "(free - unat sz) div 8 * 8 + unat sz = free div 8 * 8"
    proof -
      have e: "free - unat sz + 8 * c = free" using True c by simp
      have "(free - unat sz + 8 * c) div 8 = (free - unat sz) div 8 + c" by simp
      then have "free div 8 = (free - unat sz) div 8 + c" by (simp only: e)
      then show ?thesis using c by simp
    qed
    then have "(word_of_nat (free div 8 * 8) :: u32) =
        word_of_nat ((free - unat sz) div 8 * 8) + word_of_nat (unat sz)"
      by (simp only: of_nat_add [symmetric])
    then have "tot + sz + word_of_nat ((free - unat sz) div 8 * 8) = tot + word_of_nat (free div 8 * 8)"
      by (simp add: algebra_simps)
    finally show ?thesis .
  next
    case False
    have half: "unat (drop_bit 1 sz) = 2 ^ (k - 1)"
      using 1(2,3) by (simp add: drop_bit_eq_div unat_div power_diff)
    show ?thesis
    proof (cases "k = 3")
      case True
      then have "\<not> 4 < drop_bit 1 sz" using half by (simp add: word_less_nat_alt)
      moreover have "free div 8 = 0" using False 1(2) True by simp
      ultimately show ?thesis using False by (subst ctr_crawl_memory.simps) (simp add: Let_def)
    next
      case k: False
      have "(2::nat) ^ 3 \<le> 2 ^ (k - 1)" using 1(3) k by (intro power_increasing) auto
      then have gt: "4 < drop_bit 1 sz" using half by (simp add: word_less_nat_alt)
      have "ctr_crawl_memory free tot sz = ctr_crawl_memory free tot (drop_bit 1 sz)"
        using False gt by (subst ctr_crawl_memory.simps) (simp add: Let_def)
      also have "\<dots> = tot + word_of_nat (free div 8 * 8)"
        using 1(1) [of False tot "drop_bit 1 sz" free] False gt half 1(3) k by simp
      finally show ?thesis .
    qed
  qed
qed


lemma round_down_step:
  "(n::nat) div 2 ^ Suc i * 2 ^ Suc i + (if n div 2 ^ Suc i * 2 ^ Suc i + 2 ^ i \<le> n then 2 ^ i else 0)
     = n div 2 ^ i * 2 ^ i"
proof -
  define d where "d = n div 2 ^ i"
  have q: "n div 2 ^ Suc i * 2 ^ Suc i = d div 2 * 2 * 2 ^ i"
  proof -
    have "n div 2 ^ Suc i = d div 2"
      by (simp add: d_def div_mult2_eq [symmetric] power_Suc2 mult.commute)
    then show ?thesis by (simp add: power_Suc2 algebra_simps)
  qed
  have lo: "d * 2 ^ i \<le> n" by (simp add: d_def div_times_less_eq_dividend)
  have hi: "n < (d + 1) * 2 ^ i"
  proof -
    have "n = d * 2 ^ i + n mod 2 ^ i" by (simp add: d_def div_mult_mod_eq)
    moreover have "n mod 2 ^ i < 2 ^ i" by simp
    ultimately show ?thesis by (simp only: distrib_right mult_1)
  qed
  have r: "n div 2 ^ i * 2 ^ i = d * 2 ^ i" by (simp add: d_def)
  show ?thesis
  proof (cases "even d")
    case True
    then have h: "d div 2 * 2 = d" by simp
    have nle: "\<not> d * 2 ^ i + 2 ^ i \<le> n" using hi by (simp add: algebra_simps)
    show ?thesis unfolding q r h using nle by simp
  next
    case False
    then have e: "d div 2 * 2 + 1 = d" by (metis odd_two_times_div_two_succ mult.commute)
    have s: "d div 2 * 2 * 2 ^ i + 2 ^ i = d * 2 ^ i"
      by (metis e add_mult_distrib mult_1)
    show ?thesis unfolding q r using lo s by simp
  qed
qed


lemma round_down_cap:
  assumes i: "i \<le> 27" and M: "(M::nat) < 2 ^ 28"
  shows "M div 2 ^ Suc i * 2 ^ Suc i + 2 ^ i < 2 ^ 28"
proof -
  define q where "q = M div 2 ^ Suc i"
  have p: "(2::nat) ^ 28 = 2 ^ (27 - i) * 2 ^ Suc i"
    using i by (simp add: power_add [symmetric])
  have "q * 2 ^ Suc i \<le> M" by (simp add: q_def div_times_less_eq_dividend)
  moreover have "M < 2 ^ (27 - i) * 2 ^ Suc i" using M unfolding p .
  ultimately have "q * 2 ^ Suc i < 2 ^ (27 - i) * 2 ^ Suc i" by (rule le_less_trans)
  then have "q < 2 ^ (27 - i)" by (metis mult_less_cancel2)
  then have "Suc q \<le> 2 ^ (27 - i)" by (rule Suc_leI)
  then have "Suc q * 2 ^ Suc i \<le> 2 ^ (27 - i) * 2 ^ Suc i" by (rule mult_le_mono1)
  then have "Suc q * 2 ^ Suc i \<le> 2 ^ 28" unfolding p .
  moreover have "q * 2 ^ Suc i + 2 ^ i < Suc q * 2 ^ Suc i" by simp
  ultimately have "q * 2 ^ Suc i + 2 ^ i < 2 ^ 28" by (metis less_le_trans)
  then show ?thesis by (simp add: q_def)
qed

lemma max_block_loop_round:
  "2 \<le> i \<Longrightarrow> i \<le> 27 \<Longrightarrow> unat mb = min free (2 ^ 28 - 1) div 2 ^ Suc i * 2 ^ Suc i \<Longrightarrow>
   unat (max_block_loop free mb i) = min free (2 ^ 28 - 1) div 8 * 8"
proof (induction i arbitrary: mb)
  case 0
  then show ?case by simp
next
  case (Suc j)
  define M where "M = min free (2 ^ 28 - 1)"
  have M: "M < 2 ^ 28" by (simp add: M_def)
  have mb: "unat mb = M div 2 ^ Suc (Suc j) * 2 ^ Suc (Suc j)" using Suc.prems(3) by (simp add: M_def)
  show ?case
  proof (cases "Suc j = 2")
    case True
    then show ?thesis using mb by (simp add: max_block_loop.simps M_def)
  next
    case False
    have cap: "unat mb + 2 ^ Suc j < 2 ^ 28"
      using round_down_cap [OF Suc.prems(2) M] mb by simp
    have sum: "unat (mb + push_bit (Suc j) 1) = unat mb + 2 ^ Suc j"
    proof -
      have pb: "(push_bit (Suc j) 1 :: u32) = 2 ^ Suc j" by (simp add: push_bit_of_1)
      have u: "unat (push_bit (Suc j) 1 :: u32) = 2 ^ Suc j"
        unfolding pb using Suc.prems(2) by (intro unat_pow2_u32) simp
      have lt: "unat mb + unat (push_bit (Suc j) 1 :: u32) < 2 ^ LENGTH(32)"
        using cap u by simp
      from unat_add_lem [THEN iffD1, OF lt] u show ?thesis by simp
    qed
    have cond: "unat mb + 2 ^ Suc j \<le> free \<longleftrightarrow> unat mb + 2 ^ Suc j \<le> M"
      using cap by (auto simp: M_def)
    define mb' where "mb' = (if unat (mb + push_bit (Suc j) 1) \<le> free then mb + push_bit (Suc j) 1 else mb)"
    have "unat mb' = M div 2 ^ Suc (Suc j) * 2 ^ Suc (Suc j)
        + (if M div 2 ^ Suc (Suc j) * 2 ^ Suc (Suc j) + 2 ^ Suc j \<le> M then 2 ^ Suc j else 0)"
    proof -
      have sum': "unat (mb + 2 * 2 ^ j) = unat mb + 2 * 2 ^ j" using sum by simp
      show ?thesis unfolding mb'_def sum cond mb [symmetric] by (simp add: sum')
    qed
    also have "\<dots> = M div 2 ^ Suc j * 2 ^ Suc j" by (rule round_down_step)
    finally have "unat mb' = M div 2 ^ Suc j * 2 ^ Suc j" .
    then have "unat (max_block_loop free mb' j) = M div 8 * 8"
      using Suc.IH [of mb'] Suc.prems False by (simp add: M_def)
    moreover have "max_block_loop free mb (Suc j) = max_block_loop free mb' j"
      using Suc.prems(1) False by (subst max_block_loop.simps) (simp add: mb'_def)
    ultimately show ?thesis by (simp add: M_def)
  qed
qed

lemma malloc_wrap_mono:
  "min_malloc_addr (snd (malloc_wrap r n st)) \<le> min_malloc_addr st \<and>
   max_malloc_addr st \<le> max_malloc_addr (snd (malloc_wrap r n st))"
  by (auto simp: malloc_wrap_def Let_def split: option.splits)

lemma malloc_run_mono:
  "min_malloc_addr (malloc_run calls st) \<le> min_malloc_addr st \<and>
   max_malloc_addr st \<le> max_malloc_addr (malloc_run calls st)"
proof (induction calls arbitrary: st)
  case Nil
  then show ?case by simp
next
  case (Cons c calls)
  obtain r n where "c = (r, n)" by fastforce
  then show ?case
    using Cons.IH [of "snd (malloc_wrap r n st)"] malloc_wrap_mono [of r n st]
    by (auto intro: order_trans)
qed

lemma malloc_wrap_fst [simp]: "fst (malloc_wrap r n st) = r"
  by (simp add: malloc_wrap_def Let_def)

lemma ctr_malloc_fst [simp]: "fst (ctr_malloc n s) = fst (malloc_r n (fst s))"
  by (simp add: ctr_malloc_def case_prod_beta)

lemma ctr_malloc_heap [simp]: "fst (snd (ctr_malloc n s)) = snd (malloc_r n (fst s))"
  by (simp add: ctr_malloc_def case_prod_beta)

lemma ctr_free_heap [simp]: "fst (ctr_free p s) = free_r p (fst s)"
  by (simp add: ctr_free_def)

lemma malloc_r_ok:
  assumes "unat n \<le> alloc_free h" and "unat (alloc_top h) \<le> unat (alloc_end h)"
  shows "malloc_r n h = (Some (alloc_top h), h\<lparr>alloc_top := alloc_top h + n\<rparr>)"
    and "alloc_free (h\<lparr>alloc_top := alloc_top h + n\<rparr>) = alloc_free h - unat n"
    and "unat (alloc_top h + n) \<le> unat (alloc_end h)"
  using assms unat_add_fits [of n "alloc_end h" "alloc_top h"]
  by (simp_all add: malloc_r_def alloc_free_def)

lemma malloc_r_fail: "\<not> unat n \<le> alloc_free h \<Longrightarrow> malloc_r n h = (None, h)"
  by (simp add: malloc_r_def)

lemma crawl_heap_refines:
  "unat (alloc_top (fst s)) \<le> unat (alloc_end (fst s)) \<Longrightarrow>
   fst (ctr_crawl_memory_heap s tot sz) = ctr_crawl_memory (alloc_free (fst s)) tot sz \<and>
   fst (snd (ctr_crawl_memory_heap s tot sz)) = fst s"
proof (induction s tot sz rule: ctr_crawl_memory_heap.induct)
  case (1 s tot sz)
  let ?h = "fst s"
  show ?case
  proof (cases "unat sz \<le> alloc_free ?h")
    case True
    note ok = malloc_r_ok [OF True "1.prems"]
    let ?s1 = "snd (ctr_malloc sz s)"
    have h1: "fst ?s1 = ?h\<lparr>alloc_top := alloc_top ?h + sz\<rparr>" using ok(1) by simp
    show ?thesis
    proof (cases "4 < sz")
      case gt: True
      have ih: "fst (ctr_crawl_memory_heap ?s1 (tot + sz) sz) =
                  ctr_crawl_memory (alloc_free ?h - unat sz) (tot + sz) sz \<and>
                fst (snd (ctr_crawl_memory_heap ?s1 (tot + sz) sz)) = fst ?s1"
        using "1.IH" [OF refl refl refl refl] ok gt h1 by simp
      show ?thesis
        using ih ok gt h1 True
        unfolding ctr_crawl_memory_heap.simps [of s tot sz] ctr_crawl_memory.simps [of _ tot sz]
        by (simp add: Let_def free_r_def)
    next
      case le: False
      show ?thesis
        using ok le h1 True
        unfolding ctr_crawl_memory_heap.simps [of s tot sz] ctr_crawl_memory.simps [of _ tot sz]
        by (simp add: Let_def free_r_def)
    qed
  next
    case False
    note fail = malloc_r_fail [OF False]
    show ?thesis
    proof (cases "4 < drop_bit 1 sz")
      case gt: True
      have ih: "fst (ctr_crawl_memory_heap (snd (ctr_malloc sz s)) tot (drop_bit 1 sz)) =
                  ctr_crawl_memory (alloc_free ?h) tot (drop_bit 1 sz) \<and>
                fst (snd (ctr_crawl_memory_heap (snd (ctr_malloc sz s)) tot (drop_bit 1 sz))) = ?h"
        using "1.IH" [OF refl refl refl refl] fail gt "1.prems" by simp
      show ?thesis
        using ih fail gt False
        unfolding ctr_crawl_memory_heap.simps [of s tot sz] ctr_crawl_memory.simps [of _ tot sz]
        by (simp add: Let_def free_r_def)
    next
      case le: False
      show ?thesis
        using fail le False
        unfolding ctr_crawl_memory_heap.simps [of s tot sz] ctr_crawl_memory.simps [of _ tot sz]
        by (simp add: Let_def free_r_def)
    qed
  qed
qed


lemma max_block_heap_refines:
  "unat (alloc_top (fst s)) \<le> unat (alloc_end (fst s)) \<Longrightarrow>
   fst (max_block_loop_heap s mb i) = max_block_loop (alloc_free (fst s)) mb i \<and>
   fst (snd (max_block_loop_heap s mb i)) = fst s"
proof (induction s mb i rule: max_block_loop_heap.induct)
  case (1 s mb i)
  let ?h = "fst s" and ?n = "mb + push_bit i 1"
  show ?case
  proof (cases "2 < i")
    case False
    then show ?thesis
      unfolding max_block_loop_heap.simps [of s mb i] max_block_loop.simps [of _ mb i] by simp
  next
    case i: True
    show ?thesis
    proof (cases "unat ?n \<le> alloc_free ?h")
      case True
      note ok = malloc_r_ok [OF True "1.prems"]
      have restored: "fst (ctr_free (fst (ctr_malloc ?n s)) (snd (ctr_malloc ?n s))) = ?h"
        using ok(1) by (simp add: free_r_def)
      have "fst (ctr_malloc ?n s) \<noteq> None" using ok(1) by simp
      then show ?thesis
        using "1.IH"(1) [OF i refl] restored i True "1.prems"
        unfolding max_block_loop_heap.simps [of s mb i] max_block_loop.simps [of _ mb i]
        by (simp add: Let_def alloc_free_def)
    next
      case False
      note fail = malloc_r_fail [OF False]
      then show ?thesis
        using "1.IH"(2) [OF i refl] i False "1.prems"
        unfolding max_block_loop_heap.simps [of s mb i] max_block_loop.simps [of _ mb i]
        by (simp add: Let_def)
    qed
  qed
qed

subsection \<open>Properties\<close>

text \<open>C12: \<open>ctr_get_memory_info\<close> reports in \<open>*available\<close> the free memory rounded down
  to 8 bytes, modulo \<open>2^32\<close> as \<open>uint32_t\<close> holds it: the recursion of
  \<open>ctr_crawl_memory\<close> terminates (by the lexicographic measure of its definition) with
  every block it could take counted.\<close>

theorem crawl_finds_free_memory:
  "fst (ctr_get_memory_info free) = word_of_nat (free div 8 * 8)"
proof -
  have "unat (push_bit 27 1 :: u32) = 2 ^ 27" by simp
  then show ?thesis
    using crawl_found [of "push_bit 27 1" 27 free 0] by (simp add: ctr_get_memory_info_def)
qed

text \<open>C11: the bit-by-bit search of \<open>ctr_get_memory_info\<close> for \<open>*max_block\<close> computes
  the largest multiple of 8 that fits in the free memory, capped at the sum of the bits
  27 down to 3 it tries.\<close>

theorem max_block_binary_search:
  "unat (snd (ctr_get_memory_info free)) = min (free div 8 * 8) (2 ^ 28 - 8)"
proof -
  have "unat (max_block_loop free 0 27) = min free (2 ^ 28 - 1) div 8 * 8"
    by (rule max_block_loop_round) simp_all
  moreover have "min free (2 ^ 28 - 1) div 8 * 8 = min (free div 8 * 8) (2 ^ 28 - 8)"
  proof (cases "free \<le> 268435455")
    case True
    then have "free div 8 \<le> 268435455 div 8" by (rule div_le_mono)
    then have "free div 8 * 8 \<le> 268435448" by simp
    then show ?thesis using True by (simp add: min_def)
  next
    case False
    then have "268435456 div 8 \<le> free div 8" by (intro div_le_mono) simp
    then have "268435448 \<le> free div 8 * 8" by simp
    then show ?thesis using False by (simp add: min_def)
  qed
  ultimately show ?thesis by (simp add: ctr_get_memory_info_def)
qed

text \<open>C28: for blocks that do not wrap the address space, the \<open>malloc\<close> wrapper's
  \<open>min_malloc_addr\<close> and \<open>max_malloc_addr\<close> bound every block returned, and
  \<open>malloc_calls\<close> counts every call, modulo \<open>2^32\<close>.\<close>

theorem malloc_stats_bound_blocks:
  assumes "list_all (\<lambda>(r, n). case r of None \<Rightarrow> True | Some a \<Rightarrow> unat a + unat n < 2 ^ 32) calls"
  shows "list_all (\<lambda>(r, n). case r of None \<Rightarrow> True
           | Some a \<Rightarrow> min_malloc_addr (malloc_run calls st) \<le> a \<and> a \<le> a + n \<and>
                       a + n \<le> max_malloc_addr (malloc_run calls st)) calls \<and>
         malloc_calls (malloc_run calls st) = malloc_calls st + of_nat (length calls)"
  using assms
proof (induction calls arbitrary: st)
  case Nil
  then show ?case by simp
next
  case (Cons c calls)
  obtain r n where c: "c = (r, n)" by fastforce
  let ?st1 = "snd (malloc_wrap r n st)"
  have IH: "list_all (\<lambda>(r, n). case r of None \<Rightarrow> True
           | Some a \<Rightarrow> min_malloc_addr (malloc_run calls ?st1) \<le> a \<and> a \<le> a + n \<and>
                       a + n \<le> max_malloc_addr (malloc_run calls ?st1)) calls \<and>
         malloc_calls (malloc_run calls ?st1) = malloc_calls ?st1 + of_nat (length calls)"
    using Cons.IH Cons.prems by simp
  have mono: "min_malloc_addr (malloc_run calls ?st1) \<le> min_malloc_addr ?st1 \<and>
      max_malloc_addr ?st1 \<le> max_malloc_addr (malloc_run calls ?st1)"
    by (rule malloc_run_mono)
  have head: "case r of None \<Rightarrow> True
      | Some a \<Rightarrow> min_malloc_addr (malloc_run calls ?st1) \<le> a \<and> a \<le> a + n \<and>
                  a + n \<le> max_malloc_addr (malloc_run calls ?st1)"
  proof (cases r)
    case None
    then show ?thesis by simp
  next
    case (Some a)
    have "unat a + unat n < 2 ^ LENGTH(32)" using Cons.prems c Some by simp
    then have "unat (a + n) = unat a + unat n" by (rule unat_add_lem [THEN iffD1])
    then have nw: "a \<le> a + n" by (simp add: word_le_nat_alt)
    have "min_malloc_addr ?st1 \<le> a \<and> a + n \<le> max_malloc_addr ?st1"
      using Some by (auto simp: malloc_wrap_def Let_def)
    then show ?thesis using Some mono nw by (auto intro: order_trans)
  qed
  have run: "malloc_run ((r, n) # calls) st = malloc_run calls ?st1" by simp
  have cnt: "malloc_calls ?st1 = malloc_calls st + 1"
    by (simp add: malloc_wrap_def Let_def split: option.splits)
  show ?case unfolding c run using head IH cnt by simp
qed

theorem malloc_stats_bound_blocks_witness:
  "list_all (\<lambda>(r, n). case r of None \<Rightarrow> True | Some a \<Rightarrow> unat a + unat n < 2 ^ 32)
     [(Some (0x08000010 :: u32), 16 :: u32), (None, 32)] \<and>
   malloc_calls (malloc_run [(Some 0x08000010, 16), (None, 32)] malloc_stats_init) = 2"
proof -
  have h: "list_all (\<lambda>(r, n). case r of None \<Rightarrow> True | Some a \<Rightarrow> unat a + unat n < 2 ^ 32)
     [(Some (0x08000010 :: u32), 16 :: u32), (None, 32)]" by simp
  show ?thesis using h malloc_stats_bound_blocks [OF h, of malloc_stats_init]
    by (simp add: malloc_stats_init_def)
qed

text \<open>C13: run as written, with every \<open>malloc\<close> and \<open>free\<close> going to the allocator
  through the wrappers, \<open>ctr_get_memory_info\<close> reports what the model over the free
  byte count computes, and it leaves the allocator as it found it: every block the probes
  take is given back.\<close>

theorem memory_info_heap_refines:
  assumes "unat (alloc_top h) \<le> unat (alloc_end h)"
  shows "fst (ctr_get_memory_info_heap (h, st)) = ctr_get_memory_info (alloc_free h) \<and>
         fst (snd (ctr_get_memory_info_heap (h, st))) = h"
proof -
  let ?r1 = "ctr_crawl_memory_heap (h, st) 0 (push_bit 27 1)"
  have c: "fst ?r1 = ctr_crawl_memory (alloc_free h) 0 (push_bit 27 1)" "fst (snd ?r1) = h"
    using crawl_heap_refines [of "(h, st)"] assms by simp_all
  have m: "fst (max_block_loop_heap (snd ?r1) 0 27) = max_block_loop (alloc_free h) 0 27"
          "fst (snd (max_block_loop_heap (snd ?r1) 0 27)) = h"
    using max_block_heap_refines [of "snd ?r1" 0 27] c(2) assms by simp_all
  show ?thesis using c m by (simp add: ctr_get_memory_info_heap_def ctr_get_memory_info_def Let_def)
qed

theorem memory_info_heap_refines_witness:
  "unat (alloc_top small_alloc_heap) \<le> unat (alloc_end small_alloc_heap) \<and>
   fst (ctr_get_memory_info_heap (small_alloc_heap, malloc_stats_init)) = ctr_get_memory_info 256 \<and>
   fst (snd (ctr_get_memory_info_heap (small_alloc_heap, malloc_stats_init))) = small_alloc_heap"
proof -
  have h: "unat (alloc_top small_alloc_heap) \<le> unat (alloc_end small_alloc_heap)"
    by (simp add: small_alloc_heap_def)
  have f: "alloc_free small_alloc_heap = 256" by (simp add: alloc_free_def small_alloc_heap_def)
  show ?thesis using memory_info_heap_refines [OF h, of malloc_stats_init] h f by simp
qed

end
