(* ===== verification/CtrSbrk.thy ===== *)
theory CtrSbrk
  imports CtrHeap
begin

text \<open>
  \<open>_sbrk_r\<close> of the debugging block of \<open>src/frontend/drivers/platform_ctr.c\<close> (lines
  414 to 465), compiled out by \<open>#if 0\<close> and modelled as written. It grows the newlib
  heap between \<open>fake_heap_start\<close> and \<open>fake_heap_end\<close>, the bounds that
  \<open>__system_allocateHeaps\<close> sets (theory \<open>CtrHeap\<close>), and records statistics in the
  \<open>sbrk_*\<close> globals.
\<close>

unbundle bit_operations_syntax

subsection \<open>\<open>_sbrk_r\<close>\<close>

text \<open>
  The static \<open>heap_start\<close> (0 for \<open>NULL\<close>) and the statistics. Pointers are 32-bit
  addresses; \<open>incr\<close> is a \<open>ptrdiff_t\<close>, a 32-bit signed value held as its bit pattern:
  \<open>heap_start + incr\<close> is the wrapping sum, \<open>incr > 0\<close> is signed, and the comparison
  with the unsigned \<open>sbrk_max_incr\<close> converts \<open>incr\<close> to unsigned.
\<close>

record sbrk_state =
  heap_start :: u32
  sbrk_calls :: u32
  sbrk_max_incr :: u32
  sbrk_total_incr :: u32
  sbrk_heap_start :: u32
  sbrk_heap_end :: u32

datatype sbrk_error = ENOMEM

record sbrk_env =
  fake_start :: u32
  fake_end :: u32
  end_sym :: u32
  stack_ptr :: u32

definition sbrk_state_init :: sbrk_state where
  "sbrk_state_init = \<lparr>heap_start = 0, sbrk_calls = 0, sbrk_max_incr = 0, sbrk_total_incr = 0,
     sbrk_heap_start = 0, sbrk_heap_end = 0\<rparr>"

definition sbrk_r :: "sbrk_env \<Rightarrow> u32 \<Rightarrow> sbrk_state \<Rightarrow> (sbrk_error + u32) \<times> sbrk_state" where
  "sbrk_r env incr st =
     (let hs = (if heap_start st = 0 then (if fake_start env = 0 then end_sym env else fake_start env)
                else heap_start st);
          heap_end = (if fake_end env = 0 then stack_ptr env else fake_end env)
      in if hs + incr > heap_end then (Inl ENOMEM, st\<lparr>heap_start := hs\<rparr>)
         else (Inr hs,
               st\<lparr>heap_start := hs + incr, sbrk_calls := sbrk_calls st + 1,
                  sbrk_max_incr := (if 0 < sint incr \<and> sbrk_max_incr st < incr then incr
                                    else sbrk_max_incr st),
                  sbrk_total_incr := sbrk_total_incr st + incr,
                  sbrk_heap_start := hs + incr, sbrk_heap_end := heap_end\<rparr>))"

text \<open>A sequence of \<open>_sbrk_r\<close> calls, with the result of each.\<close>

fun sbrk_run :: "sbrk_env \<Rightarrow> u32 list \<Rightarrow> sbrk_state \<Rightarrow> (sbrk_error + u32) list \<times> sbrk_state" where
  "sbrk_run env [] st = ([], st)"
| "sbrk_run env (incr # incrs) st =
     (case sbrk_r env incr st of
        (r, st') \<Rightarrow> (case sbrk_run env incrs st' of (rs, st'') \<Rightarrow> (r # rs, st'')))"

text \<open>The bounds the newlib heap gets from \<open>__system_allocateHeaps\<close>.\<close>

definition newlib_sbrk_env :: "heap_globals \<Rightarrow> u32 \<Rightarrow> u32 \<Rightarrow> sbrk_env" where
  "newlib_sbrk_env g e sp =
     \<lparr>fake_start = fake_heap_start g, fake_end = fake_heap_end g, end_sym = e, stack_ptr = sp\<rparr>"

text \<open>The blocks a run of \<open>_sbrk_r\<close> handed out: each successful call's start
  address with its increment.\<close>

definition sbrk_blocks :: "sbrk_env \<Rightarrow> u32 list \<Rightarrow> sbrk_state \<Rightarrow> (u32 \<times> u32) list" where
  "sbrk_blocks env incrs st = [(p, i). (i, Inr p) \<leftarrow> zip incrs (fst (sbrk_run env incrs st))]"

text \<open>The invariant of the static \<open>heap_start\<close>: not yet set, or between the bounds.\<close>

definition sbrk_inv :: "sbrk_env \<Rightarrow> sbrk_state \<Rightarrow> bool" where
  "sbrk_inv env st \<longleftrightarrow>
     heap_start st = 0 \<or> (fake_start env \<le> heap_start st \<and> heap_start st \<le> fake_end env)"

subsection \<open>Example calls\<close>

text \<open>A heap with one 4 KiB page of room whose break is at its start.\<close>

definition small_sbrk_env :: sbrk_env where
  "small_sbrk_env = \<lparr>fake_start = 0x08000000, fake_end = 0x08001000, end_sym = 0, stack_ptr = 0\<rparr>"

definition small_sbrk_state :: sbrk_state where
  "small_sbrk_state = sbrk_state_init\<lparr>heap_start := 0x08000000\<rparr>"

subsection \<open>Lemmas\<close>

lemma sbrk_blocks_Cons:
  "sbrk_blocks env (i # incrs) st =
     (case sbrk_r env i st of (r, st') \<Rightarrow>
        (case r of Inr p \<Rightarrow> [(p, i)] | Inl _ \<Rightarrow> []) @ sbrk_blocks env incrs st')"
  by (simp add: sbrk_blocks_def split: prod.splits sum.splits)

lemma sbrk_r_inv:
  assumes "fake_start env \<noteq> 0" "fake_end env \<noteq> 0" "fake_start env \<le> fake_end env"
    and "unat (fake_end env) < 2 ^ 31" and "0 \<le> sint i" and "sbrk_inv env st"
    and "sbrk_r env i st = (r, st')"
  shows "sbrk_inv env st' \<and> heap_start st' \<noteq> 0 \<and>
         unat (if heap_start st = 0 then fake_start env else heap_start st) \<le> unat (heap_start st') \<and>
         (\<forall>p. r = Inr p \<longrightarrow> p = (if heap_start st = 0 then fake_start env else heap_start st) \<and>
            unat p + unat i = unat (heap_start st') \<and> unat (heap_start st') \<le> unat (fake_end env))"
proof -
  define hs where "hs = (if heap_start st = 0 then fake_start env else heap_start st)"
  have hs0: "hs \<noteq> 0" using assms(1) by (simp add: hs_def)
  have hs_in: "fake_start env \<le> hs \<and> hs \<le> fake_end env"
    using assms(3,6) by (auto simp: hs_def sbrk_inv_def)
  have "unat hs \<le> unat (fake_end env)" using hs_in by (simp add: word_le_nat_alt)
  moreover have "unat i < 2 ^ 31" using assms(5) by (rule sint_nonneg_unat_u32)
  ultimately have lt: "unat hs + unat i < 2 ^ LENGTH(32)" using assms(4) by simp
  have sum: "unat (hs + i) = unat hs + unat i" using unat_add_lem [THEN iffD1, OF lt] .
  have r: "sbrk_r env i st =
      (if hs + i > fake_end env then (Inl ENOMEM, st\<lparr>heap_start := hs\<rparr>)
       else (Inr hs, st\<lparr>heap_start := hs + i, sbrk_calls := sbrk_calls st + 1,
                  sbrk_max_incr := (if 0 < sint i \<and> sbrk_max_incr st < i then i else sbrk_max_incr st),
                  sbrk_total_incr := sbrk_total_incr st + i,
                  sbrk_heap_start := hs + i, sbrk_heap_end := fake_end env\<rparr>))"
    using assms(1,2) by (simp add: sbrk_r_def hs_def Let_def)
  show ?thesis
  proof (cases "hs + i > fake_end env")
    case True
    then show ?thesis using assms(7) r hs0 hs_in by (auto simp: sbrk_inv_def hs_def)
  next
    case False
    have le: "unat hs + unat i \<le> unat (fake_end env)" using False sum by (simp add: word_le_nat_alt not_less)
    have "fake_start env \<le> hs + i" using hs_in sum by (simp add: word_le_nat_alt)
    moreover have "hs + i \<le> fake_end env" using False by simp
    moreover have "hs + i \<noteq> 0" using hs0 sum by (metis add_eq_0_iff_both_eq_0 unat_eq_zero)
    ultimately show ?thesis using assms(7) r False sum le by (auto simp: sbrk_inv_def hs_def)
  qed
qed


lemma sbrk_run_blocks:
  assumes env: "fake_start env \<noteq> 0" "fake_end env \<noteq> 0" "fake_start env \<le> fake_end env"
      "unat (fake_end env) < 2 ^ 31"
    and "list_all (\<lambda>i. 0 \<le> sint i) incrs" and "sbrk_inv env st"
  shows "sorted_wrt (\<lambda>(p1, i1) (p2, i2). unat p1 + unat i1 \<le> unat p2) (sbrk_blocks env incrs st) \<and>
         list_all (\<lambda>(p, i). unat (if heap_start st = 0 then fake_start env else heap_start st) \<le> unat p \<and>
                            unat p + unat i \<le> unat (fake_end env)) (sbrk_blocks env incrs st)"
  using assms(5,6)
proof (induction incrs arbitrary: st)
  case Nil
  then show ?case by (simp add: sbrk_blocks_def)
next
  case (Cons i incrs)
  obtain r st' where step: "sbrk_r env i st = (r, st')" by fastforce
  have i: "0 \<le> sint i" and rest: "list_all (\<lambda>i. 0 \<le> sint i) incrs" using Cons.prems(1) by simp_all
  note inv = sbrk_r_inv [OF env i Cons.prems(2) step]
  have IH: "sorted_wrt (\<lambda>(p1, i1) (p2, i2). unat p1 + unat i1 \<le> unat p2) (sbrk_blocks env incrs st') \<and>
      list_all (\<lambda>(p, i). unat (heap_start st') \<le> unat p \<and> unat p + unat i \<le> unat (fake_end env))
        (sbrk_blocks env incrs st')"
  proof -
    have inv1: "sbrk_inv env st'" and nz: "heap_start st' \<noteq> 0" using inv by simp_all
    show ?thesis using Cons.IH [OF rest inv1] nz by simp
  qed
  show ?case
  proof (cases r)
    case (Inl e)
    then show ?thesis using IH inv step
      by (auto simp: sbrk_blocks_Cons list_all_iff intro: le_trans)
  next
    case (Inr p)
    then show ?thesis using IH inv step
      by (auto simp: sbrk_blocks_Cons list_all_iff sorted_wrt_append intro: le_trans)
  qed
qed


lemma allocate_fake_heap:
  "fake_heap_start (fst (system_allocateHeaps si g)) = 0x08000000 \<and>
   unat (fake_heap_end (fst (system_allocateHeaps si g)))
     = 0x08000000 + unat (heap_size (fst (system_allocateHeaps si g)))"
proof -
  have cap: "unat (heap_size (fst (system_allocateHeaps si g))) \<le> 0x6000000"
    using heap_size_allocate_le_cap by (simp add: word_le_nat_alt)
  have e: "fake_heap_end (fst (system_allocateHeaps si g))
      = 0x08000000 + heap_size (fst (system_allocateHeaps si g))"
    by (simp add: system_allocateHeaps_def Let_def)
  have "unat (0x08000000 :: u32) + unat (heap_size (fst (system_allocateHeaps si g))) < 2 ^ LENGTH(32)"
    using cap by simp
  from unat_add_lem [THEN iffD1, OF this] e show ?thesis
    by (simp add: system_allocateHeaps_def Let_def)
qed

subsection \<open>Properties\<close>

text \<open>C9: after \<open>__system_allocateHeaps\<close>, for requests that do not shrink the heap,
  the blocks \<open>_sbrk_r\<close> hands out lie inside the newlib heap
  \<open>[0x08000000, 0x08000000 + __heap_size)\<close> and follow one another without overlap.\<close>

theorem sbrk_blocks_in_newlib_heap:
  assumes "list_all (\<lambda>i. 0 \<le> sint i) incrs"
  shows "sorted_wrt (\<lambda>(p1, i1) (p2, i2). unat p1 + unat i1 \<le> unat p2)
           (sbrk_blocks (newlib_sbrk_env (fst (system_allocateHeaps si g)) e sp) incrs sbrk_state_init) \<and>
         list_all (\<lambda>(p, i). 0x08000000 \<le> unat p \<and>
                      unat p + unat i \<le> 0x08000000 + unat (heap_size (fst (system_allocateHeaps si g))))
           (sbrk_blocks (newlib_sbrk_env (fst (system_allocateHeaps si g)) e sp) incrs sbrk_state_init)"
proof -
  let ?env = "newlib_sbrk_env (fst (system_allocateHeaps si g)) e sp"
  have f: "fake_start ?env = 0x08000000"
    "unat (fake_end ?env) = 0x08000000 + unat (heap_size (fst (system_allocateHeaps si g)))"
    using allocate_fake_heap by (simp_all add: newlib_sbrk_env_def)
  have cap: "unat (heap_size (fst (system_allocateHeaps si g))) \<le> 0x6000000"
    using heap_size_allocate_le_cap by (simp add: word_le_nat_alt)
  have env: "fake_start ?env \<noteq> 0" "fake_end ?env \<noteq> 0" "fake_start ?env \<le> fake_end ?env"
      "unat (fake_end ?env) < 2 ^ 31"
    using f cap by (auto simp: word_le_nat_alt simp del: unat_u32_less dest: arg_cong [where f = unat])
  have inv: "sbrk_inv ?env sbrk_state_init" by (simp add: sbrk_inv_def sbrk_state_init_def)
  show ?thesis using sbrk_run_blocks [OF env assms inv] f by (simp add: sbrk_state_init_def)
qed

theorem sbrk_blocks_in_newlib_heap_witness:
  "list_all (\<lambda>i. 0 \<le> sint i) [256, 512 :: u32] \<and>
   sorted_wrt (\<lambda>(p1, i1) (p2, i2). unat p1 + unat i1 \<le> unat p2)
     (sbrk_blocks (newlib_sbrk_env (fst (system_allocateHeaps ctr_example_sysinfo ctr_example_globals)) 0 0)
       [256, 512] sbrk_state_init)"
proof -
  have h: "list_all (\<lambda>i. 0 \<le> sint i) [256, 512 :: u32]" by simp
  show ?thesis using h sbrk_blocks_in_newlib_heap [OF h] by blast
qed

text \<open>A request that would pass the end of the heap fails with \<open>ENOMEM\<close> and
  leaves the break and the statistics unchanged.\<close>

theorem sbrk_enomem_unchanged:
  "heap_start st \<noteq> 0 \<Longrightarrow> fake_end env \<noteq> 0 \<Longrightarrow> fake_end env < heap_start st + incr \<Longrightarrow>
   sbrk_r env incr st = (Inl ENOMEM, st)"
  by (simp add: sbrk_r_def)

text \<open>C27: \<open>_sbrk_r\<close> checks only the upper bound: a negative increment larger than what
  was taken moves the break below \<open>fake_heap_start\<close>, out of the newlib heap.\<close>

theorem sbrk_negative_below_heap:
  assumes "0x100 \<le> heap_size (fst (system_allocateHeaps si g))"
  shows "fst (sbrk_run (newlib_sbrk_env (fst (system_allocateHeaps si g)) e sp) [0x100, - 0x200] sbrk_state_init)
           = [Inr 0x08000000, Inr 0x08000100] \<and>
         heap_start (snd (sbrk_run (newlib_sbrk_env (fst (system_allocateHeaps si g)) e sp) [0x100, - 0x200]
           sbrk_state_init)) = 0x07FFFF00 \<and>
         0x07FFFF00 < fake_heap_start (fst (system_allocateHeaps si g))"
proof -
  let ?h = "fst (system_allocateHeaps si g)"
  have f: "fake_heap_start ?h = 0x08000000"
    "unat (fake_heap_end ?h) = 0x08000000 + unat (heap_size ?h)"
    using allocate_fake_heap by simp_all
  have "256 \<le> unat (heap_size ?h)" using assms by (simp add: word_le_nat_alt)
  then have "0x08000100 \<le> unat (fake_heap_end ?h)" using f by simp
  then have e1: "\<not> fake_heap_end ?h < 0x08000100" and e2: "\<not> fake_heap_end ?h < 0x07FFFF00"
    and nz: "fake_heap_end ?h \<noteq> 0"
    by (auto simp: word_less_nat_alt)
  show ?thesis
    using f e1 e2 nz by (simp add: newlib_sbrk_env_def sbrk_r_def sbrk_state_init_def Let_def)
qed

theorem sbrk_negative_below_heap_witness:
  "0x100 \<le> heap_size (fst (system_allocateHeaps ctr_example_sysinfo ctr_example_globals)) \<and>
   heap_start (snd (sbrk_run (newlib_sbrk_env (fst (system_allocateHeaps ctr_example_sysinfo ctr_example_globals)) 0 0)
     [0x100, - 0x200] sbrk_state_init)) = 0x07FFFF00"
proof -
  have h: "0x100 \<le> heap_size (fst (system_allocateHeaps ctr_example_sysinfo ctr_example_globals))"
    by (simp add: heap_example_defs system_allocateHeaps_def mem_available_def app_memory_def Let_def)
  show ?thesis using h sbrk_negative_below_heap [OF h] by blast
qed

end
