(* ===== verification/DspFirm.thy ===== *)
theory DspFirm
  imports Prelude
begin

text \<open>
  \<open>ctr_check_dspfirm\<close> (\<open>src/frontend/drivers/platform_ctr.c\<close>): when the DSP
  firmware \<open>sdmc:/3ds/dspfirm.cdc\<close> is missing, the whole of \<open>sdmc:/3ds/code.bin\<close> is read
  into a \<open>malloc\<close>'d buffer, scanned word by word from word \<open>0x40\<close> for the magic
  \<open>"DSP1"\<close>, and the firmware (which starts \<open>0x40\<close> words, i.e. \<open>0x100\<close> bytes, before the
  magic, its size being the word after the magic) is written out. The SD card is a map
  from paths to byte lists; the buffer's address, whether \<open>malloc\<close> succeeds and
  whether the card accepts the new file are inputs. Pointers are 32-bit addresses, so
  the bounds check \<open>ptr + (dspfirm_size >> 2) > code_buffer + (code_size >> 2)\<close> is
  evaluated with wrap-around. A read outside the buffer (\<open>ptr[1]\<close> past the last word, or
  \<open>fwrite\<close> past the end) is undefined behaviour in C and the error \<open>OutOfBoundsRead\<close>
  here. \<open>code_size\<close> is the file's length (\<open>ftell\<close> on a file below 2 GiB).
\<close>

unbundle bit_operations_syntax

datatype dsp_error = OutOfBoundsRead

datatype scan_outcome =
    NoMagic
  | SizeCheckFailed
  | FirmwareAt nat u32 \<comment> \<open>byte offset of the firmware in the buffer, \<open>dspfirm_size\<close>\<close>

record sd_env =
  sd_files :: "string \<rightharpoonup> u8 list"
  sd_writable :: bool
  malloc_ok :: bool
  code_buffer :: u32

definition dspfirm_path :: string where "dspfirm_path = ''sdmc:/3ds/dspfirm.cdc''"
definition code_bin_path :: string where "code_bin_path = ''sdmc:/3ds/code.bin''"

definition dsp1_magic :: u32 where "dsp1_magic = 0x31505344"

text \<open>The word \<open>code_buffer[k]\<close> of a little-endian byte buffer.\<close>

definition code_word :: "u8 list \<Rightarrow> nat \<Rightarrow> u32" where
  "code_word bs k =
     ucast (bs ! (4 * k)) OR push_bit 8 (ucast (bs ! (4 * k + 1)))
     OR push_bit 16 (ucast (bs ! (4 * k + 2))) OR push_bit 24 (ucast (bs ! (4 * k + 3)))"

text \<open>
  The \<open>for\<close> loop, from the word index \<open>i\<close>. The loop runs while
  \<open>ptr < code_buffer + (code_size >> 2)\<close>, i.e. \<open>i < length bs div 4\<close>. On the magic it
  reads \<open>ptr[1]\<close> (word \<open>i + 1\<close>, inside the buffer only when \<open>4 * (i + 2) \<le> length bs\<close>),
  steps \<open>ptr\<close> back \<open>0x40\<close> words and compares the 32-bit addresses.
\<close>

function dsp_scan :: "u32 \<Rightarrow> u8 list \<Rightarrow> nat \<Rightarrow> dsp_error + scan_outcome" where
  "dsp_scan buf bs i =
     (if i < length bs div 4 then
        (if code_word bs i = dsp1_magic then
           (if length bs < 4 * (i + 2) then Inl OutOfBoundsRead
            else
              (let dspfirm_size = code_word bs (i + 1);
                   p = i - 0x40;
                   ptr = buf + word_of_nat (4 * p);
                   end_ptr = buf + word_of_nat (4 * (length bs div 4))
               in if ptr + 4 * drop_bit 2 dspfirm_size > end_ptr then Inr SizeCheckFailed
                  else Inr (FirmwareAt (4 * p) dspfirm_size)))
         else dsp_scan buf bs (Suc i))
      else Inr NoMagic)"
  by pat_completeness auto
termination
  by (relation "measure (\<lambda>(buf, bs, i). length bs div 4 - i)") auto

declare dsp_scan.simps [simp del]

definition ctr_check_dspfirm :: "sd_env \<Rightarrow> dsp_error + (string \<rightharpoonup> u8 list)" where
  "ctr_check_dspfirm e =
     (let fs = sd_files e in
      if fs dspfirm_path \<noteq> None then Inr fs
      else
        (case fs code_bin_path of
           None \<Rightarrow> Inr fs
         | Some bs \<Rightarrow>
             if \<not> malloc_ok e then Inr fs
             else
               (case dsp_scan (code_buffer e) bs 0x40 of
                  Inl err \<Rightarrow> Inl err
                | Inr NoMagic \<Rightarrow> Inr fs
                | Inr SizeCheckFailed \<Rightarrow> Inr fs
                | Inr (FirmwareAt off sz) \<Rightarrow>
                    if \<not> sd_writable e then Inr fs
                    else if length bs < off + unat sz then Inl OutOfBoundsRead
                    else Inr (fs(dspfirm_path \<mapsto> take (unat sz) (drop off bs))))))"

text \<open>The four bytes of a word, little-endian, to build \<open>code.bin\<close> images.\<close>

definition le_bytes :: "u32 \<Rightarrow> u8 list" where
  "le_bytes w = [ucast w, ucast (drop_bit 8 w), ucast (drop_bit 16 w), ucast (drop_bit 24 w)]"

definition example_code_bin :: "u8 list" where
  "example_code_bin = replicate 256 0 @ le_bytes dsp1_magic @ le_bytes 16 @ replicate 8 7"

definition code_bin_env :: "u8 list \<Rightarrow> sd_env" where
  "code_bin_env bs = \<lparr>sd_files = [code_bin_path \<mapsto> bs], sd_writable = True,
     malloc_ok = True, code_buffer = 0x08100000\<rparr>"

text \<open>\<open>code.bin\<close> images on which the scan reads outside the buffer: the magic in the
  last word (so \<open>ptr[1]\<close> is past the end); a size that is not a multiple of four and
  overruns the buffer by three bytes; a size so large that \<open>ptr + (dspfirm_size >> 2)\<close>
  wraps around the 32-bit address space and passes the check.\<close>

definition magic_last_code_bin :: "u8 list" where
  "magic_last_code_bin = replicate 256 0 @ le_bytes dsp1_magic"

definition unaligned_size_code_bin :: "u8 list" where
  "unaligned_size_code_bin = replicate 256 0 @ le_bytes dsp1_magic @ le_bytes 267"

definition wrapping_size_code_bin :: "u8 list" where
  "wrapping_size_code_bin = replicate 256 0 @ le_bytes dsp1_magic @ le_bytes 0xFFFFFFFC"

lemmas dsp_example_defs = code_bin_env_def example_code_bin_def magic_last_code_bin_def
  unaligned_size_code_bin_def wrapping_size_code_bin_def le_bytes_def

subsection \<open>The scan\<close>

lemma dsp_scan_skip:
  "i < length bs div 4 \<Longrightarrow> code_word bs i \<noteq> dsp1_magic \<Longrightarrow>
   dsp_scan buf bs i = dsp_scan buf bs (Suc i)"
  by (simp add: dsp_scan.simps [of buf bs i])

lemma dsp_scan_at_magic:
  "i < length bs div 4 \<Longrightarrow> code_word bs i = dsp1_magic \<Longrightarrow>
   dsp_scan buf bs i =
     (if length bs < 4 * (i + 2) then Inl OutOfBoundsRead
      else if buf + word_of_nat (4 * (i - 0x40)) + 4 * drop_bit 2 (code_word bs (i + 1))
              > buf + word_of_nat (4 * (length bs div 4)) then Inr SizeCheckFailed
      else Inr (FirmwareAt (4 * (i - 0x40)) (code_word bs (i + 1))))"
  by (simp add: dsp_scan.simps [of buf bs i] Let_def)

text \<open>The scan stops at the first magic word at or after its start.\<close>

lemma dsp_scan_first_magic:
  "i \<le> j \<Longrightarrow> j < length bs div 4 \<Longrightarrow> code_word bs j = dsp1_magic \<Longrightarrow>
   (\<forall>k. i \<le> k \<and> k < j \<longrightarrow> code_word bs k \<noteq> dsp1_magic) \<Longrightarrow>
   dsp_scan buf bs i = dsp_scan buf bs j"
proof (induction "j - i" arbitrary: i)
  case 0
  then show ?case by simp
next
  case (Suc d)
  then have "i < j" by simp
  then have "dsp_scan buf bs i = dsp_scan buf bs (Suc i)"
    using Suc.prems by (intro dsp_scan_skip) auto
  also have "\<dots> = dsp_scan buf bs j"
    using Suc.hyps(1) [of "Suc i"] Suc.hyps(2) Suc.prems \<open>i < j\<close> by simp
  finally show ?case .
qed

text \<open>What a found firmware means: a magic word whose successor is inside the buffer,
  and a size that passed the 32-bit check.\<close>

lemma dsp_scan_FirmwareAt:
  "dsp_scan buf bs i = Inr (FirmwareAt off sz) \<Longrightarrow>
   \<exists>j. i \<le> j \<and> j < length bs div 4 \<and> code_word bs j = dsp1_magic \<and> 4 * (j + 2) \<le> length bs \<and>
       off = 4 * (j - 0x40) \<and> sz = code_word bs (j + 1) \<and>
       \<not> buf + word_of_nat (4 * (j - 0x40)) + 4 * drop_bit 2 sz
           > buf + word_of_nat (4 * (length bs div 4))"
proof (induction buf bs i rule: dsp_scan.induct)
  case (1 buf bs i)
  show ?case
  proof (cases "i < length bs div 4")
    case False
    with "1.prems" show ?thesis by (simp add: dsp_scan.simps [of buf bs i])
  next
    case True
    show ?thesis
    proof (cases "code_word bs i = dsp1_magic")
      case False
      with True "1.prems" have "dsp_scan buf bs (Suc i) = Inr (FirmwareAt off sz)"
        by (simp add: dsp_scan_skip)
      with "1.IH" True False obtain j where "Suc i \<le> j" and
        "j < length bs div 4 \<and> code_word bs j = dsp1_magic \<and> 4 * (j + 2) \<le> length bs \<and>
         off = 4 * (j - 0x40) \<and> sz = code_word bs (j + 1) \<and>
         \<not> buf + word_of_nat (4 * (j - 0x40)) + 4 * drop_bit 2 sz
             > buf + word_of_nat (4 * (length bs div 4))"
        by blast
      then show ?thesis using Suc_leD by blast
    next
      case True2: True
      with True "1.prems" show ?thesis
        by (auto simp: dsp_scan_at_magic split: if_splits)
    qed
  qed
qed

subsection \<open>The 32-bit bounds check\<close>

lemma unat_addr_offset:
  "unat (buf :: u32) + n < 2 ^ 32 \<Longrightarrow> unat (buf + word_of_nat n) = unat buf + n"
proof -
  assume h: "unat buf + n < 2 ^ 32"
  then have "unat (word_of_nat n :: u32) = n" by (simp add: unat_of_nat)
  with h show ?thesis by (simp add: unat_add_lem [THEN iffD1])
qed

lemma unat_word_aligned_size:
  "unat (4 * drop_bit 2 (sz :: u32)) = 4 * (unat sz div 4)"
proof -
  have d: "unat (drop_bit 2 sz) = unat sz div 4"
    by (simp add: drop_bit_eq_div unat_div)
  have "unat sz div 4 < 1073741824"
    using unat_u32_less [of sz] by (simp add: div_less_iff_less_mult)
  then have "4 * unat (drop_bit 2 sz) < 2 ^ 32" using d by simp
  then show ?thesis using d by (simp add: unat_mult_lem [THEN iffD1])
qed

lemma unat_firmware_end:
  "unat (buf :: u32) + off + 4 * (unat sz div 4) < 2 ^ 32 \<Longrightarrow>
   unat (buf + word_of_nat off + 4 * drop_bit 2 sz) = unat buf + off + 4 * (unat sz div 4)"
proof -
  assume h: "unat buf + off + 4 * (unat sz div 4) < 2 ^ 32"
  then have "unat (buf + word_of_nat off) = unat buf + off"
    by (intro unat_addr_offset) simp
  with h show ?thesis by (simp add: unat_add_lem [THEN iffD1] unat_word_aligned_size)
qed

text \<open>Without wrap-around the check passes exactly when the firmware, rounded down to
  whole words, ends inside the buffer's whole words.\<close>

lemma size_check_iff:
  assumes "unat (buf :: u32) + length bs + unat sz < 2 ^ 32" and "off \<le> length bs"
  shows "(\<not> buf + word_of_nat off + 4 * drop_bit 2 sz > buf + word_of_nat (4 * (length bs div 4)))
     \<longleftrightarrow> off + 4 * (unat sz div 4) \<le> 4 * (length bs div 4)"
proof -
  have "4 * (unat sz div 4) \<le> unat sz"
    by (rule times_div_less_eq_dividend)
  then have e: "unat (buf + word_of_nat off + 4 * drop_bit 2 sz) = unat buf + off + 4 * (unat sz div 4)"
    using assms by (intro unat_firmware_end) linarith
  have "unat (buf + word_of_nat (4 * (length bs div 4))) = unat buf + 4 * (length bs div 4)"
    using assms(1) by (intro unat_addr_offset) linarith
  with e show ?thesis by (simp add: word_less_nat_alt not_less)
qed

lemma size_check_passes:
  assumes "unat (buf :: u32) + length bs < 2 ^ 32" and "off mod 4 = 0" and "off + unat sz \<le> length bs"
  shows "\<not> buf + word_of_nat off + 4 * drop_bit 2 sz > buf + word_of_nat (4 * (length bs div 4))"
proof -
  obtain k where k: "off = 4 * k"
    using assms(2) by (metis mod_eq_0_iff_dvd dvdE)
  have "4 * (k + unat sz div 4) \<le> length bs"
    using assms(3) k times_div_less_eq_dividend [of 4 "unat sz"] by (simp only: distrib_left)
  then have "k + unat sz div 4 \<le> length bs div 4"
    by (simp add: less_eq_div_iff_mult_less_eq mult.commute)
  then have a: "off + 4 * (unat sz div 4) \<le> 4 * (length bs div 4)"
    using k by linarith
  have "unat sz < 2 ^ 32" by simp
  then have e: "unat (buf + word_of_nat off + 4 * drop_bit 2 sz) = unat buf + off + 4 * (unat sz div 4)"
    using a assms(1) by (intro unat_firmware_end) linarith
  have "unat (buf + word_of_nat (4 * (length bs div 4))) = unat buf + 4 * (length bs div 4)"
    using assms(1) by (intro unat_addr_offset) linarith
  with e a show ?thesis by (simp add: word_less_nat_alt)
qed

lemma dspfirm_paths_differ [simp]:
  "dspfirm_path \<noteq> code_bin_path" "code_bin_path \<noteq> dspfirm_path"
  by (simp_all add: dspfirm_path_def code_bin_path_def)

lemma ctr_check_dspfirm_found:
  assumes "sd_files e dspfirm_path = None" and "sd_files e code_bin_path = Some bs"
    and "malloc_ok e" and "dsp_scan (code_buffer e) bs 0x40 = Inr (FirmwareAt off sz)"
  shows "ctr_check_dspfirm e =
    (if \<not> sd_writable e then Inr (sd_files e)
     else if length bs < off + unat sz then Inl OutOfBoundsRead
     else Inr ((sd_files e)(dspfirm_path \<mapsto> take (unat sz) (drop off bs))))"
  using assms by (simp add: ctr_check_dspfirm_def)

lemma length_example_code_bin: "length example_code_bin = 272"
  by (simp add: example_code_bin_def le_bytes_def)

lemma check_dspfirm_example:
  "ctr_check_dspfirm (code_bin_env example_code_bin) =
     Inr ((sd_files (code_bin_env example_code_bin))(dspfirm_path \<mapsto> take 16 example_code_bin))"
proof -
  have scan: "dsp_scan (code_buffer (code_bin_env example_code_bin)) example_code_bin 0x40
                = Inr (FirmwareAt 0 16)"
    by code_simp
  show ?thesis
    using ctr_check_dspfirm_found [OF _ _ _ scan] length_example_code_bin
    by (simp add: code_bin_env_def)
qed

subsection \<open>Properties\<close>

text \<open>C2: when the firmware is missing and \<open>code.bin\<close> holds the magic at word
  \<open>j \<ge> 0x40\<close> (the first one from word \<open>0x40\<close>), its size word is inside the buffer,
  the firmware fits in the file and the buffer does not wrap the address space,
  \<open>ctr_check_dspfirm\<close> writes \<open>dspfirm.cdc\<close> with the \<open>dspfirm_size\<close> bytes starting
  \<open>0x40\<close> words before the magic, and changes nothing else.\<close>

theorem dspfirm_extracted:
  assumes none: "sd_files e dspfirm_path = None"
    and code: "sd_files e code_bin_path = Some bs"
    and mem: "malloc_ok e" and wr: "sd_writable e"
    and start: "0x40 \<le> j" and inside: "4 * (j + 2) \<le> length bs"
    and magic: "code_word bs j = dsp1_magic"
    and first: "\<forall>k. 0x40 \<le> k \<and> k < j \<longrightarrow> code_word bs k \<noteq> dsp1_magic"
    and fits: "4 * (j - 0x40) + unat (code_word bs (j + 1)) \<le> length bs"
    and nowrap: "unat (code_buffer e) + length bs < 2 ^ 32"
  shows "ctr_check_dspfirm e =
    Inr ((sd_files e)(dspfirm_path \<mapsto> take (unat (code_word bs (j + 1))) (drop (4 * (j - 0x40)) bs)))"
proof -
  have "Suc j \<le> length bs div 4"
    using inside by (simp add: less_eq_div_iff_mult_less_eq)
  then have j: "j < length bs div 4"
    by simp
  have "dsp_scan (code_buffer e) bs 0x40 = dsp_scan (code_buffer e) bs j"
    using start j magic first by (rule dsp_scan_first_magic)
  also have "\<dots> = Inr (FirmwareAt (4 * (j - 0x40)) (code_word bs (j + 1)))"
    using size_check_passes [OF nowrap _ fits] j magic inside
    by (simp add: dsp_scan_at_magic)
  finally show ?thesis
    using ctr_check_dspfirm_found [OF none code mem] wr fits by simp
qed

theorem dspfirm_extracted_witness:
  "sd_files (code_bin_env example_code_bin) dspfirm_path = None \<and>
   sd_files (code_bin_env example_code_bin) code_bin_path = Some example_code_bin \<and>
   malloc_ok (code_bin_env example_code_bin) \<and> sd_writable (code_bin_env example_code_bin) \<and>
   0x40 \<le> (64::nat) \<and> 4 * (64 + 2) \<le> length example_code_bin \<and>
   code_word example_code_bin 64 = dsp1_magic \<and>
   4 * (64 - 0x40) + unat (code_word example_code_bin (64 + 1)) \<le> length example_code_bin \<and>
   unat (code_buffer (code_bin_env example_code_bin)) + length example_code_bin < 2 ^ 32 \<and>
   ctr_check_dspfirm (code_bin_env example_code_bin) =
     Inr ((sd_files (code_bin_env example_code_bin))(dspfirm_path \<mapsto>
       take (unat (code_word example_code_bin (64 + 1))) (drop (4 * (64 - 0x40)) example_code_bin)))"
proof -
  have h1: "sd_files (code_bin_env example_code_bin) dspfirm_path = None"
    by (simp add: code_bin_env_def)
  have h2: "sd_files (code_bin_env example_code_bin) code_bin_path = Some example_code_bin"
    by (simp add: code_bin_env_def)
  have h3: "malloc_ok (code_bin_env example_code_bin)" and h4: "sd_writable (code_bin_env example_code_bin)"
    by (simp_all add: code_bin_env_def)
  have h5: "0x40 \<le> (64::nat)" by simp
  note len = length_example_code_bin
  have h6: "4 * (64 + 2) \<le> length example_code_bin"
    by (simp add: len)
  have h7: "code_word example_code_bin 64 = dsp1_magic"
    by code_simp
  have h8: "\<forall>k. 0x40 \<le> k \<and> k < (64::nat) \<longrightarrow> code_word example_code_bin k \<noteq> dsp1_magic"
    by auto
  have sz: "code_word example_code_bin 65 = 16"
    by code_simp
  have h9: "4 * (64 - 0x40) + unat (code_word example_code_bin (64 + 1)) \<le> length example_code_bin"
    by (simp add: sz len)
  have h10: "unat (code_buffer (code_bin_env example_code_bin)) + length example_code_bin < 2 ^ 32"
    by (simp add: code_bin_env_def len)
  show ?thesis
    using h1 h2 h3 h4 h5 h6 h7 h9 h10
      dspfirm_extracted [OF h1 h2 h3 h4 h5 h6 h7 h8 h9 h10] by blast
qed

text \<open>C17: \<open>ctr_check_dspfirm\<close> changes no file of the SD card other than
  \<open>dspfirm.cdc\<close>; in particular \<open>code.bin\<close> is only read.\<close>

theorem dspfirm_frame:
  "ctr_check_dspfirm e = Inr fs' \<Longrightarrow> p \<noteq> dspfirm_path \<Longrightarrow> fs' p = sd_files e p"
  by (auto simp: ctr_check_dspfirm_def Let_def split: if_splits option.splits sum.splits scan_outcome.splits)

theorem dspfirm_frame_witness:
  "ctr_check_dspfirm (code_bin_env example_code_bin) =
     Inr ((sd_files (code_bin_env example_code_bin))(dspfirm_path \<mapsto> take 16 example_code_bin)) \<and>
   code_bin_path \<noteq> dspfirm_path \<and>
   ((sd_files (code_bin_env example_code_bin))(dspfirm_path \<mapsto> take 16 example_code_bin)) code_bin_path
     = sd_files (code_bin_env example_code_bin) code_bin_path"
proof -
  note r = check_dspfirm_example
  have p: "code_bin_path \<noteq> dspfirm_path" by simp
  show ?thesis
    using r p dspfirm_frame [OF r p] by blast
qed

text \<open>When \<open>dspfirm.cdc\<close> is already on the card, \<open>ctr_check_dspfirm\<close> reads and
  writes nothing: running it again after a successful extraction is a no-op.\<close>

theorem dspfirm_present_noop:
  "sd_files e dspfirm_path = Some fw \<Longrightarrow> ctr_check_dspfirm e = Inr (sd_files e)"
  by (simp add: ctr_check_dspfirm_def)

text \<open>Whatever \<open>ctr_check_dspfirm\<close> writes to \<open>dspfirm.cdc\<close> without reading outside
  the buffer is a word-aligned slice of \<open>code.bin\<close>.\<close>

theorem dspfirm_written_is_slice:
  assumes "ctr_check_dspfirm e = Inr fs'" and "sd_files e dspfirm_path = None"
    and "fs' dspfirm_path = Some fw"
  shows "\<exists>bs off. sd_files e code_bin_path = Some bs \<and> off mod 4 = 0 \<and>
           off + length fw \<le> length bs \<and> fw = take (length fw) (drop off bs)"
proof -
  obtain bs where bs: "sd_files e code_bin_path = Some bs"
    using assms by (cases "sd_files e code_bin_path") (auto simp: ctr_check_dspfirm_def)
  then obtain off sz where scan: "dsp_scan (code_buffer e) bs 0x40 = Inr (FirmwareAt off sz)"
    and ok: "malloc_ok e" "sd_writable e" "off + unat sz \<le> length bs"
    and fw: "fw = take (unat sz) (drop off bs)"
    using assms
    by (auto simp: ctr_check_dspfirm_def Let_def split: if_splits sum.splits scan_outcome.splits)
  obtain j where "off = 4 * (j - 0x40)"
    using dsp_scan_FirmwareAt [OF scan] by blast
  then have "off mod 4 = 0" by simp
  moreover have "length fw = unat sz"
    using fw ok(3) by simp
  ultimately show ?thesis
    using bs ok(3) fw by (intro exI [of _ bs] exI [of _ off]) simp
qed

text \<open>The bounds check compares word counts: without address wrap-around a firmware
  the scan accepts ends inside the buffer once its size is rounded down to whole words,
  and no further.\<close>

theorem size_check_guards_whole_words:
  assumes "dsp_scan buf bs i = Inr (FirmwareAt off sz)"
    and "unat buf + length bs + unat sz < 2 ^ 32"
  shows "off + 4 * (unat sz div 4) \<le> length bs"
proof -
  obtain j where j: "j < length bs div 4" "off = 4 * (j - 0x40)"
    and pass: "\<not> buf + word_of_nat (4 * (j - 0x40)) + 4 * drop_bit 2 sz
                   > buf + word_of_nat (4 * (length bs div 4))"
    using dsp_scan_FirmwareAt [OF assms(1)] by blast
  have off: "off \<le> length bs"
    using j by linarith
  from pass have "\<not> buf + word_of_nat off + 4 * drop_bit 2 sz
                     > buf + word_of_nat (4 * (length bs div 4))"
    unfolding j(2) .
  then have "off + 4 * (unat sz div 4) \<le> 4 * (length bs div 4)"
    using size_check_iff [OF assms(2) off] by blast
  then show ?thesis by linarith
qed

text \<open>C18: whenever the first magic word from word \<open>0x40\<close> on is the last whole word of
  \<open>code.bin\<close>, the size \<open>ptr[1]\<close> is read past the end of the buffer: the loop guard bounds
  \<open>ptr\<close> but not \<open>ptr + 1\<close>.\<close>

theorem magic_in_last_word_overread:
  assumes "sd_files e dspfirm_path = None" and "sd_files e code_bin_path = Some bs"
    and "malloc_ok e" and "length bs div 4 = Suc n" and "0x40 \<le> n"
    and "code_word bs n = dsp1_magic"
    and "\<forall>k. 0x40 \<le> k \<and> k < n \<longrightarrow> code_word bs k \<noteq> dsp1_magic"
  shows "ctr_check_dspfirm e = Inl OutOfBoundsRead"
proof -
  have "dsp_scan (code_buffer e) bs 0x40 = dsp_scan (code_buffer e) bs n"
    using assms(4-7) by (intro dsp_scan_first_magic) auto
  also have "\<dots> = Inl OutOfBoundsRead"
    using assms(4,6) by (simp add: dsp_scan_at_magic)
  finally show ?thesis
    using assms(1-3) by (simp add: ctr_check_dspfirm_def)
qed

theorem magic_in_last_word_overread_witness:
  "ctr_check_dspfirm (code_bin_env magic_last_code_bin) = Inl OutOfBoundsRead"
proof -
  have f: "sd_files (code_bin_env magic_last_code_bin) dspfirm_path = None"
    "sd_files (code_bin_env magic_last_code_bin) code_bin_path = Some magic_last_code_bin"
    "malloc_ok (code_bin_env magic_last_code_bin)"
    by (simp_all add: code_bin_env_def)
  have l: "length magic_last_code_bin div 4 = Suc 64"
    by (simp add: magic_last_code_bin_def le_bytes_def)
  have w: "code_word magic_last_code_bin 64 = dsp1_magic"
    by code_simp
  have none: "\<forall>k. 0x40 \<le> k \<and> k < (64::nat) \<longrightarrow> code_word magic_last_code_bin k \<noteq> dsp1_magic"
    by (intro allI impI) linarith
  show ?thesis
    using magic_in_last_word_overread [OF f l _ w none] by simp
qed

text \<open>A \<open>dspfirm_size\<close> that is not a multiple of four passes the word-count check
  and \<open>fwrite\<close> reads up to three bytes past the end of the buffer.\<close>

theorem unaligned_size_overread:
  "ctr_check_dspfirm (code_bin_env unaligned_size_code_bin) = Inl OutOfBoundsRead"
proof -
  have "dsp_scan 0x08100000 unaligned_size_code_bin 0x40 = Inr (FirmwareAt 0 267)"
    by code_simp
  then show ?thesis
    by (simp add: ctr_check_dspfirm_def code_bin_env_def unaligned_size_code_bin_def le_bytes_def)
qed

text \<open>A \<open>dspfirm_size\<close> close to 4 GiB makes \<open>ptr + (dspfirm_size >> 2)\<close> wrap around
  the 32-bit address space; the check passes and \<open>fwrite\<close> reads far past the buffer.\<close>

theorem wrapping_size_overread:
  "ctr_check_dspfirm (code_bin_env wrapping_size_code_bin) = Inl OutOfBoundsRead"
proof -
  have "dsp_scan 0x08100000 wrapping_size_code_bin 0x40 = Inr (FirmwareAt 0 0xFFFFFFFC)"
    by code_simp
  then show ?thesis
    by (simp add: ctr_check_dspfirm_def code_bin_env_def wrapping_size_code_bin_def le_bytes_def)
qed

end
