(* ===== verification/CtrLifecycle.thy ===== *)
theory CtrLifecycle
  imports DspFirm
begin

text \<open>
  \<open>frontend_ctr_init\<close> and \<open>frontend_ctr_deinit\<close> of the main (non-Salamander)
  build (\<open>src/frontend/drivers/platform_ctr.c\<close>). The audio drivers \<open>audio_ctr_dsp\<close> and
  \<open>audio_ctr_csnd\<close> are two global structs that \<open>init\<close> overwrites through the pointer
  \<open>dsp_audio_driver\<close>: they are a store from the two slots to the implementation each
  holds, and the pointer is a slot. The services of libctru (GSP graphics, CSND, DSP,
  CFG) are acquired by their \<open>*Init\<close> calls when these succeed and released by their
  \<open>*Exit\<close> calls; which calls succeed is the record \<open>ctr_hw\<close>. \<open>ndspInit\<close> succeeds
  when the DSP is usable and its firmware is on the SD card, which is why \<open>init\<close> runs
  \<open>ctr_check_dspfirm\<close> (theory \<open>DspFirm\<close>) just before it. Every call is appended to
  the trace \<open>calls\<close>; \<open>released_unacquired\<close> is a ghost field that records each
  \<open>*Exit\<close> of a service that was not acquired.
\<close>

datatype audio_impl = DspImpl | CsndImpl | NullImpl

datatype audio_slot = SlotDsp | SlotCsnd

datatype service = Gfx | Csnd | Ndsp | Cfgu

datatype ctr_call =
    OsSetSpeedupEnable bool | GfxInit | GfxSet3D bool | ConsoleInit | CsndInit
  | CheckDspFirm | NdspInit | InitCfgu
  | FcloseLog | WaitForInput | CfguGetModel | SrvGetServiceHandle | SendSyncRequest
  | CloseHandle | ExitCfgu | NdspExit | CsndExit | GfxExit

record ctr_hw =
  csnd_ok :: bool
  dsp_hw_ok :: bool
  cfgu_ok :: bool
  model_not_2ds :: bool
  uninit_not_2ds :: u8 \<comment> \<open>the stack byte \<open>not_2DS\<close> holds when the CFG query fails\<close>
  lcd_handle_ok :: bool
  console_on_bottom :: bool

record ctr_state =
  verbosity :: bool
  speedup :: bool
  audio_slots :: "audio_slot \<Rightarrow> audio_impl"
  acquired :: "service set"
  released_unacquired :: "service list"
  log_file_open :: bool
  sd :: sd_env
  calls :: "ctr_call list"

text \<open>The driver structs as the program starts: each slot holds its own implementation.\<close>

definition initial_audio_slots :: "audio_slot \<Rightarrow> audio_impl" where
  "initial_audio_slots s = (case s of SlotDsp \<Rightarrow> DspImpl | SlotCsnd \<Rightarrow> CsndImpl)"

text \<open>libctru's \<open>ndspInit\<close> loads \<open>sdmc:/3ds/dspfirm.cdc\<close>; it fails without it.\<close>

definition ndspInit :: "ctr_hw \<Rightarrow> sd_env \<Rightarrow> bool" where
  "ndspInit hw e \<longleftrightarrow> dsp_hw_ok hw \<and> sd_files e dspfirm_path \<noteq> None"

definition emit :: "ctr_call list \<Rightarrow> ctr_state \<Rightarrow> ctr_state" where
  "emit cs st = st\<lparr>calls := calls st @ cs\<rparr>"

definition acquire :: "bool \<Rightarrow> service \<Rightarrow> ctr_state \<Rightarrow> ctr_state" where
  "acquire ok s st = st\<lparr>acquired := (if ok then insert s (acquired st) else acquired st)\<rparr>"

definition release :: "service \<Rightarrow> ctr_state \<Rightarrow> ctr_state" where
  "release s st =
     st\<lparr>acquired := acquired st - {s},
        released_unacquired := released_unacquired st @ (if s \<in> acquired st then [] else [s])\<rparr>"

subsection \<open>\<open>frontend_ctr_init\<close>\<close>

text \<open>
  When \<open>csndInit()\<close> fails, the pointer moves to the CSND slot, the CSND slot receives a
  copy of the DSP driver and the DSP slot the null driver; when \<open>ndspInit()\<close> fails,
  the null driver is written through the pointer. A read outside the buffer in
  \<open>ctr_check_dspfirm\<close> is propagated as the error of \<open>init\<close>.
\<close>

definition frontend_ctr_init :: "ctr_hw \<Rightarrow> ctr_state \<Rightarrow> dsp_error + ctr_state" where
  "frontend_ctr_init hw st =
     (let st1 = emit [OsSetSpeedupEnable True, GfxInit, GfxSet3D False, ConsoleInit, CsndInit]
                  (acquire True Gfx (st\<lparr>verbosity := True, speedup := True\<rparr>));
          st2 = acquire (csnd_ok hw) Csnd st1;
          dsp_audio_driver = (if csnd_ok hw then SlotDsp else SlotCsnd);
          slots1 = audio_slots st2;
          slots2 = (if csnd_ok hw then slots1 else slots1(SlotCsnd := slots1 SlotDsp));
          slots3 = (if csnd_ok hw then slots2 else slots2(SlotDsp := NullImpl));
          st3 = st2\<lparr>audio_slots := slots3\<rparr>
      in case ctr_check_dspfirm (sd st3) of
           Inl err \<Rightarrow> Inl err
         | Inr fs \<Rightarrow>
             (let st4 = emit [CheckDspFirm, NdspInit] (st3\<lparr>sd := (sd st3)\<lparr>sd_files := fs\<rparr>\<rparr>);
                  ok = ndspInit hw (sd st4);
                  st5 = acquire ok Ndsp
                          (st4\<lparr>audio_slots := (if ok then audio_slots st4
                                                 else (audio_slots st4)(dsp_audio_driver := NullImpl))\<rparr>)
              in Inr (emit [InitCfgu] (acquire (cfgu_ok hw) Cfgu st5))))"

subsection \<open>\<open>frontend_ctr_deinit\<close>\<close>

text \<open>
  \<open>CFGU_GetModelNintendo2DS(&not_2DS)\<close> writes \<open>not_2DS\<close> only when the CFG service
  answers; otherwise the uninitialised stack byte is used. The LCD service handle is
  requested only on a console that is not a 2DS (\<open>&&\<close> short-circuits). The four
  \<open>*Exit\<close> calls are made whatever \<open>init\<close> achieved.
\<close>

definition not_2DS :: "ctr_hw \<Rightarrow> ctr_state \<Rightarrow> bool" where
  "not_2DS hw st = (if Cfgu \<in> acquired st then model_not_2ds hw else uninit_not_2ds hw \<noteq> 0)"

text \<open>The part of \<open>frontend_ctr_deinit\<close> up to the \<open>wait_for_input()\<close> call, which is
  made when the console is on the bottom screen.\<close>

definition deinit_until_wait :: "ctr_hw \<Rightarrow> ctr_state \<Rightarrow> ctr_state" where
  "deinit_until_wait hw st =
     (let st1 = st\<lparr>verbosity := True\<rparr>;
          st2 = (emit (if log_file_open st1 then [FcloseLog] else []) st1)\<lparr>log_file_open := False\<rparr>
      in emit (if console_on_bottom hw then [WaitForInput] else []) st2)"

definition frontend_ctr_deinit :: "ctr_hw \<Rightarrow> ctr_state \<Rightarrow> ctr_state" where
  "frontend_ctr_deinit hw st =
     (let st3 = deinit_until_wait hw st;
          st4 = emit [CfguGetModel] st3;
          st5 = emit (if not_2DS hw st then
                        SrvGetServiceHandle #
                          (if lcd_handle_ok hw then [SendSyncRequest, CloseHandle] else [])
                      else []) st4
      in release Gfx (emit [GfxExit] (release Csnd (emit [CsndExit]
           (release Ndsp (emit [NdspExit] (release Cfgu (emit [ExitCfgu] st5))))))))"

subsection \<open>Reading the trace\<close>

text \<open>The service each \<open>*Init\<close> call acquires and each \<open>*Exit\<close> call releases.\<close>

fun init_service :: "ctr_call \<Rightarrow> service option" where
  "init_service GfxInit = Some Gfx"
| "init_service CsndInit = Some Csnd"
| "init_service NdspInit = Some Ndsp"
| "init_service InitCfgu = Some Cfgu"
| "init_service _ = None"

fun exit_service :: "ctr_call \<Rightarrow> service option" where
  "exit_service GfxExit = Some Gfx"
| "exit_service CsndExit = Some Csnd"
| "exit_service NdspExit = Some Ndsp"
| "exit_service ExitCfgu = Some Cfgu"
| "exit_service _ = None"

subsection \<open>Example configurations\<close>

text \<open>The state at boot, after \<open>get_environment_settings\<close> opened the log file, with a
  given SD card; a console on which every service starts, and variants.\<close>

definition ctr_boot_state :: "sd_env \<Rightarrow> ctr_state" where
  "ctr_boot_state e = \<lparr>verbosity = False, speedup = False, audio_slots = initial_audio_slots,
     acquired = {}, released_unacquired = [], log_file_open = True, sd = e, calls = []\<rparr>"

definition ctr_hw_all_ok :: ctr_hw where
  "ctr_hw_all_ok = \<lparr>csnd_ok = True, dsp_hw_ok = True, cfgu_ok = True, model_not_2ds = True,
     uninit_not_2ds = 0, lcd_handle_ok = True, console_on_bottom = False\<rparr>"

definition ctr_hw_no_csnd :: ctr_hw where
  "ctr_hw_no_csnd = ctr_hw_all_ok\<lparr>csnd_ok := False\<rparr>"

definition ctr_hw_no_cfgu :: "u8 \<Rightarrow> ctr_hw" where
  "ctr_hw_no_cfgu b = ctr_hw_all_ok\<lparr>cfgu_ok := False, uninit_not_2ds := b\<rparr>"

lemmas ctr_hw_defs = ctr_hw_all_ok_def ctr_hw_no_csnd_def ctr_hw_no_cfgu_def

subsection \<open>Lemmas\<close>

lemmas init_unfold = frontend_ctr_init_def Let_def emit_def acquire_def
lemmas deinit_unfold = frontend_ctr_deinit_def deinit_until_wait_def Let_def emit_def release_def

lemma init_Inr_sd:
  "frontend_ctr_init hw st = Inr st' \<Longrightarrow>
   \<exists>fs. ctr_check_dspfirm (sd st) = Inr fs \<and> sd st' = (sd st)\<lparr>sd_files := fs\<rparr>"
  by (auto simp: init_unfold split: sum.splits)

lemma init_Inr_exists:
  "ctr_check_dspfirm (sd st) = Inr fs \<Longrightarrow> \<exists>st'. frontend_ctr_init hw st = Inr st'"
  by (simp add: init_unfold)

lemma init_Inr_acquired:
  "frontend_ctr_init hw st = Inr st' \<Longrightarrow>
   acquired st' = acquired st \<union> {Gfx} \<union> (if csnd_ok hw then {Csnd} else {})
           \<union> (if ndspInit hw (sd st') then {Ndsp} else {}) \<union> (if cfgu_ok hw then {Cfgu} else {})"
  by (auto simp: init_unfold split: sum.splits if_splits)

lemma init_Inr_released_unacquired:
  "frontend_ctr_init hw st = Inr st' \<Longrightarrow> released_unacquired st' = released_unacquired st"
  by (auto simp: init_unfold split: sum.splits)

lemma init_Inr_calls:
  "frontend_ctr_init hw st = Inr st' \<Longrightarrow>
   calls st' = calls st @ [OsSetSpeedupEnable True, GfxInit, GfxSet3D False, ConsoleInit, CsndInit,
                           CheckDspFirm, NdspInit, InitCfgu]"
  by (auto simp: init_unfold split: sum.splits)

lemma init_Inr_slot_dsp:
  "frontend_ctr_init hw st = Inr st' \<Longrightarrow>
   audio_slots st' SlotDsp =
     (if csnd_ok hw \<and> ndspInit hw (sd st') then audio_slots st SlotDsp else NullImpl)"
  by (auto simp: init_unfold split: sum.splits)

lemma init_Inr_slot_csnd:
  "frontend_ctr_init hw st = Inr st' \<Longrightarrow>
   audio_slots st' SlotCsnd =
     (if csnd_ok hw then audio_slots st SlotCsnd
      else if ndspInit hw (sd st') then audio_slots st SlotDsp else NullImpl)"
  by (auto simp: init_unfold split: sum.splits)

lemma deinit_acquired: "acquired (frontend_ctr_deinit hw st) = acquired st - {Cfgu, Ndsp, Csnd, Gfx}"
  by (auto simp: deinit_unfold)

lemma deinit_released_unacquired:
  "released_unacquired (frontend_ctr_deinit hw st) =
     released_unacquired st @ filter (\<lambda>s. s \<notin> acquired st) [Cfgu, Ndsp, Csnd, Gfx]"
  by (auto simp: deinit_unfold)

lemma deinit_calls:
  "calls (frontend_ctr_deinit hw st) =
     calls st @ (if log_file_open st then [FcloseLog] else [])
     @ (if console_on_bottom hw then [WaitForInput] else []) @ [CfguGetModel]
     @ (if not_2DS hw st then SrvGetServiceHandle #
          (if lcd_handle_ok hw then [SendSyncRequest, CloseHandle] else []) else [])
     @ [ExitCfgu, NdspExit, CsndExit, GfxExit]"
  by (simp add: deinit_unfold)

lemma ex_audio_slot: "(\<exists>sl. P sl) \<longleftrightarrow> P SlotDsp \<or> P SlotCsnd"
  by (metis audio_slot.exhaust)

lemma boot_init_example:
  "\<exists>st'. frontend_ctr_init hw (ctr_boot_state (code_bin_env example_code_bin)) = Inr st'"
  using check_dspfirm_example by (intro init_Inr_exists) (simp add: ctr_boot_state_def)

subsection \<open>Properties\<close>

text \<open>C1: when no service was held before, \<open>frontend_ctr_deinit\<close> after a completed
  \<open>frontend_ctr_init\<close> releases every service \<open>init\<close> acquired, whichever of them failed
  to start.\<close>

theorem init_deinit_releases_all:
  assumes "acquired st = {}" and "frontend_ctr_init hw st = Inr st'"
  shows "acquired (frontend_ctr_deinit hw st') = {}"
  using init_Inr_acquired [OF assms(2)] assms(1) by (auto simp: deinit_acquired)

theorem init_deinit_releases_all_witness:
  "acquired (ctr_boot_state (code_bin_env example_code_bin)) = {} \<and>
   (\<exists>st'. frontend_ctr_init ctr_hw_no_csnd (ctr_boot_state (code_bin_env example_code_bin)) = Inr st' \<and>
          acquired (frontend_ctr_deinit ctr_hw_no_csnd st') = {})"
proof -
  have h: "acquired (ctr_boot_state (code_bin_env example_code_bin)) = {}"
    by (simp add: ctr_boot_state_def)
  obtain st' where i: "frontend_ctr_init ctr_hw_no_csnd (ctr_boot_state (code_bin_env example_code_bin)) = Inr st'"
    using boot_init_example by blast
  show ?thesis using h i init_deinit_releases_all [OF h i] by blast
qed

text \<open>C20: \<open>frontend_ctr_deinit\<close> calls the \<open>*Exit\<close> function of every service whose
  \<open>*Init\<close> failed during \<open>init\<close> (CFG, DSP, CSND): it does not skip the subsystems that
  were never acquired, contrary to the partial-init requirement of the spec.\<close>

theorem deinit_exits_failed_services:
  assumes "acquired st = {}" and "frontend_ctr_init hw st = Inr st'"
  shows "released_unacquired (frontend_ctr_deinit hw st') = released_unacquired st
           @ (if cfgu_ok hw then [] else [Cfgu]) @ (if ndspInit hw (sd st') then [] else [Ndsp])
           @ (if csnd_ok hw then [] else [Csnd])"
  using init_Inr_acquired [OF assms(2)] init_Inr_released_unacquired [OF assms(2)] assms(1)
  by (simp add: deinit_released_unacquired)

theorem deinit_exits_failed_services_witness:
  "acquired (ctr_boot_state (code_bin_env example_code_bin)) = {} \<and>
   (\<exists>st'. frontend_ctr_init ctr_hw_no_csnd (ctr_boot_state (code_bin_env example_code_bin)) = Inr st' \<and>
     released_unacquired (frontend_ctr_deinit ctr_hw_no_csnd st') =
       released_unacquired (ctr_boot_state (code_bin_env example_code_bin))
       @ (if cfgu_ok ctr_hw_no_csnd then [] else [Cfgu])
       @ (if ndspInit ctr_hw_no_csnd (sd st') then [] else [Ndsp])
       @ (if csnd_ok ctr_hw_no_csnd then [] else [Csnd]))"
proof -
  have h: "acquired (ctr_boot_state (code_bin_env example_code_bin)) = {}"
    by (simp add: ctr_boot_state_def)
  obtain st' where i: "frontend_ctr_init ctr_hw_no_csnd (ctr_boot_state (code_bin_env example_code_bin)) = Inr st'"
    using boot_init_example by blast
  show ?thesis using h i deinit_exits_failed_services [OF h i] by blast
qed

text \<open>C4: after \<open>frontend_ctr_init\<close>, a driver slot holds the DSP implementation only
  if \<open>ndspInit\<close> succeeded and the CSND implementation only if \<open>csndInit\<close> succeeded: a
  failed backend is replaced by \<open>audio_null\<close>.\<close>

theorem audio_slots_hold_working_drivers:
  assumes "frontend_ctr_init hw st = Inr st'" and "audio_slots st = initial_audio_slots"
  shows "(audio_slots st' sl = DspImpl \<longrightarrow> ndspInit hw (sd st')) \<and>
         (audio_slots st' sl = CsndImpl \<longrightarrow> csnd_ok hw)"
  using init_Inr_slot_dsp [OF assms(1)] init_Inr_slot_csnd [OF assms(1)] assms(2)
  by (cases sl) (auto simp: initial_audio_slots_def)

theorem audio_slots_hold_working_drivers_witness:
  "audio_slots (ctr_boot_state (code_bin_env example_code_bin)) = initial_audio_slots \<and>
   (\<exists>st'. frontend_ctr_init ctr_hw_no_csnd (ctr_boot_state (code_bin_env example_code_bin)) = Inr st' \<and>
          audio_slots st' SlotCsnd = DspImpl \<and> ndspInit ctr_hw_no_csnd (sd st'))"
proof -
  have h: "audio_slots (ctr_boot_state (code_bin_env example_code_bin)) = initial_audio_slots"
    by (simp add: ctr_boot_state_def)
  obtain st' where i: "frontend_ctr_init ctr_hw_no_csnd (ctr_boot_state (code_bin_env example_code_bin)) = Inr st'"
    using boot_init_example by blast
  have n: "ndspInit ctr_hw_no_csnd (sd st')"
    using init_Inr_sd [OF i] check_dspfirm_example
    by (auto simp: ndspInit_def ctr_hw_defs ctr_boot_state_def)
  have s: "audio_slots st' SlotCsnd = DspImpl"
    using init_Inr_slot_csnd [OF i] n by (simp add: ctr_hw_defs ctr_boot_state_def initial_audio_slots_def)
  show ?thesis
    using h i s audio_slots_hold_working_drivers [OF i h, of SlotCsnd] by blast
qed

text \<open>After \<open>frontend_ctr_init\<close>, the DSP implementation is offered in some slot
  exactly when \<open>ndspInit\<close> succeeded, and the CSND implementation exactly when
  \<open>csndInit\<close> succeeded: a backend that works is never lost by the fallback.\<close>

theorem audio_backends_offered:
  assumes "frontend_ctr_init hw st = Inr st'" and "audio_slots st = initial_audio_slots"
  shows "((\<exists>sl. audio_slots st' sl = DspImpl) \<longleftrightarrow> ndspInit hw (sd st')) \<and>
         ((\<exists>sl. audio_slots st' sl = CsndImpl) \<longleftrightarrow> csnd_ok hw)"
proof -
  have d: "audio_slots st' SlotDsp = (if csnd_ok hw \<and> ndspInit hw (sd st') then DspImpl else NullImpl)"
    using init_Inr_slot_dsp [OF assms(1)] assms(2) by (simp add: initial_audio_slots_def)
  have c: "audio_slots st' SlotCsnd =
             (if csnd_ok hw then CsndImpl else if ndspInit hw (sd st') then DspImpl else NullImpl)"
    using init_Inr_slot_csnd [OF assms(1)] assms(2) by (simp add: initial_audio_slots_def)
  show ?thesis
    by (cases "csnd_ok hw"; cases "ndspInit hw (sd st')") (simp_all add: ex_audio_slot d c)
qed

text \<open>C21: \<open>frontend_ctr_deinit\<close> releases the services in the reverse of the order in
  which \<open>frontend_ctr_init\<close> started them.\<close>

theorem exit_order_reverses_init:
  assumes "frontend_ctr_init hw st = Inr st'"
  shows "List.map_filter exit_service (drop (length (calls st')) (calls (frontend_ctr_deinit hw st')))
           = rev (List.map_filter init_service (drop (length (calls st)) (calls st')))"
  using init_Inr_calls [OF assms] by (simp add: deinit_calls map_filter_simps)

theorem exit_order_reverses_init_witness:
  "\<exists>st'. frontend_ctr_init ctr_hw_all_ok (ctr_boot_state (code_bin_env example_code_bin)) = Inr st' \<and>
     List.map_filter exit_service (drop (length (calls st')) (calls (frontend_ctr_deinit ctr_hw_all_ok st')))
       = rev (List.map_filter init_service
                (drop (length (calls (ctr_boot_state (code_bin_env example_code_bin)))) (calls st')))"
proof -
  obtain st' where i: "frontend_ctr_init ctr_hw_all_ok (ctr_boot_state (code_bin_env example_code_bin)) = Inr st'"
    using boot_init_example by blast
  show ?thesis
    using i exit_order_reverses_init [OF i] by blast
qed

text \<open>When the DSP works and the firmware is on the card after
  \<open>ctr_check_dspfirm\<close> (present before or just extracted), \<open>frontend_ctr_init\<close>
  completes and the DSP audio driver is offered.\<close>

theorem dsp_driver_after_firmware:
  assumes "dsp_hw_ok hw" and "audio_slots st = initial_audio_slots"
    and "ctr_check_dspfirm (sd st) = Inr fs" and "fs dspfirm_path \<noteq> None"
  shows "\<exists>st'. frontend_ctr_init hw st = Inr st' \<and> (\<exists>sl. audio_slots st' sl = DspImpl)"
proof -
  obtain st' where i: "frontend_ctr_init hw st = Inr st'"
    using init_Inr_exists [OF assms(3)] by blast
  then obtain fs' where "ctr_check_dspfirm (sd st) = Inr fs'" and s: "sd st' = (sd st)\<lparr>sd_files := fs'\<rparr>"
    using init_Inr_sd by blast
  then have "ndspInit hw (sd st')"
    using assms(1,3,4) by (simp add: ndspInit_def)
  then have "audio_slots st' SlotDsp = DspImpl \<or> audio_slots st' SlotCsnd = DspImpl"
    using init_Inr_slot_dsp [OF i] init_Inr_slot_csnd [OF i] assms(2)
    by (simp add: initial_audio_slots_def)
  then show ?thesis using i by blast
qed

text \<open>C22: when the CFG service did not start, whether \<open>frontend_ctr_deinit\<close> opens
  the LCD service depends only on the uninitialised stack byte \<open>not_2DS\<close>.\<close>

theorem lcd_request_reads_uninitialised_byte:
  assumes "Cfgu \<notin> acquired st"
  shows "SrvGetServiceHandle \<in> set (drop (length (calls st)) (calls (frontend_ctr_deinit hw st)))
           \<longleftrightarrow> uninit_not_2ds hw \<noteq> 0"
  using assms by (simp add: deinit_calls not_2DS_def)

theorem lcd_request_reads_uninitialised_byte_witness:
  "Cfgu \<notin> acquired (ctr_boot_state (code_bin_env example_code_bin)) \<and>
   SrvGetServiceHandle \<in> set (drop (length (calls (ctr_boot_state (code_bin_env example_code_bin))))
     (calls (frontend_ctr_deinit (ctr_hw_no_cfgu 1) (ctr_boot_state (code_bin_env example_code_bin))))) \<and>
   SrvGetServiceHandle \<notin> set (drop (length (calls (ctr_boot_state (code_bin_env example_code_bin))))
     (calls (frontend_ctr_deinit (ctr_hw_no_cfgu 0) (ctr_boot_state (code_bin_env example_code_bin)))))"
proof -
  have h: "Cfgu \<notin> acquired (ctr_boot_state (code_bin_env example_code_bin))"
    by (simp add: ctr_boot_state_def)
  show ?thesis
    using h lcd_request_reads_uninitialised_byte [OF h, of "ctr_hw_no_cfgu 1"]
      lcd_request_reads_uninitialised_byte [OF h, of "ctr_hw_no_cfgu 0"]
    by (simp add: ctr_hw_defs)
qed

end
