(* ===== verification/CtrMisc.thy ===== *)
theory CtrMisc
  imports Prelude
begin

text \<open>
  The small services of \<open>src/frontend/drivers/platform_ctr.c\<close>: the decoding of a
  libctru \<open>Result\<close> through the bit-field union \<open>ctr_result_value\<close> (as
  \<open>dump_result_value\<close> prints it), \<open>usleep\<close> and \<open>sysconf\<close> as the port provides them,
  the loop \<open>wait_for_input\<close> (over a finite script of frames, and over an infinite
  stream as a \<open>partial_function (option)\<close> where waiting for ever is \<open>None\<close>), and the constant hooks \<open>get_rating\<close>,
  \<open>get_architecture\<close> and \<open>shutdown\<close>. A \<open>Result\<close> is its 32-bit pattern; GCC on the
  little-endian ARM11 allocates bit-fields from the least significant bit.
\<close>

unbundle bit_operations_syntax

subsection \<open>\<open>ctr_result_value\<close>\<close>

record ctr_result_fields =
  res_description :: u32
  res_module :: u32
  res_summary :: u32
  res_level :: u32

text \<open>Reading the fields of the union after \<open>res.val = val\<close>: 10 bits of description,
  8 of module, 3 unnamed, 6 of summary and 5 of level.\<close>

definition ctr_result_value :: "u32 \<Rightarrow> ctr_result_fields" where
  "ctr_result_value v =
     \<lparr>res_description = take_bit 10 v,
      res_module = take_bit 8 (drop_bit 10 v),
      res_summary = take_bit 6 (drop_bit 21 v),
      res_level = take_bit 5 (drop_bit 27 v)\<rparr>"

text \<open>\<open>dump_result_value\<close>: the five values it prints, in order.\<close>

definition dump_result_value :: "u32 \<Rightarrow> (string \<times> u32) list" where
  "dump_result_value v =
     (let res = ctr_result_value v
      in [(''result'', v), (''description'', res_description res), (''module'', res_module res),
          (''summary'', res_summary res), (''level'', res_level res)])"

text \<open>Writing the four named fields of a zeroed union: the inverse direction.\<close>

definition ctr_result_pack :: "ctr_result_fields \<Rightarrow> u32" where
  "ctr_result_pack f =
     take_bit 10 (res_description f) OR push_bit 10 (take_bit 8 (res_module f))
     OR push_bit 21 (take_bit 6 (res_summary f)) OR push_bit 27 (take_bit 5 (res_level f))"

definition ctr_result_fields_ok :: "ctr_result_fields \<Rightarrow> bool" where
  "ctr_result_fields_ok f \<longleftrightarrow>
     res_description f < 1024 \<and> res_module f < 256 \<and> res_summary f < 64 \<and> res_level f < 32"

subsection \<open>\<open>usleep\<close> and \<open>sysconf\<close>\<close>

text \<open>\<open>usleep\<close> sleeps \<open>(int64_t)us * 1000\<close> nanoseconds; it has no \<open>return\<close>
  statement, so the value it returns is undefined: \<open>None\<close>.\<close>

datatype sleep_call = SvcSleepThread s64

definition usleep :: "u32 \<Rightarrow> sleep_call \<times> int option" where
  "usleep us = (SvcSleepThread (ucast us * 1000), None)"

text \<open>\<open>_SC_NPROCESSORS_ONLN\<close> is 10 in the newlib headers of the 3DS toolchain.\<close>

definition SC_NPROCESSORS_ONLN :: int where "SC_NPROCESSORS_ONLN = 10"

definition sysconf :: "int \<Rightarrow> int" where
  "sysconf name = (if name = SC_NPROCESSORS_ONLN then 2 else -1)"

subsection \<open>Constant hooks\<close>

datatype frontend_architecture =
    FRONTEND_ARCH_NONE | FRONTEND_ARCH_X86 | FRONTEND_ARCH_X86_64 | FRONTEND_ARCH_PPC
  | FRONTEND_ARCH_ARM | FRONTEND_ARCH_MIPS | FRONTEND_ARCH_TILE

definition frontend_ctr_get_rating :: int where "frontend_ctr_get_rating = 3"

definition frontend_ctr_get_architecture :: frontend_architecture where
  "frontend_ctr_get_architecture = FRONTEND_ARCH_ARM"

definition frontend_ctr_shutdown :: "bool \<Rightarrow> 's \<Rightarrow> 's" where
  "frontend_ctr_shutdown unused s = s"

subsection \<open>\<open>wait_for_input\<close>\<close>

text \<open>
  One iteration of the loop per frame: \<open>aptMainLoop()\<close> and the keys \<open>hidKeysDown()\<close>
  reports after \<open>hidScanInput()\<close>. START (\<open>KEY_START = BIT(3)\<close>) leaves the loop,
  SELECT (\<open>KEY_SELECT = BIT(2)\<close>) calls \<open>exit(0)\<close>, tested in that order; a closing
  applet loop ends it too. The frames are the input script; when the script ends with
  the loop still waiting, the function has not returned: \<open>None\<close>.
\<close>

record frame =
  apt_running :: bool
  keys_down :: u32

definition KEY_SELECT :: u32 where "KEY_SELECT = 4"
definition KEY_START :: u32 where "KEY_START = 8"

datatype wait_outcome = StartPressed | AptClosed | ExitCalled

fun wait_for_input :: "frame list \<Rightarrow> wait_outcome option" where
  "wait_for_input [] = None"
| "wait_for_input (f # fs) =
     (if \<not> apt_running f then Some AptClosed
      else if keys_down f AND KEY_START \<noteq> 0 then Some StartPressed
      else if keys_down f AND KEY_SELECT \<noteq> 0 then Some ExitCalled
      else wait_for_input fs)"

text \<open>The same loop over an unbounded stream of frames, frame \<open>n\<close> at the \<open>n\<close>-th
  iteration: as in the source it may wait for ever, which is the value \<open>None\<close>.\<close>

partial_function (option) wait_for_input_loop :: "(nat \<Rightarrow> frame) \<Rightarrow> nat \<Rightarrow> wait_outcome option" where
  "wait_for_input_loop fs n =
     (if \<not> apt_running (fs n) then Some AptClosed
      else if keys_down (fs n) AND KEY_START \<noteq> 0 then Some StartPressed
      else if keys_down (fs n) AND KEY_SELECT \<noteq> 0 then Some ExitCalled
      else wait_for_input_loop fs (Suc n))"

definition decisive_frame :: "frame \<Rightarrow> bool" where
  "decisive_frame f \<longleftrightarrow>
     \<not> apt_running f \<or> keys_down f AND KEY_START \<noteq> 0 \<or> keys_down f AND KEY_SELECT \<noteq> 0"

text \<open>Two frames: nothing pressed; START and SELECT pressed together.\<close>

definition idle_frame :: frame where "idle_frame = \<lparr>apt_running = True, keys_down = 0\<rparr>"

definition start_select_frame :: frame where
  "start_select_frame = \<lparr>apt_running = True, keys_down = KEY_START OR KEY_SELECT\<rparr>"

subsection \<open>Lemmas\<close>

lemma take_bit_u32_bound: "n < 32 \<Longrightarrow> take_bit n (x :: u32) < 2 ^ n"
  by (simp add: take_bit_eq_mask and_mask_less')

lemma take_bit_u32_id: "x < 2 ^ n \<Longrightarrow> take_bit n (x :: u32) = x"
  by (simp add: take_bit_eq_mask less_mask_eq)

lemma ctr_result_value_pack:
  "ctr_result_value (ctr_result_pack f) =
     \<lparr>res_description = take_bit 10 (res_description f), res_module = take_bit 8 (res_module f),
      res_summary = take_bit 6 (res_summary f), res_level = take_bit 5 (res_level f)\<rparr>"
  unfolding ctr_result_value_def ctr_result_pack_def
  by (simp; intro conjI; rule bit_word_eqI; auto simp: bit_simps)

lemma wait_for_input_Cons_idle:
  "\<not> decisive_frame f \<Longrightarrow> wait_for_input (f # fs) = wait_for_input fs"
  by (simp add: decisive_frame_def)

text \<open>The script version is still waiting exactly when no frame of the script is
  decisive.\<close>

lemma wait_for_input_returns:
  "wait_for_input fs = None \<longleftrightarrow> list_all (\<lambda>f. \<not> decisive_frame f) fs"
  by (induction fs) (auto simp: decisive_frame_def)

lemma wait_for_input_loop_idle:
  "\<not> decisive_frame (fs k) \<Longrightarrow> wait_for_input_loop fs k = wait_for_input_loop fs (Suc k)"
  by (subst wait_for_input_loop.simps) (simp add: decisive_frame_def)

lemma wait_for_input_loop_list:
  "decisive_frame (fs (k + m)) \<Longrightarrow> wait_for_input_loop fs k = wait_for_input (map fs [k..<Suc (k + m)])"
proof (induction m arbitrary: k)
  case 0
  then show ?case
    by (subst wait_for_input_loop.simps) (simp add: decisive_frame_def)
next
  case (Suc m)
  have l: "map fs [k..<Suc (k + Suc m)] = fs k # map fs [Suc k..<Suc (Suc k + m)]"
    by (simp add: upt_rec)
  show ?case
  proof (cases "decisive_frame (fs k)")
    case True
    then show ?thesis unfolding l
      by (subst wait_for_input_loop.simps) (auto simp: decisive_frame_def)
  next
    case False
    then have "wait_for_input_loop fs k = wait_for_input_loop fs (Suc k)"
      by (rule wait_for_input_loop_idle)
    also have "\<dots> = wait_for_input (map fs [Suc k..<Suc (Suc k + m)])"
      using Suc.IH [of "Suc k"] Suc.prems by simp
    also have "\<dots> = wait_for_input (map fs [k..<Suc (k + Suc m)])"
      unfolding l using False by (simp del: wait_for_input.simps add: wait_for_input_Cons_idle)
    finally show ?thesis .
  qed
qed

lemma wait_for_input_loop_returns_decisive:
  assumes ret: "wait_for_input_loop fs n = Some y"
  shows "\<exists>m\<ge>n. decisive_frame (fs m)"
proof (rule wait_for_input_loop.raw_induct [where P = "\<lambda>fs n y. \<exists>m\<ge>n. decisive_frame (fs m)", OF _ ret])
  fix f fs n y
  assume IH: "\<And>fs n y. f fs n = Some y \<Longrightarrow> \<exists>m\<ge>n. decisive_frame (fs m)"
    and eq: "(if \<not> apt_running (fs n) then Some AptClosed
      else if keys_down (fs n) AND KEY_START \<noteq> 0 then Some StartPressed
      else if keys_down (fs n) AND KEY_SELECT \<noteq> 0 then Some ExitCalled
      else f fs (Suc n)) = Some y"
  show "\<exists>m\<ge>n. decisive_frame (fs m)"
  proof (cases "decisive_frame (fs n)")
    case True
    then show ?thesis by blast
  next
    case False
    with eq have "f fs (Suc n) = Some y" by (simp add: decisive_frame_def)
    then obtain m where "Suc n \<le> m" "decisive_frame (fs m)" using IH by blast
    then show ?thesis by (intro exI [of _ m]) simp
  qed
qed

subsection \<open>Properties\<close>

text \<open>Fields within their widths written into the union are read back unchanged.\<close>

theorem result_pack_roundtrip:
  "ctr_result_fields_ok f \<Longrightarrow> ctr_result_value (ctr_result_pack f) = f"
  by (simp add: ctr_result_value_pack ctr_result_fields_ok_def take_bit_u32_id)

text \<open>Reading the four fields and writing them back gives the original
  \<open>Result\<close> except for the three unnamed bits 18 to 20, which the union drops.\<close>

theorem result_value_pack_drops_reserved:
  "ctr_result_pack (ctr_result_value v) = v AND NOT (push_bit 18 (mask 3))"
  unfolding ctr_result_value_def ctr_result_pack_def
  apply (rule bit_word_eqI)
  subgoal for n by (cases "n < 27") (auto simp: bit_simps)
  done

text \<open>C29: \<open>usleep(us)\<close> asks the kernel to sleep exactly \<open>1000 * us\<close> nanoseconds:
  the \<open>int64_t\<close> product never overflows nor turns negative; it returns no value.\<close>

theorem usleep_exact:
  "case usleep us of (SvcSleepThread ns, r) \<Rightarrow>
     unat ns = 1000 * unat us \<and> unat ns < 2 ^ 63 \<and> r = None"
proof -
  have u: "unat us < 4294967296" by simp
  then have "unat us * 1000 < 18446744073709551616" by linarith
  then have e: "unat (ucast us * 1000 :: s64) = 1000 * unat us"
    by (simp add: unat_mult_lem [THEN iffD1])
  from u have "1000 * unat us < 9223372036854775808" by linarith
  then have b: "1000 * unat us < 2 ^ 63" by simp
  show ?thesis using e b by (simp add: usleep_def)
qed

text \<open>C24: START is tested before SELECT: after any number of frames that are not
  decisive, a frame of the running applet with START pressed (even together with
  SELECT) leaves the loop without calling \<open>exit(0)\<close>, whatever frames follow.\<close>

theorem wait_for_input_start_first:
  assumes "list_all (\<lambda>f. \<not> decisive_frame f) fs" and "apt_running f"
    and "keys_down f AND KEY_START \<noteq> 0"
  shows "wait_for_input (fs @ f # gs) = Some StartPressed"
  using assms
proof (induction fs)
  case Nil
  then show ?case by simp
next
  case (Cons a fs)
  then have "wait_for_input ((a # fs) @ f # gs) = wait_for_input (fs @ f # gs)"
    by (simp del: wait_for_input.simps add: wait_for_input_Cons_idle)
  with Cons show ?case by simp
qed

theorem wait_for_input_start_first_witness:
  "wait_for_input ([idle_frame, idle_frame] @ start_select_frame # [idle_frame]) = Some StartPressed"
proof -
  have i: "list_all (\<lambda>f. \<not> decisive_frame f) [idle_frame, idle_frame]"
    by (simp add: idle_frame_def decisive_frame_def)
  have r: "apt_running start_select_frame" by (simp add: start_select_frame_def)
  have k: "keys_down start_select_frame AND KEY_START \<noteq> 0"
    by (simp add: start_select_frame_def KEY_START_def KEY_SELECT_def)
  show ?thesis using wait_for_input_start_first [OF i r k] .
qed

text \<open>C10: the loop of \<open>wait_for_input\<close> over a stream of frames returns exactly when
  some frame closes the applet loop or has START or SELECT pressed; otherwise it waits
  for ever.\<close>

theorem wait_for_input_loop_terminates:
  "(\<exists>y. wait_for_input_loop fs 0 = Some y) \<longleftrightarrow> (\<exists>n. decisive_frame (fs n))"
proof
  assume "\<exists>y. wait_for_input_loop fs 0 = Some y"
  then show "\<exists>n. decisive_frame (fs n)" using wait_for_input_loop_returns_decisive by blast
next
  assume "\<exists>n. decisive_frame (fs n)"
  then obtain n where d: "decisive_frame (fs n)" by blast
  have "wait_for_input_loop fs 0 = wait_for_input (map fs [0..<Suc n])"
    using wait_for_input_loop_list [of fs 0 n] d by simp
  moreover have "\<not> list_all (\<lambda>f. \<not> decisive_frame f) (map fs [0..<Suc n])"
    using d by (auto simp: list_all_iff)
  ultimately show "\<exists>y. wait_for_input_loop fs 0 = Some y"
    by (cases "wait_for_input (map fs [0..<Suc n])") (simp_all add: wait_for_input_returns)
qed

end
