(* ===== verification/CtrShutdown.thy ===== *)
theory CtrShutdown
  imports CtrLifecycle CtrMisc
begin

text \<open>
  \<open>frontend_ctr_deinit\<close> (\<open>src/frontend/drivers/platform_ctr.c\<close>, lines 202 to 236)
  composed with \<open>wait_for_input\<close> (lines 468 to 492), which it calls when the console
  is on the bottom screen. The user's input is a script of frames as in theory
  \<open>CtrMisc\<close>. START or the applet closing ends the wait and \<open>deinit\<close> goes on; SELECT
  calls \<open>exit(0)\<close>, which ends the process from inside \<open>deinit\<close>, before any of the
  \<open>*Exit\<close> calls; a script that ends while the loop still waits is \<open>None\<close>.
\<close>

datatype deinit_outcome = DeinitReturned ctr_state | ProcessExited ctr_state

definition frontend_ctr_deinit_input :: "ctr_hw \<Rightarrow> frame list \<Rightarrow> ctr_state \<Rightarrow> deinit_outcome option" where
  "frontend_ctr_deinit_input hw frames st =
     (if console_on_bottom hw then
        (case wait_for_input frames of
           None \<Rightarrow> None
         | Some ExitCalled \<Rightarrow> Some (ProcessExited (deinit_until_wait hw st))
         | Some _ \<Rightarrow> Some (DeinitReturned (frontend_ctr_deinit hw st)))
      else Some (DeinitReturned (frontend_ctr_deinit hw st)))"

subsection \<open>Example input\<close>

definition select_frame :: frame where
  "select_frame = \<lparr>apt_running = True, keys_down = KEY_SELECT\<rparr>"

definition ctr_hw_console :: ctr_hw where
  "ctr_hw_console = ctr_hw_all_ok\<lparr>console_on_bottom := True\<rparr>"

subsection \<open>Lemmas\<close>

lemma deinit_until_wait_acquired [simp]: "acquired (deinit_until_wait hw st) = acquired st"
  by (simp add: deinit_until_wait_def Let_def emit_def)

lemma init_Inr_Gfx: "frontend_ctr_init hw st = Inr st' \<Longrightarrow> Gfx \<in> acquired st'"
  by (simp add: init_Inr_acquired)

subsection \<open>Properties\<close>

text \<open>C16: when the console is on the bottom screen and the user presses SELECT at the
  prompt of \<open>deinit\<close>, the process exits from inside \<open>deinit\<close> with every service that
  \<open>init\<close> acquired still held, the graphics service included: none of the \<open>*Exit\<close>
  calls is made.\<close>

theorem deinit_select_exits_holding:
  assumes "console_on_bottom hw" and "frontend_ctr_init hw st0 = Inr st"
    and "wait_for_input frames = Some ExitCalled"
  shows "\<exists>st'. frontend_ctr_deinit_input hw frames st = Some (ProcessExited st') \<and>
               acquired st' = acquired st \<and> Gfx \<in> acquired st'"
  using assms init_Inr_Gfx [OF assms(2)] by (simp add: frontend_ctr_deinit_input_def)

theorem deinit_select_exits_holding_witness:
  "console_on_bottom ctr_hw_console \<and>
   (\<exists>st. frontend_ctr_init ctr_hw_console (ctr_boot_state (code_bin_env example_code_bin)) = Inr st \<and>
     wait_for_input [idle_frame, select_frame] = Some ExitCalled \<and>
     (\<exists>st'. frontend_ctr_deinit_input ctr_hw_console [idle_frame, select_frame] st = Some (ProcessExited st') \<and>
            acquired st' = acquired st \<and> Gfx \<in> acquired st'))"
proof -
  have h: "console_on_bottom ctr_hw_console" by (simp add: ctr_hw_console_def ctr_hw_all_ok_def)
  obtain st where i: "frontend_ctr_init ctr_hw_console (ctr_boot_state (code_bin_env example_code_bin)) = Inr st"
    using boot_init_example by blast
  have w: "wait_for_input [idle_frame, select_frame] = Some ExitCalled"
    by (simp add: idle_frame_def select_frame_def KEY_START_def KEY_SELECT_def)
  show ?thesis using h i w deinit_select_exits_holding [OF h i w] by blast
qed

end
