(* ===== verification/CtrDebugOut.thy ===== *)
theory CtrDebugOut
  imports CtrMisc
begin

text \<open>
  The console output of \<open>src/frontend/drivers/platform_ctr.c\<close>: the debugging macros
  \<open>DEBUG_HOLD\<close>, \<open>DEBUG_VAR\<close>, \<open>DEBUG_VAR64\<close> and \<open>PRINTFPOS\<close> (lines 42 to 51) and the
  lines \<open>dump_result_value\<close> prints (lines 341 to 350), over the \<open>printf\<close> conversions
  they use: \<open>%08X\<close>, \<open>%016llX\<close>, \<open>%u\<close>, \<open>%d\<close> of a line number and \<open>%-20s\<close>,
  and the literal text of a format (\<open>printf_literal\<close>), modelled from the C standard. A
  macro's \<open>#X\<close> is the spelling of its argument, a string; \<open>DEBUG_VAR64\<close> pastes it
  into its format, where a \<open>%\<close> is undefined behaviour (\<open>None\<close>). \<open>DEBUG_ERROR\<close> is not modelled: its body \<open>if(X)dump_result_value(X)\<close> lacks
  the semicolon before \<open>}\<close>, so any use of it does not compile. The readers
  \<open>read_hex\<close>, \<open>read_dec\<close> and \<open>split_lines\<close> are what a person or a script reading the
  console does; they state that the output can be read back.
\<close>

unbundle bit_operations_syntax

subsection \<open>\<open>printf\<close> conversions\<close>

definition newline :: string where "newline = [CHR 0x0A]"

text \<open>A hexadecimal digit as \<open>%X\<close> writes it (upper case).\<close>

definition hex_digit :: "nat \<Rightarrow> char" where
  "hex_digit d = char_of (if d < 10 then 48 + d else 55 + d)"

text \<open>The last \<open>k\<close> hexadecimal digits of \<open>n\<close>, zero-padded.\<close>

fun hex_pad :: "nat \<Rightarrow> nat \<Rightarrow> string" where
  "hex_pad 0 n = []"
| "hex_pad (Suc k) n = hex_pad k (n div 16) @ [hex_digit (n mod 16)]"

definition printf_X08 :: "u32 \<Rightarrow> string" where
  "printf_X08 x = hex_pad 8 (unat x)"

definition printf_llX016 :: "64 word \<Rightarrow> string" where
  "printf_llX016 x = hex_pad 16 (unat x)"

text \<open>\<open>%u\<close>: the decimal digits, without padding.\<close>

fun dec_digits :: "nat \<Rightarrow> string" where
  "dec_digits n =
     (if n < 10 then [char_of (48 + n)] else dec_digits (n div 10) @ [char_of (48 + n mod 10)])"

declare dec_digits.simps [simp del]

definition printf_u :: "u32 \<Rightarrow> string" where
  "printf_u x = dec_digits (unat x)"

text \<open>\<open>%-20s\<close>: the string, padded on the right with spaces to 20 characters.\<close>

definition printf_left :: "nat \<Rightarrow> string \<Rightarrow> string" where
  "printf_left w s = s @ replicate (w - length s) (CHR '' '')"

text \<open>Reading the digits back (the console's reader, not code of the repository).\<close>

definition hex_val :: "char \<Rightarrow> nat" where
  "hex_val c = (if of_char c < (58 :: nat) then of_char c - 48 else of_char c - 55)"

definition read_hex :: "string \<Rightarrow> nat" where
  "read_hex s = foldl (\<lambda>acc c. acc * 16 + hex_val c) 0 s"

definition read_dec :: "string \<Rightarrow> nat" where
  "read_dec s = foldl (\<lambda>acc c. acc * 10 + (of_char c - 48)) 0 s"

subsection \<open>The debugging macros\<close>

text \<open>\<open>DEBUG_VAR(X)\<close>: the spelling \<open>#X\<close> of the expression, left-justified in 20
  columns, and its value cast to \<open>u32\<close> in eight hexadecimal digits.\<close>

definition DEBUG_VAR :: "string \<Rightarrow> 'a::len word \<Rightarrow> string" where
  "DEBUG_VAR name x = printf_left 20 name @ '': 0x'' @ printf_X08 (ucast x) @ newline"

text \<open>The literal text of a \<open>printf\<close> format: \<open>%%\<close> prints one \<open>%\<close>; any other \<open>%\<close>
  starts a conversion, which in a text pasted into the format has no matching argument
  (undefined behaviour, \<open>None\<close>).\<close>

fun printf_literal :: "string \<Rightarrow> string option" where
  "printf_literal [] = Some []"
| "printf_literal (c # s) =
     (if c \<noteq> CHR ''%'' then map_option (Cons c) (printf_literal s)
      else if s \<noteq> [] \<and> hd s = CHR ''%'' then map_option (Cons c) (printf_literal (tl s))
      else None)"

text \<open>\<open>DEBUG_VAR64(X)\<close>: \<open>#X\<close> pasted into the format, then a carriage return and four
  tabs, and the value cast to \<open>u64\<close> in sixteen hexadecimal digits.\<close>

definition DEBUG_VAR64 :: "string \<Rightarrow> 'a::len word \<Rightarrow> string option" where
  "DEBUG_VAR64 name x =
     map_option (\<lambda>pre. pre @ [CHR 0x0D, CHR 0x09, CHR 0x09, CHR 0x09, CHR 0x09] @ '' : 0x''
                        @ printf_llX016 (ucast x) @ newline)
       (printf_literal name)"

text \<open>\<open>DEBUG_HOLD()\<close>: print the function, file and line, then \<open>wait_for_input()\<close> over
  the frames the user gives.\<close>

definition DEBUG_HOLD :: "string \<Rightarrow> string \<Rightarrow> nat \<Rightarrow> frame list \<Rightarrow> string \<times> wait_outcome option" where
  "DEBUG_HOLD func file line frames =
     (func @ ''@'' @ file @ '':'' @ dec_digits line @ ''.'' @ newline, wait_for_input frames)"

text \<open>\<open>PRINTFPOS(X,Y)\<close> and \<open>PRINTFPOS_STR(X,Y)\<close>: the ANSI sequence that moves the cursor
  to row \<open>X\<close> and column \<open>Y\<close>, from the spelling of the arguments.\<close>

definition PRINTFPOS :: "string \<Rightarrow> string \<Rightarrow> string" where
  "PRINTFPOS x y = CHR 0x1B # ''['' @ x @ '';'' @ y @ ''H''"

subsection \<open>What \<open>dump_result_value\<close> prints\<close>

definition dump_result_text :: "u32 \<Rightarrow> string" where
  "dump_result_text v =
     (let res = ctr_result_value v
      in ''result      : 0x'' @ printf_X08 v @ newline
         @ ''description : '' @ printf_u (res_description res) @ newline
         @ ''module      : '' @ printf_u (res_module res) @ newline
         @ ''summary     : '' @ printf_u (res_summary res) @ newline
         @ ''level       : '' @ printf_u (res_level res) @ newline)"

text \<open>Splitting console output into lines (the reader's view).\<close>

fun split_lines :: "string \<Rightarrow> string list" where
  "split_lines [] = []"
| "split_lines (c # cs) =
     (if c = CHR 0x0A then [] # split_lines cs
      else (case split_lines cs of [] \<Rightarrow> [[c]] | l # ls \<Rightarrow> (c # l) # ls))"

subsection \<open>Lemmas\<close>

lemma hex_val_digit: "d < 16 \<Longrightarrow> hex_val (hex_digit d) = d"
  by (simp add: hex_val_def hex_digit_def)

lemma read_hex_snoc: "read_hex (s @ [c]) = read_hex s * 16 + hex_val c"
  by (simp add: read_hex_def)

lemma read_hex_pad: "read_hex (hex_pad k n) = n mod 16 ^ k"
proof (induction k arbitrary: n)
  case 0
  then show ?case by (simp add: read_hex_def)
next
  case (Suc k)
  have "read_hex (hex_pad (Suc k) n) = (n div 16) mod 16 ^ k * 16 + n mod 16"
    by (simp add: read_hex_snoc Suc.IH hex_val_digit)
  also have "\<dots> = n mod (16 * 16 ^ k)" by (simp add: mod_mult2_eq)
  finally show ?case by simp
qed

lemma length_hex_pad [simp]: "length (hex_pad k n) = k"
  by (induction k arbitrary: n) simp_all

lemma read_dec_snoc: "read_dec (s @ [c]) = read_dec s * 10 + (of_char c - 48)"
  by (simp add: read_dec_def)

lemma read_dec_digits: "read_dec (dec_digits n) = n"
proof (induction n rule: dec_digits.induct)
  case (1 n)
  show ?case
  proof (cases "n < 10")
    case True
    then show ?thesis by (subst dec_digits.simps) (simp add: read_dec_def)
  next
    case False
    then have "read_dec (dec_digits n) = n div 10 * 10 + n mod 10"
      using "1.IH" by (subst dec_digits.simps) (simp add: read_dec_snoc)
    then show ?thesis by simp
  qed
qed

lemma digit_char_not_newline: "(k :: nat) < 200 \<Longrightarrow> char_of (48 + k) \<noteq> CHR 0x0A"
proof
  assume k: "k < 200" and e: "char_of (48 + k) = CHR 0x0A"
  have "(of_char (char_of (48 + k)) :: nat) = 48 + k" using k by (simp add: of_char_of)
  moreover have "(of_char (CHR 0x0A) :: nat) = 10" by simp
  ultimately show False using e by simp
qed

lemma hex_digit_not_newline: "d < 16 \<Longrightarrow> hex_digit d \<noteq> CHR 0x0A"
  using digit_char_not_newline [of d] digit_char_not_newline [of "7 + d"]
  by (simp add: hex_digit_def add.assoc [symmetric])

lemma newline_notin_hex_pad: "CHR 0x0A \<notin> set (hex_pad k n)"
  by (induction k arbitrary: n) (auto dest: sym simp: hex_digit_not_newline)

lemma newline_notin_dec_digits: "CHR 0x0A \<notin> set (dec_digits n)"
proof (induction n rule: dec_digits.induct)
  case (1 n)
  have "char_of (48 + n mod 10) \<noteq> CHR 0x0A" by (rule digit_char_not_newline) simp
  moreover have "n < 10 \<Longrightarrow> char_of (48 + n) \<noteq> CHR 0x0A" by (rule digit_char_not_newline) simp
  ultimately show ?case using 1 by (subst dec_digits.simps) (auto dest: sym)
qed

lemma split_lines_line:
  "CHR 0x0A \<notin> set l \<Longrightarrow> split_lines (l @ newline @ rest) = l # split_lines rest"
  by (induction l) (auto simp: newline_def split: list.splits)

lemma printf_left_length: "length s \<le> w \<Longrightarrow> length (printf_left w s) = w"
  by (simp add: printf_left_def)

lemma read_hex_X08: "word_of_nat (read_hex (printf_X08 x)) = x"
proof -
  have "unat x < 16 ^ 8" using unsigned_less [of x, where ?'a = nat] by simp
  then show ?thesis by (simp add: printf_X08_def read_hex_pad)
qed

lemma read_hex_llX016: "word_of_nat (read_hex (printf_llX016 x)) = x"
proof -
  have "unat x < 16 ^ 16" using unsigned_less [of x, where ?'a = nat] by simp
  then show ?thesis by (simp add: printf_llX016_def read_hex_pad)
qed

lemma read_dec_u: "word_of_nat (read_dec (printf_u x)) = x"
  by (simp add: printf_u_def read_dec_digits)

lemma split_lines_line2:
  "CHR 0x0A \<notin> set p \<Longrightarrow> CHR 0x0A \<notin> set l \<Longrightarrow>
   split_lines (p @ l @ newline @ rest) = (p @ l) # split_lines rest"
  using split_lines_line [of "p @ l" rest] by simp

lemma split_lines_last:
  "CHR 0x0A \<notin> set p \<Longrightarrow> CHR 0x0A \<notin> set l \<Longrightarrow> split_lines (p @ l @ newline) = [p @ l]"
  using split_lines_line2 [of p l "[]"] by simp

lemma result_fields_eta:
  "\<lparr>res_description = res_description r, res_module = res_module r, res_summary = res_summary r,
     res_level = res_level r\<rparr> = r"
  by simp

lemma dump_result_lines:
  "split_lines (dump_result_text v) =
     (let res = ctr_result_value v
      in [''result      : 0x'' @ printf_X08 v,
          ''description : '' @ printf_u (res_description res),
          ''module      : '' @ printf_u (res_module res),
          ''summary     : '' @ printf_u (res_summary res),
          ''level       : '' @ printf_u (res_level res)])"
proof -
  have d: "\<And>x. CHR 0x0A \<notin> set (printf_u x)" "CHR 0x0A \<notin> set (printf_X08 v)"
    by (simp_all add: printf_u_def printf_X08_def newline_notin_dec_digits newline_notin_hex_pad)
  have l: "CHR 0x0A \<notin> set ''result      : 0x''" "CHR 0x0A \<notin> set ''description : ''"
    "CHR 0x0A \<notin> set ''module      : ''" "CHR 0x0A \<notin> set ''summary     : ''"
    "CHR 0x0A \<notin> set ''level       : ''"
    by simp_all
  show ?thesis
    unfolding dump_result_text_def Let_def
    by (simp only: split_lines_line2 split_lines_last d l not_False_eq_True)
qed

subsection \<open>Properties\<close>

lemma printf_literal_plain: "CHR ''%'' \<notin> set s \<Longrightarrow> printf_literal s = Some s"
  by (induction s) auto

lemma printf_literal_lone_percent:
  "CHR ''%'' \<notin> set s \<Longrightarrow> c \<noteq> CHR ''%'' \<Longrightarrow> printf_literal (s @ CHR ''%'' # c # t) = None"
  by (induction s) auto

text \<open>\<open>DEBUG_VAR64\<close> of an expression whose spelling has a \<open>%\<close> not followed by another,
  such as \<open>DEBUG_VAR64(a % b)\<close>, hands \<open>printf\<close> a conversion with no argument.\<close>

theorem debug_var64_percent_undefined:
  "CHR ''%'' \<notin> set s \<Longrightarrow> c \<noteq> CHR ''%'' \<Longrightarrow> DEBUG_VAR64 (s @ CHR ''%'' # c # t) x = None"
  by (simp add: DEBUG_VAR64_def printf_literal_lone_percent)

text \<open>C25: for a variable whose spelling fits the 20 columns, \<open>DEBUG_VAR\<close> prints the
  spelling left-justified and padded with blanks to 20 columns, then \<open>": 0x"\<close>, then in
  columns 24 to 31 eight hexadecimal digits that read back as the value cast to \<open>u32\<close>,
  then the newline; for a spelling without \<open>%\<close>, \<open>DEBUG_VAR64\<close> prints the spelling and,
  after the tabs, sixteen digits that read back as the value cast to \<open>u64\<close>.\<close>

theorem debug_var_reads_back:
  assumes "length name \<le> 20"
  shows "take 24 (DEBUG_VAR name x) = name @ replicate (20 - length name) (CHR '' '') @ '': 0x'' \<and>
         word_of_nat (read_hex (take 8 (drop 24 (DEBUG_VAR name x)))) = (ucast x :: u32) \<and>
         drop 32 (DEBUG_VAR name x) = newline \<and>
         (CHR ''%'' \<notin> set name \<longrightarrow>
            (\<exists>s. DEBUG_VAR64 name y = Some s \<and> take (length name) s = name \<and>
                 word_of_nat (read_hex (take 16 (drop (length name + 10) s))) = (ucast y :: 64 word)))"
proof -
  have l: "length (printf_left 20 name) = 20" using assms by (rule printf_left_length)
  have v: "drop 24 (DEBUG_VAR name x) = printf_X08 (ucast x) @ newline"
    using l by (simp add: DEBUG_VAR_def)
  have t: "take 24 (DEBUG_VAR name x) = name @ replicate (20 - length name) (CHR '' '') @ '': 0x''"
    using l by (simp add: DEBUG_VAR_def printf_left_def)
  have w: "take 8 (printf_X08 (ucast x) @ newline) = printf_X08 (ucast x)"
    and n: "drop 8 (printf_X08 (ucast x) @ newline) = newline"
    by (simp_all add: printf_X08_def)
  have w64: "CHR ''%'' \<notin> set name \<Longrightarrow>
      \<exists>s. DEBUG_VAR64 name y = Some s \<and> take (length name) s = name \<and>
          take 16 (drop (length name + 10) s) = printf_llX016 (ucast y)"
    by (simp add: DEBUG_VAR64_def printf_literal_plain printf_llX016_def)
  have "drop 32 (DEBUG_VAR name x) = drop 8 (drop 24 (DEBUG_VAR name x))" by simp
  then have "drop 32 (DEBUG_VAR name x) = newline" using v n by simp
  moreover have "CHR ''%'' \<notin> set name \<longrightarrow>
      (\<exists>s. DEBUG_VAR64 name y = Some s \<and> take (length name) s = name \<and>
           word_of_nat (read_hex (take 16 (drop (length name + 10) s))) = (ucast y :: 64 word))"
    using w64 read_hex_llX016 by metis
  ultimately show ?thesis using t v w read_hex_X08 by simp
qed

theorem debug_var_reads_back_witness:
  "length ''mem_available'' \<le> 20 \<and>
   take 24 (DEBUG_VAR ''mem_available'' (0x0A3F5000 :: u32))
     = ''mem_available'' @ replicate (20 - length ''mem_available'') (CHR '' '') @ '': 0x'' \<and>
   word_of_nat (read_hex (take 8 (drop 24 (DEBUG_VAR ''mem_available'' (0x0A3F5000 :: u32)))))
     = (0x0A3F5000 :: u32) \<and>
   DEBUG_VAR64 ''mem_available'' (0x0A3F5000 :: u32) \<noteq> None"
proof -
  have h: "length ''mem_available'' \<le> 20" by simp
  have p: "CHR ''%'' \<notin> set ''mem_available''" by simp
  note r = debug_var_reads_back [OF h, of "0x0A3F5000 :: u32" "0x0A3F5000 :: u32"]
  show ?thesis using h p r by auto
qed

text \<open>C26: a reader of the console gets back from what \<open>dump_result_value\<close> prints the
  whole \<open>Result\<close> (from the hexadecimal line) and its four fields (from the decimal
  lines); the fields alone rebuild the \<open>Result\<close> only up to the three unnamed bits 18 to
  20, which only the hexadecimal line shows.\<close>

theorem dump_result_reads_back:
  "let ls = split_lines (dump_result_text v);
       f = \<lparr>res_description = word_of_nat (read_dec (drop 14 (ls ! 1))),
            res_module = word_of_nat (read_dec (drop 14 (ls ! 2))),
            res_summary = word_of_nat (read_dec (drop 14 (ls ! 3))),
            res_level = word_of_nat (read_dec (drop 14 (ls ! 4)))\<rparr>
   in length ls = 5 \<and> word_of_nat (read_hex (drop 16 (ls ! 0))) = v \<and>
      f = ctr_result_value v \<and> ctr_result_pack f = v AND NOT (push_bit 18 (mask 3))"
  by (simp add: dump_result_lines Let_def read_hex_X08 read_dec_u result_fields_eta
                result_value_pack_drops_reserved)

end
