(* ===== verification/CtrPaths.thy ===== *)
theory CtrPaths
  imports Prelude "HOL-Library.Sublist"
begin

text \<open>
  \<open>frontend_ctr_get_environment_settings\<close> (\<open>src/frontend/drivers/platform_ctr.c\<close>)
  derives the default directories \<open>g_defaults.dir.*\<close> and the configuration path from
  the executable's path \<open>elf_path_cst\<close>. Each is a \<open>char[PATH_MAX_LENGTH]\<close> filled by
  \<open>fill_pathname_basedir\<close> or \<open>fill_pathname_join\<close> of libretro-common (not part of this
  repository, modelled from the spec's join semantics and the C string functions they use):
  \<open>strlcpy\<close> and \<open>strlcat\<close> truncate to the buffer, so a path is a HOL string of at most
  \<open>size - 1\<close> characters. The \<open>retro_assert\<close>s that check for truncation are not
  modelled: the model keeps the truncating behaviour of the string functions, and the
  theorems state the lengths under which nothing is truncated.
\<close>

definition PATH_MAX_LENGTH :: nat where "PATH_MAX_LENGTH = 4096"

definition elf_path_cst :: string where "elf_path_cst = ''sdmc:/retroarch/test.3dsx''"

subsection \<open>The string helpers\<close>

definition strlcpy :: "nat \<Rightarrow> string \<Rightarrow> string" where
  "strlcpy sz src = take (sz - 1) src"

definition strlcat :: "nat \<Rightarrow> string \<Rightarrow> string \<Rightarrow> string" where
  "strlcat sz dst src = (if length dst < sz then take (sz - 1) (dst @ src) else dst)"

text \<open>\<open>find_last_slash\<close>: the index of the last \<open>'/'\<close>, or \<open>NULL\<close>.\<close>

definition find_last_slash :: "string \<Rightarrow> nat option" where
  "find_last_slash s =
     (let ixs = filter (\<lambda>i. s ! i = CHR ''/'') [0..<length s]
      in if ixs = [] then None else Some (last ixs))"

text \<open>\<open>fill_pathname_slash\<close>: append the slash type found in the path, or the default
  slash when there is none, unless the path already ends with its last slash.\<close>

definition fill_pathname_slash :: "nat \<Rightarrow> string \<Rightarrow> string" where
  "fill_pathname_slash sz path =
     (case find_last_slash path of
        Some i \<Rightarrow> if i \<noteq> length path - 1 then strlcat sz path [path ! i] else path
      | None \<Rightarrow> strlcat sz path ''/'')"

definition fill_pathname_join :: "nat \<Rightarrow> string \<Rightarrow> string \<Rightarrow> string" where
  "fill_pathname_join sz dir path =
     (let out = strlcpy sz dir;
          out' = (if out \<noteq> [] then fill_pathname_slash sz out else out)
      in strlcat sz out' path)"

text \<open>\<open>path_basedir\<close>: cut after the last slash; \<open>"./"\<close> when there is none; paths
  shorter than two characters are left alone.\<close>

definition path_basedir :: "string \<Rightarrow> string" where
  "path_basedir p =
     (if length p < 2 then p
      else case find_last_slash p of Some i \<Rightarrow> take (i + 1) p | None \<Rightarrow> ''./'')"

definition fill_pathname_basedir :: "nat \<Rightarrow> string \<Rightarrow> string" where
  "fill_pathname_basedir sz in_path = path_basedir (strlcpy sz in_path)"

subsection \<open>\<open>frontend_ctr_get_environment_settings\<close>\<close>

record ctr_defaults =
  dir_port :: string
  dir_core_assets :: string
  dir_assets :: string
  dir_core :: string
  dir_core_info :: string
  dir_savestate :: string
  dir_sram :: string
  dir_system :: string
  dir_playlist :: string
  dir_remap :: string
  path_config :: string

text \<open>The joins in the order of the source; the four directories of saved data are
  joined onto the already derived core directory. \<open>*argc\<close> is set to zero.\<close>

definition get_environment_settings :: "string \<Rightarrow> ctr_defaults \<times> int" where
  "get_environment_settings elf =
     (let sz = PATH_MAX_LENGTH;
          port = fill_pathname_basedir sz elf;
          core = fill_pathname_join sz port ''cores''
      in (\<lparr>dir_port = port,
           dir_core_assets = fill_pathname_join sz port ''downloads'',
           dir_assets = fill_pathname_join sz port ''media'',
           dir_core = core,
           dir_core_info = fill_pathname_join sz port ''cores'',
           dir_savestate = fill_pathname_join sz core ''savestates'',
           dir_sram = fill_pathname_join sz core ''savefiles'',
           dir_system = fill_pathname_join sz core ''system'',
           dir_playlist = fill_pathname_join sz core ''playlists'',
           dir_remap = fill_pathname_join sz port ''remaps'',
           path_config = fill_pathname_join sz port ''retroarch.cfg''\<rparr>, 0))"

definition frontend_ctr_get_environment_settings :: "ctr_defaults \<times> int" where
  "frontend_ctr_get_environment_settings = get_environment_settings elf_path_cst"

subsection \<open>The disabled argument parsing\<close>

text \<open>
  Lines 168 to 198 of \<open>frontend_ctr_get_environment_settings\<close>, compiled out by
  \<open>#if 0\<close>: when \<open>argv[1]\<close> is a non-empty string and \<open>params_data\<close> is not \<open>NULL\<close>, the
  content to start is copied into a static \<open>path[PATH_MAX_LENGTH]\<close>, the
  \<open>rarch_main_wrap\<close> fields are set, and \<open>argv[0]\<close>, \<open>argv[1]\<close> and \<open>argv[2]\<close> are
  logged with \<open>%s\<close>. The arguments are \<open>argv[0..argc-1]\<close>, a list of strings;
  \<open>argv[argc]\<close> is \<open>NULL\<close> (C11 5.1.2.2.1) and an index past it is outside the array.
  Reading outside the array is \<open>ArgvOverread\<close>; passing \<open>NULL\<close> for \<open>%s\<close> is
  \<open>NullFormatted\<close> (undefined behaviour). \<open>struct rarch_main_wrap\<close> is declared
  outside this repository; its pointer fields are \<open>None\<close> for \<open>NULL\<close>.
\<close>

record rarch_main_wrap =
  touched :: bool
  no_content :: bool
  verbose :: bool
  config_path :: "string option"
  sram_path :: "string option"
  state_path :: "string option"
  content_path :: "string option"
  libretro_path :: "string option"

datatype arg_error = ArgvOverread nat | NullFormatted nat

definition argv_at :: "string list \<Rightarrow> nat \<Rightarrow> arg_error + string option" where
  "argv_at argv i =
     (if i < length argv then Inr (Some (argv ! i))
      else if i = length argv then Inr None
      else Inl (ArgvOverread i))"

text \<open>\<open>RARCH_LOG("argv[i]: %s\n", argv[i])\<close>: the text printed for the argument.\<close>

definition log_argv :: "string list \<Rightarrow> nat \<Rightarrow> arg_error + string" where
  "log_argv argv i =
     (case argv_at argv i of
        Inl e \<Rightarrow> Inl e
      | Inr None \<Rightarrow> Inl (NullFormatted i)
      | Inr (Some a) \<Rightarrow> Inr a)"

text \<open>The block: the updated \<open>*args\<close> (\<open>None\<close> for a \<open>NULL\<close> \<open>params_data\<close>) and the
  lines logged, or the error of the first invalid read.\<close>

definition ctr_autostart_args ::
  "string list \<Rightarrow> rarch_main_wrap option \<Rightarrow> arg_error + rarch_main_wrap option \<times> string list" where
  "ctr_autostart_args argv params =
     (case argv_at argv 1 of
        Inl e \<Rightarrow> Inl e
      | Inr None \<Rightarrow> Inr (params, [])
      | Inr (Some a1) \<Rightarrow>
          (if a1 = [] then Inr (params, [])
           else case params of
             None \<Rightarrow> Inr (None, [])
           | Some w \<Rightarrow>
               (let path = strlcpy PATH_MAX_LENGTH a1;
                    w' = w\<lparr>touched := True, no_content := False, verbose := False,
                           config_path := None, sram_path := None, state_path := None,
                           content_path := Some path, libretro_path := None\<rparr>
                in case log_argv argv 0 of
                     Inl e \<Rightarrow> Inl e
                   | Inr l0 \<Rightarrow> (case log_argv argv 1 of
                       Inl e \<Rightarrow> Inl e
                     | Inr l1 \<Rightarrow> (case log_argv argv 2 of
                         Inl e \<Rightarrow> Inl e
                       | Inr l2 \<Rightarrow> Inr (Some w',
                           [''argv[0]: '' @ l0, ''argv[1]: '' @ l1, ''argv[2]: '' @ l2,
                            ''Auto-start game '' @ a1 @ ''.'']))))))"

subsection \<open>Example arguments\<close>

text \<open>An empty \<open>rarch_main_wrap\<close>, and a launch with the executable, a game and one
  more argument.\<close>

definition empty_main_wrap :: rarch_main_wrap where
  "empty_main_wrap = \<lparr>touched = False, no_content = True, verbose = False, config_path = None,
     sram_path = None, state_path = None, content_path = None, libretro_path = None\<rparr>"

definition game_argv :: "string list" where
  "game_argv = [''sdmc:/retroarch/test.3dsx'', ''sdmc:/roms/game.nes'', ''-v'']"

lemmas path_defs_all [path_defs] = strlcpy_def strlcat_def fill_pathname_slash_def
  fill_pathname_join_def path_basedir_def fill_pathname_basedir_def find_last_slash_def

subsection \<open>Lemmas on the string helpers\<close>

lemma strlcpy_short: "length s < sz \<Longrightarrow> strlcpy sz s = s"
  by (simp add: strlcpy_def)

lemma strlcpy_length: "0 < sz \<Longrightarrow> length (strlcpy sz s) < sz"
  by (simp add: strlcpy_def)

lemma strlcat_short: "length dst + length src < sz \<Longrightarrow> strlcat sz dst src = dst @ src"
  by (simp add: strlcat_def)

lemma strlcat_length: "length dst < sz \<Longrightarrow> length (strlcat sz dst src) < sz"
  by (simp add: strlcat_def)

lemma find_last_slash_Some:
  "find_last_slash s = Some i \<Longrightarrow>
   i < length s \<and> s ! i = CHR ''/'' \<and> (\<forall>j. i < j \<and> j < length s \<longrightarrow> s ! j \<noteq> CHR ''/'')"
proof -
  assume h: "find_last_slash s = Some i"
  define ixs where "ixs = filter (\<lambda>i. s ! i = CHR ''/'') [0..<length s]"
  have ne: "ixs \<noteq> []" and i: "i = last ixs"
    using h by (simp_all add: find_last_slash_def ixs_def Let_def split: if_splits)
  have "i \<in> set ixs" using ne i by simp
  then have "i < length s \<and> s ! i = CHR ''/''" by (simp add: ixs_def)
  moreover have "\<forall>j. i < j \<and> j < length s \<longrightarrow> s ! j \<noteq> CHR ''/''"
  proof (intro allI impI)
    fix j assume j: "i < j \<and> j < length s"
    have "sorted ixs" by (simp add: ixs_def sorted_wrt_filter)
    then have "\<forall>k\<in>set ixs. k \<le> i"
      using i sorted_le_last by blast
    with j show "s ! j \<noteq> CHR ''/''" by (auto simp: ixs_def)
  qed
  ultimately show ?thesis by blast
qed

lemma find_last_slash_None: "find_last_slash s = None \<longleftrightarrow> CHR ''/'' \<notin> set s"
  by (auto simp: find_last_slash_def Let_def filter_empty_conv in_set_conv_nth)

lemma find_last_slash_last:
  "s \<noteq> [] \<Longrightarrow> last s = CHR ''/'' \<Longrightarrow> find_last_slash s = Some (length s - 1)"
proof -
  assume ne: "s \<noteq> []" and l: "last s = CHR ''/''"
  have "filter (\<lambda>i. s ! i = CHR ''/'') [0..<length s]
          = filter (\<lambda>i. s ! i = CHR ''/'') [0..<length s - 1] @ [length s - 1]"
    using ne l by (cases "length s") (auto simp: last_conv_nth)
  then show ?thesis by (simp add: find_last_slash_def Let_def)
qed

text \<open>Joining never truncates when the result fits: the directory, a slash unless it
  already ends with one, and the name.\<close>

lemma fill_pathname_slash_exact:
  assumes "s \<noteq> []" and "length s + 1 < sz"
  shows "fill_pathname_slash sz s = (if last s = CHR ''/'' then s else s @ ''/'')"
proof (cases "last s = CHR ''/''")
  case True
  then show ?thesis
    using assms find_last_slash_last by (simp add: fill_pathname_slash_def)
next
  case False
  show ?thesis
  proof (cases "find_last_slash s")
    case None
    then show ?thesis
      using assms False by (simp add: fill_pathname_slash_def strlcat_short)
  next
    case (Some i)
    then have i: "i < length s" "s ! i = CHR ''/''"
      using find_last_slash_Some by blast+
    have "i \<noteq> length s - 1"
      using False i assms(1) by (auto simp: last_conv_nth)
    then show ?thesis
      using Some i False assms by (simp add: fill_pathname_slash_def strlcat_short)
  qed
qed

lemma fill_pathname_join_exact:
  assumes "dir \<noteq> []" and "length dir + 1 + length path < sz"
  shows "fill_pathname_join sz dir path = (if last dir = CHR ''/'' then dir else dir @ ''/'') @ path"
  using assms by (simp add: fill_pathname_join_def strlcpy_short fill_pathname_slash_exact strlcat_short)

lemma fill_pathname_join_length: "0 < sz \<Longrightarrow> length (fill_pathname_join sz dir path) < sz"
proof -
  assume sz: "0 < sz"
  have "length (strlcpy sz dir) < sz" using sz by (rule strlcpy_length)
  moreover have "length s < sz \<Longrightarrow> length (fill_pathname_slash sz s) < sz" for s
    by (auto simp: fill_pathname_slash_def strlcat_length split: option.splits)
  ultimately show ?thesis
    by (auto simp: fill_pathname_join_def Let_def strlcat_length)
qed

lemma path_basedir_slash:
  assumes "2 \<le> length p" and "CHR ''/'' \<in> set p"
  shows "prefix (path_basedir p) p \<and> path_basedir p \<noteq> [] \<and> last (path_basedir p) = CHR ''/'' \<and>
         CHR ''/'' \<notin> set (drop (length (path_basedir p)) p)"
proof -
  obtain i where i: "find_last_slash p = Some i"
    using assms(2) find_last_slash_None by (cases "find_last_slash p") auto
  then have il: "i < length p" and ic: "p ! i = CHR ''/''"
    and after: "\<forall>j. i < j \<and> j < length p \<longrightarrow> p ! j \<noteq> CHR ''/''"
    using find_last_slash_Some by blast+
  have "last (take (Suc i) p) = p ! i"
    using il by (simp add: take_Suc_conv_app_nth)
  moreover have "p \<noteq> []" using il by auto
  moreover have "CHR ''/'' \<notin> set (drop (Suc i) p)"
    using after by (auto simp: in_set_conv_nth)
  ultimately show ?thesis
    using assms(1) i ic il by (simp add: path_basedir_def take_is_prefix min_absorb2)
qed

lemma path_basedir_length: "length (path_basedir p) \<le> max 2 (length p)"
  by (auto simp: path_basedir_def split: option.splits)

lemma fill_pathname_basedir_short:
  "length p < sz \<Longrightarrow> fill_pathname_basedir sz p = path_basedir p"
  by (simp add: fill_pathname_basedir_def strlcpy_short)

lemma autostart_one_argument:
  "ctr_autostart_args [''sdmc:/retroarch/test.3dsx'', ''sdmc:/roms/game.nes''] (Some w) =
   Inl (NullFormatted 2)"
  by (simp add: ctr_autostart_args_def log_argv_def argv_at_def Let_def)

lemmas settings_unfold = get_environment_settings_def Let_def PATH_MAX_LENGTH_def

subsection \<open>Properties\<close>

text \<open>C5: on the 3DS, with the executable at \<open>sdmc:/retroarch/test.3dsx\<close>,
  \<open>frontend_ctr_get_environment_settings\<close> derives exactly these directories and
  configuration path, and sets \<open>argc\<close> to zero.\<close>

theorem ctr_default_paths:
  "frontend_ctr_get_environment_settings =
     (\<lparr>dir_port = ''sdmc:/retroarch/'',
       dir_core_assets = ''sdmc:/retroarch/downloads'',
       dir_assets = ''sdmc:/retroarch/media'',
       dir_core = ''sdmc:/retroarch/cores'',
       dir_core_info = ''sdmc:/retroarch/cores'',
       dir_savestate = ''sdmc:/retroarch/cores/savestates'',
       dir_sram = ''sdmc:/retroarch/cores/savefiles'',
       dir_system = ''sdmc:/retroarch/cores/system'',
       dir_playlist = ''sdmc:/retroarch/cores/playlists'',
       dir_remap = ''sdmc:/retroarch/remaps'',
       path_config = ''sdmc:/retroarch/retroarch.cfg''\<rparr>, 0)"
proof -
  have "path_basedir elf_path_cst = ''sdmc:/retroarch/''"
    by (simp add: elf_path_cst_def path_basedir_def find_last_slash_def)
  then show ?thesis
    by (simp add: frontend_ctr_get_environment_settings_def settings_unfold elf_path_cst_def
        fill_pathname_basedir_short fill_pathname_join_exact)
qed

text \<open>C23: for any executable path of at least two characters that contains a slash
  and is short enough not to be truncated, the port directory is the path up to and
  including its last slash (a prefix ending in a slash, after which the path has no
  slash), every other directory is the port directory followed by its
  name, and the saved-data directories are subdirectories of the core directory.\<close>

theorem derived_paths_structure:
  assumes "2 \<le> length elf" and "CHR ''/'' \<in> set elf" and "length elf < 4000"
  shows "let d = fst (get_environment_settings elf); port = dir_port d in
     prefix port elf \<and> last port = CHR ''/'' \<and> CHR ''/'' \<notin> set (drop (length port) elf) \<and>
     dir_core d = port @ ''cores'' \<and> dir_core_info d = port @ ''cores'' \<and>
     dir_core_assets d = port @ ''downloads'' \<and> dir_assets d = port @ ''media'' \<and>
     dir_remap d = port @ ''remaps'' \<and> path_config d = port @ ''retroarch.cfg'' \<and>
     dir_savestate d = port @ ''cores/savestates'' \<and> dir_sram d = port @ ''cores/savefiles'' \<and>
     dir_system d = port @ ''cores/system'' \<and> dir_playlist d = port @ ''cores/playlists''"
proof -
  define port where "port = path_basedir elf"
  have p: "dir_port (fst (get_environment_settings elf)) = port"
    using assms(3) by (simp add: settings_unfold fill_pathname_basedir_short port_def)
  have slash: "prefix port elf \<and> port \<noteq> [] \<and> last port = CHR ''/'' \<and>
      CHR ''/'' \<notin> set (drop (length port) elf)"
    using path_basedir_slash [OF assms(1,2)] by (simp add: port_def)
  have len: "length port < 4000"
    using slash assms(3) prefix_length_le by fastforce
  have j: "fill_pathname_join 4096 port n = port @ n" if "length n < 20" for n
    using slash len that by (simp add: fill_pathname_join_exact)
  have core: "fill_pathname_join 4096 port ''cores'' = port @ ''cores''"
    by (rule j) simp
  have jc: "fill_pathname_join 4096 (port @ ''cores'') n = port @ ''cores/'' @ n"
    if "length n < 20" for n
    using len that by (simp add: fill_pathname_join_exact)
  show ?thesis
    using assms(3) slash
    by (simp add: p settings_unfold fill_pathname_basedir_short port_def [symmetric] j core jc)
qed

theorem derived_paths_structure_witness:
  "2 \<le> length elf_path_cst \<and> CHR ''/'' \<in> set elf_path_cst \<and> length elf_path_cst < 4000 \<and>
   (let d = fst (get_environment_settings elf_path_cst); port = dir_port d in
     prefix port elf_path_cst \<and> last port = CHR ''/'' \<and>
     CHR ''/'' \<notin> set (drop (length port) elf_path_cst) \<and>
     dir_core d = port @ ''cores'' \<and> dir_core_info d = port @ ''cores'' \<and>
     dir_core_assets d = port @ ''downloads'' \<and> dir_assets d = port @ ''media'' \<and>
     dir_remap d = port @ ''remaps'' \<and> path_config d = port @ ''retroarch.cfg'' \<and>
     dir_savestate d = port @ ''cores/savestates'' \<and> dir_sram d = port @ ''cores/savefiles'' \<and>
     dir_system d = port @ ''cores/system'' \<and> dir_playlist d = port @ ''cores/playlists'')"
proof -
  have h1: "2 \<le> length elf_path_cst" and h2: "CHR ''/'' \<in> set elf_path_cst"
    and h3: "length elf_path_cst < 4000"
    by (simp_all add: elf_path_cst_def)
  show ?thesis
    using h1 h2 h3 derived_paths_structure [OF h1 h2 h3] by blast
qed

text \<open>Whatever the executable path, every derived path fits its
  \<open>char[PATH_MAX_LENGTH]\<close> buffer with its terminating NUL.\<close>

theorem default_paths_bounded:
  "let d = fst (get_environment_settings elf) in
     list_all (\<lambda>p. length p < PATH_MAX_LENGTH)
       [dir_port d, dir_core_assets d, dir_assets d, dir_core d, dir_core_info d,
        dir_savestate d, dir_sram d, dir_system d, dir_playlist d, dir_remap d, path_config d]"
proof -
  have "length (fill_pathname_basedir 4096 elf) < 4096"
    using path_basedir_length [of "strlcpy 4096 elf"] strlcpy_length [of 4096 elf]
    by (simp add: fill_pathname_basedir_def)
  moreover have "length (fill_pathname_join 4096 a b) < 4096" for a b
    by (rule fill_pathname_join_length) simp
  ultimately show ?thesis
    by (simp add: settings_unfold)
qed

text \<open>C14: the disabled argument parsing reads or prints an invalid \<open>argv\<close> entry exactly
  when there are no arguments at all (it reads \<open>argv[1]\<close> past \<open>argv[argc]\<close>) or when
  there is exactly one non-empty argument after the executable: it then logs
  \<open>argv[2]\<close>, which is the \<open>NULL\<close> terminator, with \<open>%s\<close>.\<close>

theorem autostart_fails_iff:
  "(\<exists>e. ctr_autostart_args argv (Some w) = Inl e) \<longleftrightarrow>
   argv = [] \<or> (length argv = 2 \<and> argv ! 1 \<noteq> [])"
  by (cases argv rule: remdups_adj.cases)
     (auto simp: ctr_autostart_args_def log_argv_def argv_at_def Let_def split: list.splits if_splits)

text \<open>C15: with at least two arguments after the executable and a non-empty first one,
  the disabled parsing fills \<open>*args\<close> for an auto-start: the content path is the first
  argument, cut to the 4095 characters that fit \<open>path[PATH_MAX_LENGTH]\<close>, no core or
  configuration is given, and every other field is as the code sets it.\<close>

theorem autostart_sets_content:
  assumes "3 \<le> length argv" and "argv ! 1 \<noteq> []"
  shows "\<exists>logs. ctr_autostart_args argv (Some w) =
           Inr (Some (w\<lparr>touched := True, no_content := False, verbose := False,
                       config_path := None, sram_path := None, state_path := None,
                       content_path := Some (take 4095 (argv ! 1)), libretro_path := None\<rparr>), logs)"
proof -
  have "argv \<noteq> []" using assms(1) by auto
  then show ?thesis using assms
    by (simp add: ctr_autostart_args_def log_argv_def argv_at_def Let_def strlcpy_def PATH_MAX_LENGTH_def)
qed

theorem autostart_sets_content_witness:
  "3 \<le> length game_argv \<and> game_argv ! 1 \<noteq> [] \<and>
   (\<exists>logs. ctr_autostart_args game_argv (Some empty_main_wrap) =
      Inr (Some \<lparr>touched = True, no_content = False, verbose = False, config_path = None,
                sram_path = None, state_path = None, content_path = Some ''sdmc:/roms/game.nes'',
                libretro_path = None\<rparr>, logs))"
  using autostart_sets_content [of game_argv empty_main_wrap]
  by (simp add: game_argv_def empty_main_wrap_def)

end
