(* ===== verification/FrontendDriver.thy ===== *)
theory FrontendDriver
  imports CtrLifecycle CtrPaths CtrMisc
begin

text \<open>
  The frontend driver interface \<open>frontend_ctx_driver_t\<close> as a record of optional hooks
  over the platform state \<open>'s\<close> (\<open>None\<close> is a \<open>NULL\<close> slot), the 3DS instance
  \<open>frontend_ctx_ctr\<close> with \<open>frontend_ctr_parse_drive_list\<close>
  (\<open>src/frontend/drivers/platform_ctr.c\<close>), and the application bootstrap that calls the
  hooks: environment settings, init, the run loop, then deinit and shutdown on quit.
  The bootstrap and the menu file list live outside this repository and are modelled
  from the spec. The bootstrap is a step function on phases and an inductive
  reachability relation; its invariant, proved by rule induction, is that the hooks
  invoked so far are exactly the present hooks of the phases passed, in order.
\<close>

subsection \<open>The menu file list\<close>

text \<open>A \<open>file_list_t\<close> is its list of entries; \<open>menu_entries_push\<close> appends one.\<close>

datatype menu_file_type =
    MENU_FILE_NONE | MENU_FILE_PLAIN | MENU_FILE_DIRECTORY | MENU_FILE_PARENT_DIRECTORY
  | MENU_FILE_USE_DIRECTORY | MENU_FILE_CORE | MENU_FILE_PLAYLIST_ENTRY | MENU_FILE_CONTENTLIST_ENTRY
  | MENU_SETTING_GROUP | MENU_SETTING_SUBGROUP | MENU_SETTING_LEAF

record file_list_entry =
  fl_path :: string
  fl_label :: string
  fl_type :: menu_file_type
  fl_directory_ptr :: nat
  fl_entry_idx :: nat

type_synonym file_list = "file_list_entry list"

definition menu_entries_push ::
  "file_list \<Rightarrow> string \<Rightarrow> string \<Rightarrow> menu_file_type \<Rightarrow> nat \<Rightarrow> nat \<Rightarrow> file_list" where
  "menu_entries_push l path label ty directory_ptr entry_idx =
     l @ [\<lparr>fl_path = path, fl_label = label, fl_type = ty,
           fl_directory_ptr = directory_ptr, fl_entry_idx = entry_idx\<rparr>]"

subsection \<open>The driver interface\<close>

text \<open>The slots of \<open>frontend_ctx_driver_t\<close> in their order. \<open>init\<close> may end in an
  error \<open>'e\<close> (for the 3DS driver, the undefined read of \<open>ctr_check_dspfirm\<close>); the
  drive list takes the \<open>void *\<close> list, \<open>None\<close> for \<open>NULL\<close>, and returns the status
  with the list after the call.\<close>

record ('s, 'e) frontend_ctx_driver =
  environment_get :: "('s \<Rightarrow> 's) option"
  init :: "('s \<Rightarrow> 'e + 's) option"
  deinit :: "('s \<Rightarrow> 's) option"
  exitspawn :: "('s \<Rightarrow> 's) option"
  process_args :: "('s \<Rightarrow> 's) option"
  exec :: "('s \<Rightarrow> 's) option"
  set_fork :: "('s \<Rightarrow> 's) option"
  shutdown :: "(bool \<Rightarrow> 's \<Rightarrow> 's) option"
  get_name :: "string option"
  get_os :: "string option"
  get_rating :: "int option"
  load_content :: "('s \<Rightarrow> 's) option"
  get_architecture :: "frontend_architecture option"
  get_powerstate :: "('s \<Rightarrow> 's) option"
  parse_drive_list :: "(file_list option \<Rightarrow> int \<times> file_list option) option"
  ident :: string

subsection \<open>The 3DS driver\<close>

text \<open>\<open>frontend_ctr_parse_drive_list\<close>: -1 on a \<open>NULL\<close> list, otherwise the SD card root
  pushed as a directory entry and 0.\<close>

definition frontend_ctr_parse_drive_list :: "file_list option \<Rightarrow> int \<times> file_list option" where
  "frontend_ctr_parse_drive_list data =
     (case data of
        None \<Rightarrow> (-1, None)
      | Some l \<Rightarrow> (0, Some (menu_entries_push l ''sdmc:/'' '''' MENU_FILE_DIRECTORY 0 0)))"

text \<open>The process state the 3DS hooks act on: the defaults \<open>g_defaults\<close>, the
  \<open>argc\<close> handed back to the bootstrap, and the platform state of \<open>CtrLifecycle\<close>.\<close>

record ctr_process =
  defaults :: ctr_defaults
  argc :: int
  proc :: ctr_state

text \<open>The environment hook of a build with \<open>HAVE_FILE_LOGGER\<close> also opens the log file
  that \<open>deinit\<close> closes.\<close>

definition ctr_environment_hook :: "ctr_process \<Rightarrow> ctr_process" where
  "ctr_environment_hook p =
     (case frontend_ctr_get_environment_settings of
        (d, a) \<Rightarrow> p\<lparr>defaults := d, argc := a, proc := (proc p)\<lparr>log_file_open := True\<rparr>\<rparr>)"

definition ctr_init_hook :: "ctr_hw \<Rightarrow> ctr_process \<Rightarrow> dsp_error + ctr_process" where
  "ctr_init_hook hw p =
     (case frontend_ctr_init hw (proc p) of Inl e \<Rightarrow> Inl e | Inr st \<Rightarrow> Inr (p\<lparr>proc := st\<rparr>))"

definition ctr_deinit_hook :: "ctr_hw \<Rightarrow> ctr_process \<Rightarrow> ctr_process" where
  "ctr_deinit_hook hw p = p\<lparr>proc := frontend_ctr_deinit hw (proc p)\<rparr>"

definition frontend_ctx_ctr :: "ctr_hw \<Rightarrow> (ctr_process, dsp_error) frontend_ctx_driver" where
  "frontend_ctx_ctr hw =
     \<lparr>environment_get = Some ctr_environment_hook,
      init = Some (ctr_init_hook hw),
      deinit = Some (ctr_deinit_hook hw),
      exitspawn = None,
      process_args = None,
      exec = None,
      set_fork = None,
      shutdown = Some frontend_ctr_shutdown,
      get_name = None,
      get_os = None,
      get_rating = Some frontend_ctr_get_rating,
      load_content = None,
      get_architecture = Some frontend_ctr_get_architecture,
      get_powerstate = None,
      parse_drive_list = Some frontend_ctr_parse_drive_list,
      ident = ''ctr''\<rparr>"

text \<open>A driver with every slot absent.\<close>

definition frontend_ctx_null :: "('s, 'e) frontend_ctx_driver" where
  "frontend_ctx_null =
     \<lparr>environment_get = None, init = None, deinit = None, exitspawn = None,
      process_args = None, exec = None, set_fork = None, shutdown = None, get_name = None,
      get_os = None, get_rating = None, load_content = None, get_architecture = None,
      get_powerstate = None, parse_drive_list = None, ident = ''null''\<rparr>"

subsection \<open>The bootstrap\<close>

text \<open>
  The lifecycle hooks are called once each, in the order environment, init, deinit,
  shutdown; an absent hook is skipped. Quitting the run loop deinitialises and shuts
  down; a further quit signal after that changes nothing. An error of \<open>init\<close> is a
  crash, from which no event proceeds. \<open>boot_trace\<close> records each hook invoked.
\<close>

datatype lifecycle_hook = HEnvironment | HInit | HDeinit | HShutdown

datatype boot_phase = Start | Configured | Initialised | Running | Halted | Crashed

datatype boot_event = EvEnvironment | EvInit | EvRun | EvQuit

record 's boot =
  boot_phase :: boot_phase
  pstate :: 's
  boot_trace :: "lifecycle_hook list"

definition hook_present :: "('s, 'e) frontend_ctx_driver \<Rightarrow> lifecycle_hook \<Rightarrow> bool" where
  "hook_present d h =
     (case h of
        HEnvironment \<Rightarrow> environment_get d \<noteq> None
      | HInit \<Rightarrow> init d \<noteq> None
      | HDeinit \<Rightarrow> deinit d \<noteq> None
      | HShutdown \<Rightarrow> shutdown d \<noteq> None)"

definition present_hooks :: "('s, 'e) frontend_ctx_driver \<Rightarrow> lifecycle_hook list" where
  "present_hooks d = filter (hook_present d) [HEnvironment, HInit, HDeinit, HShutdown]"

text \<open>Call a hook if it is present, recording the call.\<close>

definition call_hook ::
  "lifecycle_hook \<Rightarrow> ('s \<Rightarrow> 's) option \<Rightarrow> 's boot \<Rightarrow> 's boot" where
  "call_hook h f b =
     (case f of
        None \<Rightarrow> b
      | Some g \<Rightarrow> b\<lparr>pstate := g (pstate b), boot_trace := boot_trace b @ [h]\<rparr>)"

definition boot_step ::
  "('s, 'e) frontend_ctx_driver \<Rightarrow> boot_event \<Rightarrow> 's boot \<Rightarrow> 's boot option" where
  "boot_step d ev b =
     (case (ev, boot_phase b) of
        (EvEnvironment, Start) \<Rightarrow>
          Some ((call_hook HEnvironment (environment_get d) b)\<lparr>boot_phase := Configured\<rparr>)
      | (EvInit, Configured) \<Rightarrow>
          Some (case init d of
                  None \<Rightarrow> b\<lparr>boot_phase := Initialised\<rparr>
                | Some f \<Rightarrow>
                    (case f (pstate b) of
                       Inl _ \<Rightarrow> b\<lparr>boot_phase := Crashed, boot_trace := boot_trace b @ [HInit]\<rparr>
                     | Inr s \<Rightarrow> b\<lparr>boot_phase := Initialised, pstate := s,
                                  boot_trace := boot_trace b @ [HInit]\<rparr>))
      | (EvRun, Initialised) \<Rightarrow> Some (b\<lparr>boot_phase := Running\<rparr>)
      | (EvQuit, Running) \<Rightarrow>
          Some ((call_hook HShutdown (map_option (\<lambda>g. g False) (shutdown d))
                  (call_hook HDeinit (deinit d) b))\<lparr>boot_phase := Halted\<rparr>)
      | (EvQuit, Halted) \<Rightarrow> Some b
      | _ \<Rightarrow> None)"

fun boot_run ::
  "('s, 'e) frontend_ctx_driver \<Rightarrow> boot_event list \<Rightarrow> 's boot \<Rightarrow> 's boot option" where
  "boot_run d [] b = Some b"
| "boot_run d (ev # evs) b = (case boot_step d ev b of None \<Rightarrow> None | Some b' \<Rightarrow> boot_run d evs b')"

definition boot_initial :: "'s \<Rightarrow> 's boot" where
  "boot_initial s = \<lparr>boot_phase = Start, pstate = s, boot_trace = []\<rparr>"

inductive boot_reach :: "('s, 'e) frontend_ctx_driver \<Rightarrow> 's boot \<Rightarrow> 's boot \<Rightarrow> bool"
  for d where
  refl: "boot_reach d b b"
| step: "boot_reach d b b' \<Longrightarrow> boot_step d ev b' = Some b'' \<Longrightarrow> boot_reach d b b''"

text \<open>The hooks each phase has passed through.\<close>

fun phase_hooks :: "boot_phase \<Rightarrow> lifecycle_hook list" where
  "phase_hooks Start = []"
| "phase_hooks Configured = [HEnvironment]"
| "phase_hooks Initialised = [HEnvironment, HInit]"
| "phase_hooks Running = [HEnvironment, HInit]"
| "phase_hooks Crashed = [HEnvironment, HInit]"
| "phase_hooks Halted = [HEnvironment, HInit, HDeinit, HShutdown]"

text \<open>The process at the start of \<open>main\<close>: \<open>g_defaults\<close> zeroed, the program name as
  the only argument, the log file not yet open, and a given SD card.\<close>

definition empty_defaults :: ctr_defaults where
  "empty_defaults = \<lparr>dir_port = [], dir_core_assets = [], dir_assets = [], dir_core = [],
     dir_core_info = [], dir_savestate = [], dir_sram = [], dir_system = [], dir_playlist = [],
     dir_remap = [], path_config = []\<rparr>"

definition ctr_process_start :: "sd_env \<Rightarrow> ctr_process" where
  "ctr_process_start e =
     \<lparr>defaults = empty_defaults, argc = 1, proc = (ctr_boot_state e)\<lparr>log_file_open := False\<rparr>\<rparr>"

text \<open>A \<open>code.bin\<close> whose magic is its last word, after 260 zero bytes.\<close>

definition crash_code_bin :: "u8 list" where
  "crash_code_bin = replicate 260 0 @ le_bytes dsp1_magic"

subsection \<open>Lemmas\<close>

lemmas boot_step_simps = boot_step_def call_hook_def

lemma boot_step_trace:
  "boot_trace b = filter (hook_present d) (phase_hooks (boot_phase b)) \<Longrightarrow>
   boot_step d ev b = Some b' \<Longrightarrow>
   boot_trace b' = filter (hook_present d) (phase_hooks (boot_phase b'))"
  by (cases ev; cases "boot_phase b")
     (auto simp: boot_step_simps hook_present_def split: option.splits sum.splits)

lemma boot_reach_trace_from:
  "boot_reach d b b' \<Longrightarrow> boot_trace b = filter (hook_present d) (phase_hooks (boot_phase b)) \<Longrightarrow>
   boot_trace b' = filter (hook_present d) (phase_hooks (boot_phase b'))"
  by (induction rule: boot_reach.induct) (auto intro: boot_step_trace)

lemma boot_reach_trace:
  "boot_reach d (boot_initial s) b \<Longrightarrow>
   boot_trace b = filter (hook_present d) (phase_hooks (boot_phase b))"
  by (erule boot_reach_trace_from) (simp add: boot_initial_def)

lemma boot_reach_front:
  "boot_reach d b' b'' \<Longrightarrow> boot_step d ev b = Some b' \<Longrightarrow> boot_reach d b b''"
  by (induction rule: boot_reach.induct) (auto intro: boot_reach.intros)

lemma boot_run_reach: "boot_run d evs b = Some b' \<Longrightarrow> boot_reach d b b'"
proof (induction evs arbitrary: b)
  case Nil
  then show ?case by (auto intro: boot_reach.refl)
next
  case (Cons ev evs)
  then show ?case by (auto split: option.splits intro: boot_reach_front)
qed

lemma phase_hooks_prefix: "prefix (phase_hooks ph) [HEnvironment, HInit, HDeinit, HShutdown]"
  by (cases ph) auto

lemma prefix_filter_mono: "prefix xs ys \<Longrightarrow> prefix (filter P xs) (filter P ys)"
  by (auto simp: prefix_def)

lemma ctr_session_run:
  assumes "frontend_ctr_init hw (proc (ctr_environment_hook p)) = Inr st'"
  shows "boot_run (frontend_ctx_ctr hw) [EvEnvironment, EvInit, EvRun, EvQuit, EvQuit] (boot_initial p) =
     Some \<lparr>boot_phase = Halted,
           pstate = (ctr_environment_hook p)\<lparr>proc := frontend_ctr_deinit hw st'\<rparr>,
           boot_trace = [HEnvironment, HInit, HDeinit, HShutdown]\<rparr>"
  using assms
  by (simp add: boot_step_simps boot_initial_def frontend_ctx_ctr_def ctr_init_hook_def
      ctr_deinit_hook_def frontend_ctr_shutdown_def)

lemma ctr_environment_hook_fields:
  "defaults (ctr_environment_hook p) = fst frontend_ctr_get_environment_settings \<and>
   argc (ctr_environment_hook p) = 0 \<and>
   proc (ctr_environment_hook p) = (proc p)\<lparr>log_file_open := True\<rparr>"
  by (simp add: ctr_environment_hook_def frontend_ctr_get_environment_settings_def
      get_environment_settings_def Let_def split: prod.splits)

text \<open>The generic bootstrap: the trace invariant gives order and uniqueness of the
  hook calls; a crash is final; a driver whose \<open>init\<close> is absent or succeeds runs.\<close>

lemma boot_hooks_prefix:
  assumes "boot_reach d (boot_initial s) b"
  shows "prefix (boot_trace b) (present_hooks d) \<and> distinct (boot_trace b)"
proof -
  have t: "boot_trace b = filter (hook_present d) (phase_hooks (boot_phase b))"
    using assms by (rule boot_reach_trace)
  have p: "prefix (boot_trace b) (present_hooks d)"
    unfolding t present_hooks_def by (intro prefix_filter_mono phase_hooks_prefix)
  have "distinct (present_hooks d)" by (simp add: present_hooks_def)
  with p show ?thesis by (auto simp: prefix_def)
qed

lemma boot_crash_final:
  assumes "boot_reach d (boot_initial s) b" and "boot_phase b = Crashed"
  shows "boot_step d ev b = None \<and> boot_trace b = filter (hook_present d) [HEnvironment, HInit]"
proof -
  have "boot_trace b = filter (hook_present d) [HEnvironment, HInit]"
    using boot_reach_trace [OF assms(1)] assms(2) by simp
  then show ?thesis using assms(2) by (cases ev) (auto simp: boot_step_def)
qed

lemma boot_running_if_init_ok:
  assumes "init d = None \<or>
    (\<exists>f s'. init d = Some f \<and> f (case environment_get d of None \<Rightarrow> s | Some g \<Rightarrow> g s) = Inr s')"
  shows "\<exists>b. boot_run d [EvEnvironment, EvInit, EvRun] (boot_initial s) = Some b \<and>
             boot_phase b = Running \<and> boot_trace b = filter (hook_present d) [HEnvironment, HInit]"
  using assms
  by (auto simp: boot_step_simps boot_initial_def hook_present_def split: option.splits)

lemma null_driver_runs:
  "\<exists>b. boot_run (frontend_ctx_null :: ('s, 'e) frontend_ctx_driver) [EvEnvironment, EvInit, EvRun]
         (boot_initial s) = Some b \<and> boot_phase b = Running \<and> boot_trace b = []"
  using boot_running_if_init_ok [of "frontend_ctx_null :: ('s, 'e) frontend_ctx_driver" s]
  by (simp add: frontend_ctx_null_def hook_present_def)

text \<open>The 3DS table binds all four lifecycle hooks; its init fails exactly when the
  firmware check does.\<close>

lemma ctr_present_hooks:
  "present_hooks (frontend_ctx_ctr hw) = [HEnvironment, HInit, HDeinit, HShutdown]"
  by (simp add: present_hooks_def hook_present_def frontend_ctx_ctr_def)

lemma ctr_init_hook_Inr:
  "(\<exists>p'. ctr_init_hook hw p = Inr p') \<longleftrightarrow> (\<exists>fs. ctr_check_dspfirm (sd (proc p)) = Inr fs)"
  by (auto simp: ctr_init_hook_def init_unfold split: sum.splits)

lemma ctr_environment_hook_sd: "sd (proc (ctr_environment_hook p)) = sd (proc p)"
  by (simp add: ctr_environment_hook_fields)

lemma ctr_boot_to_running:
  "(\<exists>b. boot_run (frontend_ctx_ctr hw) [EvEnvironment, EvInit, EvRun] (boot_initial p) = Some b)
   \<longleftrightarrow> (\<exists>p'. ctr_init_hook hw (ctr_environment_hook p) = Inr p')"
  by (auto simp: boot_step_simps boot_initial_def frontend_ctx_ctr_def split: sum.splits)

lemma crash_code_bin_overread:
  "ctr_check_dspfirm (code_bin_env crash_code_bin) = Inl OutOfBoundsRead"
proof -
  have "dsp_scan 0x08100000 crash_code_bin 0x40 = Inl OutOfBoundsRead"
    by code_simp
  then show ?thesis by (simp add: ctr_check_dspfirm_def code_bin_env_def)
qed

subsection \<open>Properties\<close>

text \<open>When the 3DS \<open>init\<close> fails (the firmware scan reads outside \<open>code.bin\<close>),
  no bootstrap event proceeds: \<open>deinit\<close> and \<open>shutdown\<close> are never invoked, so the
  services \<open>init\<close> acquired before the check are never released.\<close>

theorem ctr_crash_is_final:
  "boot_reach (frontend_ctx_ctr hw) (boot_initial p) b \<Longrightarrow> boot_phase b = Crashed \<Longrightarrow>
   boot_step (frontend_ctx_ctr hw) ev b = None \<and> boot_trace b = [HEnvironment, HInit]"
  using boot_crash_final [of "frontend_ctx_ctr hw" p b ev]
  by (simp add: hook_present_def frontend_ctx_ctr_def)

text \<open>C7: the 3DS driver reaches the running state exactly when the firmware check of
  \<open>init\<close> stays within \<open>code.bin\<close>; the failure of any service does not stop it.\<close>

theorem ctr_runs_iff_firmware_check_ok:
  "(\<exists>b. boot_run (frontend_ctx_ctr hw) [EvEnvironment, EvInit, EvRun] (boot_initial p) = Some b \<and>
        boot_phase b = Running)
   \<longleftrightarrow> (\<exists>fs. ctr_check_dspfirm (sd (proc p)) = Inr fs)"
proof
  assume "\<exists>b. boot_run (frontend_ctx_ctr hw) [EvEnvironment, EvInit, EvRun] (boot_initial p) = Some b \<and>
        boot_phase b = Running"
  then have "\<exists>p'. ctr_init_hook hw (ctr_environment_hook p) = Inr p'"
    using ctr_boot_to_running by blast
  then have "\<exists>fs. ctr_check_dspfirm (sd (proc (ctr_environment_hook p))) = Inr fs"
    by (simp only: ctr_init_hook_Inr)
  then show "\<exists>fs. ctr_check_dspfirm (sd (proc p)) = Inr fs"
    by (simp only: ctr_environment_hook_sd)
next
  assume "\<exists>fs. ctr_check_dspfirm (sd (proc p)) = Inr fs"
  then obtain p' where "ctr_init_hook hw (ctr_environment_hook p) = Inr p'"
    using ctr_init_hook_Inr ctr_environment_hook_sd by metis
  then have "init (frontend_ctx_ctr hw) = None \<or>
    (\<exists>f s'. init (frontend_ctx_ctr hw) = Some f \<and>
       f (case environment_get (frontend_ctx_ctr hw) of None \<Rightarrow> p | Some g \<Rightarrow> g p) = Inr s')"
    by (simp add: frontend_ctx_ctr_def)
  from boot_running_if_init_ok [OF this]
  show "\<exists>b. boot_run (frontend_ctx_ctr hw) [EvEnvironment, EvInit, EvRun] (boot_initial p) = Some b \<and>
        boot_phase b = Running" by blast
qed

text \<open>C6: the 3DS driver, on any console and an SD card on which the firmware
  check reads within bounds, boots, runs and quits (a second quit changing nothing) with
  every hook invoked once in order, the default paths and \<open>argc = 0\<close> set,
  every service released and the log file closed.\<close>

theorem ctr_session_releases_all:
  assumes "ctr_check_dspfirm e = Inr fs"
  shows "\<exists>b. boot_run (frontend_ctx_ctr hw) [EvEnvironment, EvInit, EvRun, EvQuit, EvQuit]
               (boot_initial (ctr_process_start e)) = Some b \<and>
            boot_phase b = Halted \<and> boot_trace b = [HEnvironment, HInit, HDeinit, HShutdown] \<and>
            defaults (pstate b) = fst frontend_ctr_get_environment_settings \<and> argc (pstate b) = 0 \<and>
            acquired (proc (pstate b)) = {} \<and> \<not> log_file_open (proc (pstate b))"
proof -
  let ?p = "ctr_environment_hook (ctr_process_start e)"
  have sd: "sd (proc ?p) = e"
    by (simp add: ctr_environment_hook_fields ctr_process_start_def ctr_boot_state_def)
  obtain st' where i: "frontend_ctr_init hw (proc ?p) = Inr st'"
    using init_Inr_exists [of "proc ?p" fs hw] assms sd by auto
  have "acquired (proc ?p) = {}"
    by (simp add: ctr_environment_hook_fields ctr_process_start_def ctr_boot_state_def)
  then have a: "acquired (frontend_ctr_deinit hw st') = {}"
    using init_Inr_acquired [OF i] by (auto simp: deinit_acquired)
  have l: "\<not> log_file_open (frontend_ctr_deinit hw st')"
    by (simp add: deinit_unfold)
  show ?thesis
    using ctr_session_run [OF i] a l by (simp add: ctr_environment_hook_fields)
qed

theorem ctr_session_releases_all_witness:
  "ctr_check_dspfirm (code_bin_env example_code_bin) =
     Inr ((sd_files (code_bin_env example_code_bin))(dspfirm_path \<mapsto> take 16 example_code_bin)) \<and>
   (\<exists>b. boot_run (frontend_ctx_ctr ctr_hw_all_ok) [EvEnvironment, EvInit, EvRun, EvQuit, EvQuit]
          (boot_initial (ctr_process_start (code_bin_env example_code_bin))) = Some b \<and>
        boot_phase b = Halted \<and> acquired (proc (pstate b)) = {})"
  using check_dspfirm_example ctr_session_releases_all [OF check_dspfirm_example, of ctr_hw_all_ok]
  by blast

text \<open>The 3DS drive list hook returns -1 and leaves a \<open>NULL\<close>
  list alone, and otherwise appends exactly the SD card root as a directory entry and
  returns 0.\<close>

theorem drive_list_sd_root:
  "parse_drive_list (frontend_ctx_ctr hw) = Some f \<Longrightarrow>
   f None = (-1, None) \<and>
   f (Some l) = (0, Some (l @ [\<lparr>fl_path = ''sdmc:/'', fl_label = [], fl_type = MENU_FILE_DIRECTORY,
                                   fl_directory_ptr = 0, fl_entry_idx = 0\<rparr>]))"
  by (auto simp: frontend_ctx_ctr_def frontend_ctr_parse_drive_list_def menu_entries_push_def)

end
