(* ===== verification/Displaylist.thy ===== *)
theory Displaylist
  imports FrontendDriver
begin

text \<open>
  The displaylist interface \<open>src/menu/menu_displaylist.h\<close>: the settings parse flags,
  the list types of the anonymous enum (with their C values), and the request
  \<open>menu_displaylist_info_t\<close>. The header only declares the operations
  \<open>menu_displaylist_push_list\<close>, \<open>menu_displaylist_push_list_process\<close>,
  \<open>menu_displaylist_push\<close> and \<open>menu_displaylist_parse_settings\<close>; their implementation
  \<open>menu_displaylist.c\<close> is not part of this repository, so only the data is modelled.
\<close>

unbundle bit_operations_syntax

subsection \<open>Settings parse flags\<close>

definition PARSE_NONE :: u32 where "PARSE_NONE = push_bit 0 1"
definition PARSE_GROUP :: u32 where "PARSE_GROUP = push_bit 1 1"
definition PARSE_ACTION :: u32 where "PARSE_ACTION = push_bit 2 1"
definition PARSE_ONLY_UINT :: u32 where "PARSE_ONLY_UINT = push_bit 3 1"
definition PARSE_ONLY_BOOL :: u32 where "PARSE_ONLY_BOOL = push_bit 4 1"
definition PARSE_ONLY_FLOAT :: u32 where "PARSE_ONLY_FLOAT = push_bit 5 1"
definition PARSE_ONLY_BIND :: u32 where "PARSE_ONLY_BIND = push_bit 6 1"
definition PARSE_ONLY_GROUP :: u32 where "PARSE_ONLY_GROUP = push_bit 7 1"
definition PARSE_ONLY_SUB_GROUP :: u32 where "PARSE_ONLY_SUB_GROUP = push_bit 8 1"
definition PARSE_SUB_GROUP :: u32 where "PARSE_SUB_GROUP = push_bit 9 1"

lemmas parse_flag_defs = PARSE_NONE_def PARSE_GROUP_def PARSE_ACTION_def PARSE_ONLY_UINT_def
  PARSE_ONLY_BOOL_def PARSE_ONLY_FLOAT_def PARSE_ONLY_BIND_def PARSE_ONLY_GROUP_def
  PARSE_ONLY_SUB_GROUP_def PARSE_SUB_GROUP_def

subsection \<open>List types\<close>

text \<open>The enum in its order; \<open>displaylist_enum\<close> is the value C gives each tag
  (\<open>DISPLAYLIST_NONE = 0\<close>, then consecutive), \<open>displaylist_of_enum\<close> reads an
  \<open>unsigned type\<close> back, \<open>None\<close> for a value outside the enum.\<close>

datatype displaylist_type =
    DISPLAYLIST_NONE | DISPLAYLIST_INFO | DISPLAYLIST_HELP |
  DISPLAYLIST_HELP_SCREEN_LIST | DISPLAYLIST_MAIN_MENU | DISPLAYLIST_GENERIC |
  DISPLAYLIST_SETTINGS | DISPLAYLIST_SETTINGS_ALL | DISPLAYLIST_HORIZONTAL |
  DISPLAYLIST_HORIZONTAL_CONTENT_ACTIONS | DISPLAYLIST_HISTORY |
  DISPLAYLIST_PLAYLIST_COLLECTION | DISPLAYLIST_DEFAULT | DISPLAYLIST_CORES |
  DISPLAYLIST_CORES_SUPPORTED | DISPLAYLIST_CORES_COLLECTION_SUPPORTED |
  DISPLAYLIST_CORES_UPDATER | DISPLAYLIST_CORES_DETECTED | DISPLAYLIST_CORE_OPTIONS |
  DISPLAYLIST_CORE_INFO | DISPLAYLIST_PERFCOUNTERS_CORE |
  DISPLAYLIST_PERFCOUNTERS_FRONTEND | DISPLAYLIST_SHADER_PASS |
  DISPLAYLIST_SHADER_PRESET | DISPLAYLIST_DATABASES | DISPLAYLIST_DATABASE_CURSORS |
  DISPLAYLIST_DATABASE_PLAYLISTS | DISPLAYLIST_DATABASE_PLAYLISTS_HORIZONTAL |
  DISPLAYLIST_DATABASE_QUERY | DISPLAYLIST_DATABASE_ENTRY | DISPLAYLIST_AUDIO_FILTERS
  | DISPLAYLIST_VIDEO_FILTERS | DISPLAYLIST_CHEAT_FILES | DISPLAYLIST_REMAP_FILES |
  DISPLAYLIST_RECORD_CONFIG_FILES | DISPLAYLIST_CONFIG_FILES |
  DISPLAYLIST_CONTENT_HISTORY | DISPLAYLIST_IMAGES | DISPLAYLIST_FONTS |
  DISPLAYLIST_OVERLAYS | DISPLAYLIST_SHADER_PARAMETERS |
  DISPLAYLIST_SHADER_PARAMETERS_PRESET | DISPLAYLIST_SYSTEM_INFO |
  DISPLAYLIST_DEBUG_INFO | DISPLAYLIST_USER_BINDS_LIST | DISPLAYLIST_ACCOUNTS_LIST |
  DISPLAYLIST_INPUT_SETTINGS_LIST | DISPLAYLIST_INPUT_HOTKEY_BINDS_LIST |
  DISPLAYLIST_PLAYLIST_SETTINGS_LIST | DISPLAYLIST_ACCOUNTS_CHEEVOS_LIST |
  DISPLAYLIST_LOAD_CONTENT_LIST | DISPLAYLIST_INFORMATION_LIST |
  DISPLAYLIST_CONTENT_SETTINGS | DISPLAYLIST_OPTIONS | DISPLAYLIST_OPTIONS_CHEATS |
  DISPLAYLIST_OPTIONS_REMAPPINGS | DISPLAYLIST_OPTIONS_MANAGEMENT |
  DISPLAYLIST_OPTIONS_DISK | DISPLAYLIST_OPTIONS_SHADERS |
  DISPLAYLIST_ADD_CONTENT_LIST | DISPLAYLIST_SCAN_DIRECTORY_LIST |
  DISPLAYLIST_ARCHIVE_ACTION | DISPLAYLIST_ARCHIVE_ACTION_DETECT_CORE |
  DISPLAYLIST_CORE_CONTENT
fun displaylist_enum :: "displaylist_type \<Rightarrow> nat" where
"displaylist_enum DISPLAYLIST_NONE = 0"
| "displaylist_enum DISPLAYLIST_INFO = 1"
| "displaylist_enum DISPLAYLIST_HELP = 2"
| "displaylist_enum DISPLAYLIST_HELP_SCREEN_LIST = 3"
| "displaylist_enum DISPLAYLIST_MAIN_MENU = 4"
| "displaylist_enum DISPLAYLIST_GENERIC = 5"
| "displaylist_enum DISPLAYLIST_SETTINGS = 6"
| "displaylist_enum DISPLAYLIST_SETTINGS_ALL = 7"
| "displaylist_enum DISPLAYLIST_HORIZONTAL = 8"
| "displaylist_enum DISPLAYLIST_HORIZONTAL_CONTENT_ACTIONS = 9"
| "displaylist_enum DISPLAYLIST_HISTORY = 10"
| "displaylist_enum DISPLAYLIST_PLAYLIST_COLLECTION = 11"
| "displaylist_enum DISPLAYLIST_DEFAULT = 12"
| "displaylist_enum DISPLAYLIST_CORES = 13"
| "displaylist_enum DISPLAYLIST_CORES_SUPPORTED = 14"
| "displaylist_enum DISPLAYLIST_CORES_COLLECTION_SUPPORTED = 15"
| "displaylist_enum DISPLAYLIST_CORES_UPDATER = 16"
| "displaylist_enum DISPLAYLIST_CORES_DETECTED = 17"
| "displaylist_enum DISPLAYLIST_CORE_OPTIONS = 18"
| "displaylist_enum DISPLAYLIST_CORE_INFO = 19"
| "displaylist_enum DISPLAYLIST_PERFCOUNTERS_CORE = 20"
| "displaylist_enum DISPLAYLIST_PERFCOUNTERS_FRONTEND = 21"
| "displaylist_enum DISPLAYLIST_SHADER_PASS = 22"
| "displaylist_enum DISPLAYLIST_SHADER_PRESET = 23"
| "displaylist_enum DISPLAYLIST_DATABASES = 24"
| "displaylist_enum DISPLAYLIST_DATABASE_CURSORS = 25"
| "displaylist_enum DISPLAYLIST_DATABASE_PLAYLISTS = 26"
| "displaylist_enum DISPLAYLIST_DATABASE_PLAYLISTS_HORIZONTAL = 27"
| "displaylist_enum DISPLAYLIST_DATABASE_QUERY = 28"
| "displaylist_enum DISPLAYLIST_DATABASE_ENTRY = 29"
| "displaylist_enum DISPLAYLIST_AUDIO_FILTERS = 30"
| "displaylist_enum DISPLAYLIST_VIDEO_FILTERS = 31"
| "displaylist_enum DISPLAYLIST_CHEAT_FILES = 32"
| "displaylist_enum DISPLAYLIST_REMAP_FILES = 33"
| "displaylist_enum DISPLAYLIST_RECORD_CONFIG_FILES = 34"
| "displaylist_enum DISPLAYLIST_CONFIG_FILES = 35"
| "displaylist_enum DISPLAYLIST_CONTENT_HISTORY = 36"
| "displaylist_enum DISPLAYLIST_IMAGES = 37"
| "displaylist_enum DISPLAYLIST_FONTS = 38"
| "displaylist_enum DISPLAYLIST_OVERLAYS = 39"
| "displaylist_enum DISPLAYLIST_SHADER_PARAMETERS = 40"
| "displaylist_enum DISPLAYLIST_SHADER_PARAMETERS_PRESET = 41"
| "displaylist_enum DISPLAYLIST_SYSTEM_INFO = 42"
| "displaylist_enum DISPLAYLIST_DEBUG_INFO = 43"
| "displaylist_enum DISPLAYLIST_USER_BINDS_LIST = 44"
| "displaylist_enum DISPLAYLIST_ACCOUNTS_LIST = 45"
| "displaylist_enum DISPLAYLIST_INPUT_SETTINGS_LIST = 46"
| "displaylist_enum DISPLAYLIST_INPUT_HOTKEY_BINDS_LIST = 47"
| "displaylist_enum DISPLAYLIST_PLAYLIST_SETTINGS_LIST = 48"
| "displaylist_enum DISPLAYLIST_ACCOUNTS_CHEEVOS_LIST = 49"
| "displaylist_enum DISPLAYLIST_LOAD_CONTENT_LIST = 50"
| "displaylist_enum DISPLAYLIST_INFORMATION_LIST = 51"
| "displaylist_enum DISPLAYLIST_CONTENT_SETTINGS = 52"
| "displaylist_enum DISPLAYLIST_OPTIONS = 53"
| "displaylist_enum DISPLAYLIST_OPTIONS_CHEATS = 54"
| "displaylist_enum DISPLAYLIST_OPTIONS_REMAPPINGS = 55"
| "displaylist_enum DISPLAYLIST_OPTIONS_MANAGEMENT = 56"
| "displaylist_enum DISPLAYLIST_OPTIONS_DISK = 57"
| "displaylist_enum DISPLAYLIST_OPTIONS_SHADERS = 58"
| "displaylist_enum DISPLAYLIST_ADD_CONTENT_LIST = 59"
| "displaylist_enum DISPLAYLIST_SCAN_DIRECTORY_LIST = 60"
| "displaylist_enum DISPLAYLIST_ARCHIVE_ACTION = 61"
| "displaylist_enum DISPLAYLIST_ARCHIVE_ACTION_DETECT_CORE = 62"
| "displaylist_enum DISPLAYLIST_CORE_CONTENT = 63"
definition displaylist_types :: "displaylist_type list" where
  "displaylist_types =
     [DISPLAYLIST_NONE, DISPLAYLIST_INFO, DISPLAYLIST_HELP, DISPLAYLIST_HELP_SCREEN_LIST,
      DISPLAYLIST_MAIN_MENU, DISPLAYLIST_GENERIC, DISPLAYLIST_SETTINGS, DISPLAYLIST_SETTINGS_ALL,
      DISPLAYLIST_HORIZONTAL, DISPLAYLIST_HORIZONTAL_CONTENT_ACTIONS, DISPLAYLIST_HISTORY, DISPLAYLIST_PLAYLIST_COLLECTION,
      DISPLAYLIST_DEFAULT, DISPLAYLIST_CORES, DISPLAYLIST_CORES_SUPPORTED, DISPLAYLIST_CORES_COLLECTION_SUPPORTED,
      DISPLAYLIST_CORES_UPDATER, DISPLAYLIST_CORES_DETECTED, DISPLAYLIST_CORE_OPTIONS, DISPLAYLIST_CORE_INFO,
      DISPLAYLIST_PERFCOUNTERS_CORE, DISPLAYLIST_PERFCOUNTERS_FRONTEND, DISPLAYLIST_SHADER_PASS, DISPLAYLIST_SHADER_PRESET,
      DISPLAYLIST_DATABASES, DISPLAYLIST_DATABASE_CURSORS, DISPLAYLIST_DATABASE_PLAYLISTS, DISPLAYLIST_DATABASE_PLAYLISTS_HORIZONTAL,
      DISPLAYLIST_DATABASE_QUERY, DISPLAYLIST_DATABASE_ENTRY, DISPLAYLIST_AUDIO_FILTERS, DISPLAYLIST_VIDEO_FILTERS,
      DISPLAYLIST_CHEAT_FILES, DISPLAYLIST_REMAP_FILES, DISPLAYLIST_RECORD_CONFIG_FILES, DISPLAYLIST_CONFIG_FILES,
      DISPLAYLIST_CONTENT_HISTORY, DISPLAYLIST_IMAGES, DISPLAYLIST_FONTS, DISPLAYLIST_OVERLAYS,
      DISPLAYLIST_SHADER_PARAMETERS, DISPLAYLIST_SHADER_PARAMETERS_PRESET, DISPLAYLIST_SYSTEM_INFO, DISPLAYLIST_DEBUG_INFO,
      DISPLAYLIST_USER_BINDS_LIST, DISPLAYLIST_ACCOUNTS_LIST, DISPLAYLIST_INPUT_SETTINGS_LIST, DISPLAYLIST_INPUT_HOTKEY_BINDS_LIST,
      DISPLAYLIST_PLAYLIST_SETTINGS_LIST, DISPLAYLIST_ACCOUNTS_CHEEVOS_LIST, DISPLAYLIST_LOAD_CONTENT_LIST, DISPLAYLIST_INFORMATION_LIST,
      DISPLAYLIST_CONTENT_SETTINGS, DISPLAYLIST_OPTIONS, DISPLAYLIST_OPTIONS_CHEATS, DISPLAYLIST_OPTIONS_REMAPPINGS,
      DISPLAYLIST_OPTIONS_MANAGEMENT, DISPLAYLIST_OPTIONS_DISK, DISPLAYLIST_OPTIONS_SHADERS, DISPLAYLIST_ADD_CONTENT_LIST,
      DISPLAYLIST_SCAN_DIRECTORY_LIST, DISPLAYLIST_ARCHIVE_ACTION, DISPLAYLIST_ARCHIVE_ACTION_DETECT_CORE, DISPLAYLIST_CORE_CONTENT]"

definition displaylist_of_enum :: "nat \<Rightarrow> displaylist_type option" where
  "displaylist_of_enum n =
     (if n < length displaylist_types then Some (displaylist_types ! n) else None)"

subsection \<open>The request\<close>

text \<open>\<open>menu_displaylist_info_t\<close>: the two \<open>file_list_t *\<close> are \<open>None\<close> when \<open>NULL\<close>;
  the \<open>rarch_setting_t *\<close> is an opaque address, \<open>None\<close> when \<open>NULL\<close>; the
  \<open>char[PATH_MAX_LENGTH]\<close> fields are strings. The field \<open>type\<close> is \<open>info_type\<close>
  (\<open>type\<close> is a keyword).\<close>

record menu_displaylist_info =
  need_sort :: bool
  need_refresh :: bool
  need_push :: bool
  list :: "file_list option"
  menu_list :: "file_list option"
  path :: string
  path_b :: string
  path_c :: string
  label :: string
  exts :: string
  info_type :: u32
  type_default :: u32
  directory_ptr :: nat
  flags :: u32
  setting :: "u32 option"

subsection \<open>Lemmas\<close>

lemma displaylist_types_enum: "map displaylist_enum displaylist_types = [0..<64]"
  by (simp add: displaylist_types_def upt_rec)

lemma length_displaylist_types: "length displaylist_types = 64"
  by (simp add: displaylist_types_def)

text \<open>Every value of the enum names exactly one tag, and \<open>displaylist_of_enum\<close> reads
  it back.\<close>

lemma displaylist_of_enum_iff:
  "displaylist_of_enum n = Some t \<longleftrightarrow> displaylist_enum t = n \<and> n < 64"
proof
  assume "displaylist_of_enum n = Some t"
  then have n: "n < 64" and t: "displaylist_types ! n = t"
    by (auto simp: displaylist_of_enum_def length_displaylist_types split: if_splits)
  have "displaylist_enum (displaylist_types ! n) = [0..<64] ! n"
    using n by (simp add: displaylist_types_enum [symmetric] length_displaylist_types)
  with n t show "displaylist_enum t = n \<and> n < 64" by simp
next
  assume "displaylist_enum t = n \<and> n < 64"
  then show "displaylist_of_enum n = Some t"
    by (cases t) (auto simp: displaylist_of_enum_def displaylist_types_def)
qed

lemma parse_flags_distinct_bits:
  "distinct [PARSE_NONE, PARSE_GROUP, PARSE_ACTION, PARSE_ONLY_UINT, PARSE_ONLY_BOOL,
     PARSE_ONLY_FLOAT, PARSE_ONLY_BIND, PARSE_ONLY_GROUP, PARSE_ONLY_SUB_GROUP, PARSE_SUB_GROUP]"
  by (simp add: parse_flag_defs)

end
