(* ===== verification/Spec2Isabelle.thy ===== *)
theory Spec2Isabelle
  imports CtrMemDebug CtrSbrk CtrShutdown CtrDebugOut Displaylist
begin

text \<open>
  \<^bold>\<open>A verification library for the 3DS frontend driver and the displaylist interface.\<close>

  The program has two parts. The Nintendo 3DS platform driver
  \<open>src/frontend/drivers/platform_ctr.c\<close> reserves the heaps before \<open>main\<close>, derives the
  default paths, starts and stops the system services, extracts the DSP firmware and
  registers its hooks in the driver table \<open>frontend_ctx_ctr\<close> that the application
  bootstrap calls; a block compiled out by \<open>#if 0\<close> holds memory probes, \<open>malloc\<close>/
  \<open>free\<close> wrappers and \<open>_sbrk_r\<close>. The displaylist interface
  \<open>src/menu/menu_displaylist.h\<close> declares the request a menu navigation builds and the
  entry points that turn it into a list and push it on the navigation stack; only the
  declarations are in this repository.

  \<^bold>\<open>Theories and correspondence.\<close>
  \<^item> \<open>Prelude\<close>: the machine types (\<open>u8\<close>, \<open>u32\<close>, \<open>s64\<close> as words), the lemma collections
    \<open>ctr_defs\<close> and \<open>path_defs\<close>, and the shared lemmas on narrowing casts, clamping, page
    masks, sums that do not wrap, and lists.
  \<^item> \<open>CtrHeap\<close>: \<open>__system_allocateHeaps\<close> and \<open>__libctru_exit\<close>. The heap globals are a
    record; each kernel call is a value of \<open>svc_call\<close> in the returned trace;
    \<open>mem_available\<close> keeps the \<open>int64_t\<close> arithmetic of the source; \<open>heap_size_spec\<close>
    is the same computation in natural numbers. \<open>kernel_regions\<close> replays a trace into
    the committed memory regions.
  \<^item> \<open>DspFirm\<close>: \<open>ctr_check_dspfirm\<close>. The SD card is a map from paths to byte lists,
    the scan loop over \<open>code.bin\<close> is \<open>dsp_scan\<close> (a \<open>function\<close> with a measure), the
    pointer comparison is done on 32-bit addresses, and a read past the buffer is the
    error \<open>OutOfBoundsRead\<close>.
  \<^item> \<open>CtrLifecycle\<close>: \<open>frontend_ctr_init\<close> and \<open>frontend_ctr_deinit\<close> as state
    transformers on \<open>ctr_state\<close>: the two audio driver structs are a store of slots
    written through the pointer \<open>dsp_audio_driver\<close>, the services are a set acquired and
    released, and every library call is appended to a trace. Which service calls
    succeed is the record \<open>ctr_hw\<close>.
  \<^item> \<open>CtrPaths\<close>: \<open>frontend_ctr_get_environment_settings\<close> over the libretro-common path
    helpers, with the truncation of \<open>strlcpy\<close>/\<open>strlcat\<close> to \<open>PATH_MAX_LENGTH\<close>, and its
    \<open>#if 0\<close> argument parsing \<open>ctr_autostart_args\<close> over \<open>argv\<close> as a list of strings,
    with reads past \<open>argv[argc]\<close> and \<open>%s\<close> of \<open>NULL\<close> as values of \<open>arg_error\<close>.
  \<^item> \<open>CtrMisc\<close>: the bit-field union \<open>ctr_result_value\<close> and \<open>dump_result_value\<close>,
    \<open>usleep\<close>, \<open>sysconf\<close>, the constant hooks, and \<open>wait_for_input\<close> twice: over a
    finite script of input frames (\<open>wait_for_input\<close>, a \<open>fun\<close>) and over an infinite
    stream of frames (\<open>wait_for_input_loop\<close>, a \<open>partial_function (option)\<close>).
  \<^item> \<open>CtrDebugOut\<close>: the console output: the \<open>printf\<close> conversions \<open>%08X\<close>,
    \<open>%016llX\<close>, \<open>%u\<close> and \<open>%-20s\<close>, the macros \<open>DEBUG_HOLD\<close>, \<open>DEBUG_VAR\<close>,
    \<open>DEBUG_VAR64\<close> and \<open>PRINTFPOS\<close>, and the text \<open>dump_result_value\<close> prints
    (\<open>dump_result_text\<close>), with the readers \<open>read_hex\<close>, \<open>read_dec\<close> and
    \<open>split_lines\<close> that state it can be read back.
  \<^item> \<open>CtrMemDebug\<close>: the memory probes of the \<open>#if 0\<close> block, first over the free byte
    count (\<open>ctr_crawl_memory\<close>, a \<open>function\<close>, and \<open>max_block_loop\<close>), then as written
    over \<open>debug_heap\<close>, newlib's allocator \<open>alloc_state\<close> with the record
    \<open>malloc_stats\<close> of the \<open>malloc\<close> wrapper's globals, every call going through
    \<open>ctr_malloc\<close> and \<open>ctr_free\<close> (the wrappers \<open>malloc\<close> and \<open>free\<close>).
  \<^item> \<open>CtrSbrk\<close>: \<open>_sbrk_r\<close> of the same block over the record \<open>sbrk_state\<close> (the static
    \<open>heap_start\<close> and the \<open>sbrk_*\<close> globals) in the environment \<open>sbrk_env\<close>
    (\<open>fake_heap_start\<close>, \<open>fake_heap_end\<close>, \<open>end\<close>, \<open>sp\<close>), with \<open>ENOMEM\<close> as an
    error value.
  \<^item> \<open>CtrShutdown\<close>: \<open>frontend_ctr_deinit\<close> composed with the \<open>wait_for_input\<close> it
    calls on a bottom-screen console (\<open>frontend_ctr_deinit_input\<close>): the part before the
    wait is \<open>deinit_until_wait\<close>, and SELECT ends the process there (\<open>ProcessExited\<close>).
  \<^item> \<open>FrontendDriver\<close>: the table \<open>frontend_ctx_driver_t\<close> as a record of optional hooks,
    \<open>frontend_ctx_ctr\<close> binding the hooks of the theories above,
    \<open>frontend_ctr_parse_drive_list\<close>, and the bootstrap as a step function \<open>boot_step\<close>
    with the inductive reachability relation \<open>boot_reach\<close>.
  \<^item> \<open>Displaylist\<close>: the data of \<open>src/menu/menu_displaylist.h\<close>: the parse flags,
    the \<open>DISPLAYLIST_*\<close> enum with its C values (\<open>displaylist_enum\<close>) and the request
    \<open>menu_displaylist_info_t\<close> as a record.

  \<^bold>\<open>What the lemmas show.\<close> The heaps fit the application memory; when the reserve
  fits, the 32-bit computation refines a specification in natural numbers; whenever the
  reported usage exceeds the application memory, the 32-bit subtraction wraps and the
  clamp to the available memory has no effect (C3, C8, C19). The firmware extraction
  writes exactly the slice the scan finds and touches nothing else, and whenever the
  first magic is the last word of \<open>code.bin\<close> the scan reads past it (C2, C17, C18).
  \<open>init\<close> followed by \<open>deinit\<close> releases every acquired service, in reverse order, the
  audio slots hold only working drivers, and \<open>deinit\<close> exits services that never
  started and reads an uninitialised byte when the CFG service is down (C1, C4, C20 to
  C22); these hold for runs in which the prompt of \<open>deinit\<close> returns: SELECT there ends
  the process with every service still held (C16). The default paths are as derived
  from \<open>elf_path_cst\<close>, and for any executable path the port directory is the path up to
  its last slash with the other directories joined onto it without a trailing slash (C5,
  C23); the disabled argument parsing sets up an auto-start as written, and formats a
  \<open>NULL\<close> argument exactly when one argument is given (C14, C15). Through the driver
  table, the bootstrap runs exactly when the firmware check stays in bounds, and a
  whole session releases every service (C6, C7). In the memory-debugging block the crawl
  terminates and finds the free memory rounded to 8 bytes, the bit search equals a
  closed form, the probes run through the wrappers agree with these and give every
  block back, and the \<open>malloc\<close> statistics bound every block (C11 to C13, C28); the
  blocks \<open>_sbrk_r\<close> hands out lie in the newlib heap that \<open>__system_allocateHeaps\<close> set
  up and do not overlap, but a negative increment escapes below the heap (C9, C27). The
  stream loop of \<open>wait_for_input\<close> returns exactly when a decisive frame comes, START is
  tested before SELECT, and \<open>usleep\<close> is exact (C10, C24, C29). \<open>DEBUG_VAR\<close> prints the
  name left-justified in 20 columns and a value that reads back, \<open>DEBUG_VAR64\<close> does so
  for a name without \<open>%\<close> (a \<open>%\<close> pasted into its format is undefined behaviour), and
  the printed fields of a \<open>Result\<close> rebuild it except its three unnamed bits (C25, C26).

  \<^bold>\<open>Bounds, measures and input scripts.\<close> No fuel is used. \<open>dsp_scan\<close> terminates
  by the measure \<open>length bs div 4 - i\<close>; \<open>ctr_crawl_memory\<close> by the lexicographic
  measure (free bytes, \<open>size\<close>), since each call takes memory or halves the size, and
  \<open>ctr_crawl_memory_heap\<close> by the same measure on the allocator's free bytes.
  \<open>wait_for_input\<close> may wait for ever: over a finite script it is \<open>None\<close> when the script
  ends while it still waits, and over a stream the \<open>partial_function (option)\<close> is
  \<open>None\<close> exactly when no decisive frame ever comes (C10). Witnesses use small concrete
  \<open>code.bin\<close> images (272 bytes holding a 16-byte firmware, and three crafted images,
  one for each read past the buffer), a one-page newlib heap for \<open>_sbrk_r\<close>, a 256-byte
  allocator region for the probes, and a three-entry \<open>argv\<close>.

  \<^bold>\<open>Not modelled.\<close> The Salamander build (\<open>IS_SALAMANDER\<close>); \<open>DEBUG_ERROR\<close>,
  whose expansion does not compile; the global \<open>select_pressed\<close>, written only in a
  disabled line after \<open>exit(0)\<close> and never read; \<open>RARCH_LOG\<close> logging and the
  \<open>printf\<close> calls outside \<open>dump_result_value\<close> and the macros; \<open>fflush\<close>; and the
  \<open>retro_assert\<close> checks of path truncation.
  newlib's allocator, libctru and the kernel are contracts, not implementations. The
  bootstrap that calls the driver table is not in this repository and follows the spec.
  The displaylist operations \<open>menu_displaylist_push_list\<close>,
  \<open>menu_displaylist_push_list_process\<close>, \<open>menu_displaylist_push\<close> and
  \<open>menu_displaylist_parse_settings\<close> are only declared in the header; their
  implementation \<open>menu_displaylist.c\<close> and the owner of the navigation stack
  \<open>menu_list\<close> are not in this repository, so neither is modelled.
\<close>

end
